theory Spec2Isabelle
  imports Main
begin

section \<open>Errors, retry outcomes and the call log\<close>

text \<open>
  A Go \<^verbatim>\<open>error\<close> value. \<open>Errorf\<close> is an error built by \<^verbatim>\<open>fmt.Errorf\<close> or
  \<^verbatim>\<open>errors.New\<close>, \<open>TencentCloudSDKError\<close> carries the code of an SDK error,
  \<open>OtherError\<close> is any other error of a client or service call, and
  \<open>StatusStill i s\<close> is
  \<^verbatim>\<open>fmt.Errorf("%v create cluster endpoint  status still is %v", i, s)\<close>. A nil pointer
  dereference or an index out of range aborts the operation; it is the value \<open>Panic\<close>,
  which no operation inspects.
\<close>

datatype error =
    Errorf string
  | TencentCloudSDKError string
  | OtherError string
  | StatusStill string int
  | Panic string

text \<open>The result of a retried closure: \<^verbatim>\<open>*resource.RetryError\<close>, \<open>None\<close> for nil.\<close>

datatype RetryError = RetryableError error | NonRetryableError error

datatype timeout = readRetryTimeout | writeRetryTimeout | Times nat timeout

subsection \<open>Requests\<close>

record CreateNatGatewayRequest =
  cr_VpcId :: string
  cr_NatGatewayName :: string
  cr_InternetMaxBandwidthOut :: int
  cr_MaxConcurrentConnection :: int
  cr_PublicIpAddresses :: "string list"
  cr_Zone :: "string option"
  cr_Tags :: "(string \<times> string) list"

record ModifyNatGatewayAttributeRequest =
  mn_NatGatewayId :: string
  mn_NatGatewayName :: "string option"
  mn_InternetMaxBandwidthOut :: "int option"

record ModifyRuleTemplateRequest =
  mr_TemplateId :: string
  mr_Type :: "int option"
  mr_Name :: "string option"
  mr_QualityDim :: "int option"
  mr_SourceObjectType :: "int option"
  mr_Description :: "string option"
  mr_SourceEngineTypes :: "int list"
  mr_MultiSourceFlag :: "bool option"
  mr_SqlExpression :: "string option"
  mr_ProjectId :: "string option"
  mr_WhereFlag :: "bool option"

record AsyncTriggerConfig =
  RetryConfig :: "int option list"
  MsgTTL :: "int option"

text \<open>
  A call of a method of the generated SDK client
  (\<^verbatim>\<open>meta.(*TencentCloudClient).apiV3Conn.UseXClient().Method(request)\<close>).
\<close>

datatype sdk_call =
    CreateNatGateway CreateNatGatewayRequest
  | DescribeNatGateways "string list"
  | ModifyNatGatewayAttribute ModifyNatGatewayAttributeRequest
  | ResetNatGatewayConnection string int
  | AssociateNatGatewayAddress string "string list"
  | DeleteNatGateway string
  | CreatePrometheusAgent "string option" "string option"
  | ModifyRuleTemplate ModifyRuleTemplateRequest
  | UpdateFunctionEventInvokeConfig string string "AsyncTriggerConfig option"

text \<open>
  A call of a method of the provider's service layer (\<^verbatim>\<open>VpcService\<close>, \<^verbatim>\<open>TagService\<close>,
  \<^verbatim>\<open>MonitorService\<close>, ...). The bodies of these methods are not part of the resource
  files; a call is logged with its arguments and answered by the environment.
\<close>

datatype service_call =
    DisassociateNatGatewayAddress string "string list"
  | ModifyTags string "(string \<times> string) list" "string list"
  | DescribeResourceTags string string string string
  | DescribeMonitorTmpCvmAgent string string
  | DescribeScfFunctionEventInvokeConfigById string string
  | CreateTdmqNamespaceRoleAttachment string string "string list" string
  | DescribeTdmqNamespaceRoleAttachment string string string
  | ModifyTdmqNamespaceRoleAttachment string string "string list" string
  | DeleteTdmqNamespaceRoleAttachment string string string
  | DescribeWedataRuleTemplateById string
  | EmrCreateInstance
  | EmrDescribeInstancesById string string
  | EmrUpdateInstance
  | EmrDeleteInstance
  | OfflineIsolatedInstances string

text \<open>
  The log of one run. \<open>Sdk\<close>, \<open>Service\<close> and \<open>Sleep\<close> are what the code does;
  \<open>RetryEnter\<close> and \<open>RetryLeave\<close> mark where a call of \<^verbatim>\<open>resource.Retry\<close> starts and
  what it returns. The environment answers a call by the number of events logged
  before it, so any sequence of answers can be supplied.
\<close>

datatype event =
    RetryEnter timeout
  | RetryLeave "error option"
  | Sdk sdk_call
  | Service service_call
  | Sleep nat

type_synonym log = "event list"

subsection \<open>Responses\<close>

record NatGateway =
  NatGatewayId :: "string option"
  State :: "string option"
  VpcId :: "string option"
  NatGatewayName :: "string option"
  MaxConcurrentConnection :: "int option"
  InternetMaxBandwidthOut :: "int option"
  CreatedTime :: "string option"
  PublicIpAddressSet :: "string list"
  Zone :: "string option"

record PrometheusAgent =
  pa_InstanceId :: "string option"
  pa_Name :: "string option"
  pa_AgentId :: "string option"

record TdmqRole =
  EnvironmentId :: string
  RoleName :: string
  Permissions :: "string list"
  CreateTime :: string

record RuleTemplate =
  rt_Type :: "int option"
  rt_Name :: "string option"
  rt_QualityDim :: "int option"
  rt_SourceObjectType :: "int option"
  rt_Description :: "string option"
  rt_SourceEngineTypes :: "int list option"
  rt_MultiSourceFlag :: "bool option"
  rt_SqlExpression :: "string option"
  rt_WhereFlag :: "bool option"

record ClusterInstancesInfo =
  Status :: "int option"
  MetaDb :: "string option"

subsection \<open>The environment\<close>

text \<open>
  Constants and helpers of the provider that the resource files use and whose
  declarations are not among them are parameters: the constants of the extension files,
  the number of further attempts that fit into a timeout after the first one, the
  decision of \<^verbatim>\<open>retryError\<close> whether an error is retried (given the extra codes passed to
  it), \<^verbatim>\<open>diffTags\<close> and \<^verbatim>\<open>BuildTagResourceName\<close>.
\<close>

record Extension =
  NAT_FAILED_STATE :: string
  NAT_EIP_MAX_LIMIT :: nat
  VPCNotFound :: string
  InternalError :: string
  EmrInternetStatusCreated :: int
  EmrInternetStatusDeleted :: int
  DisplayStrategyIsclusterList :: string
  retries :: "timeout \<Rightarrow> nat"
  retryable :: "error \<Rightarrow> string list \<Rightarrow> bool"
  diffTags :: "(string \<times> string) list \<Rightarrow> (string \<times> string) list
                 \<Rightarrow> (string \<times> string) list \<times> string list"
  BuildTagResourceName :: "string \<Rightarrow> string \<Rightarrow> string \<Rightarrow> string \<Rightarrow> string"

record VpcClient =
  rsp_CreateNatGateway :: "nat \<Rightarrow> error + NatGateway list"
  rsp_DescribeNatGateways :: "nat \<Rightarrow> error + NatGateway list"
  rsp_ModifyNatGatewayAttribute :: "nat \<Rightarrow> error option"
  rsp_ResetNatGatewayConnection :: "nat \<Rightarrow> error option"
  rsp_AssociateNatGatewayAddress :: "nat \<Rightarrow> error option"
  rsp_DisassociateNatGatewayAddress :: "nat \<Rightarrow> error option"
  rsp_DeleteNatGateway :: "nat \<Rightarrow> error option"

record TagService =
  rsp_ModifyTags :: "nat \<Rightarrow> error option"
  rsp_DescribeResourceTags :: "nat \<Rightarrow> error + (string \<times> string) list"

record MonitorClient =
  rsp_CreatePrometheusAgent :: "nat \<Rightarrow> error + string option"
  rsp_DescribeMonitorTmpCvmAgent :: "nat \<Rightarrow> error + PrometheusAgent option"

record ScfClient =
  rsp_UpdateFunctionEventInvokeConfig :: "nat \<Rightarrow> error option"
  rsp_DescribeScfFunctionEventInvokeConfigById :: "nat \<Rightarrow> error + AsyncTriggerConfig option"

record TdmqService =
  rsp_CreateTdmqNamespaceRoleAttachment :: "nat \<Rightarrow> error option"
  rsp_DescribeTdmqNamespaceRoleAttachment :: "nat \<Rightarrow> error + TdmqRole option"
  rsp_ModifyTdmqNamespaceRoleAttachment :: "nat \<Rightarrow> error option"
  rsp_DeleteTdmqNamespaceRoleAttachment :: "nat \<Rightarrow> error option"

record WedataClient =
  rsp_ModifyRuleTemplate :: "nat \<Rightarrow> error option"
  rsp_DescribeWedataRuleTemplateById :: "nat \<Rightarrow> error + RuleTemplate option"

record EMRService =
  rsp_CreateInstance :: "nat \<Rightarrow> error + string"
  rsp_DescribeInstancesById :: "nat \<Rightarrow> ClusterInstancesInfo list \<times> error option"
  rsp_UpdateInstance :: "nat \<Rightarrow> error option"
  rsp_DeleteInstance :: "nat \<Rightarrow> error option"
  rsp_OfflineIsolatedInstances :: "nat \<Rightarrow> error option"

record TencentCloudClient =
  Region :: string
  ext :: Extension
  vpc :: VpcClient
  tag :: TagService
  monitor :: MonitorClient
  scf :: ScfClient
  tdmq :: TdmqService
  wedata :: WedataClient
  emr :: EMRService

definition retryError :: "TencentCloudClient \<Rightarrow> error \<Rightarrow> string list \<Rightarrow> RetryError" where
  "retryError m e codes =
     (if retryable (ext m) e codes then RetryableError e else NonRetryableError e)"

subsection \<open>resource.Retry\<close>

text \<open>
  \<^verbatim>\<open>resource.Retry(timeout, f)\<close> of the Terraform plugin SDK calls \<open>f\<close> until it returns
  nil (Retry returns nil), a non-retryable error (Retry returns it), or the timeout
  expires (Retry returns the last error of \<open>f\<close>). The first attempt is made at once; the
  timeout is the number of further attempts that fit into it. A closure works on the
  variables it captures (\<open>'v\<close>) and on the log.
\<close>

type_synonym 'v closure = "'v \<Rightarrow> log \<Rightarrow> RetryError option \<times> 'v \<times> log"

fun retry_loop :: "nat \<Rightarrow> 'v closure \<Rightarrow> 'v \<Rightarrow> log \<Rightarrow> error option \<times> 'v \<times> log" where
  "retry_loop 0 f v tr =
     (case f v tr of
        (None, v', tr') \<Rightarrow> (None, v', tr')
      | (Some (NonRetryableError e), v', tr') \<Rightarrow> (Some e, v', tr')
      | (Some (RetryableError e), v', tr') \<Rightarrow> (Some e, v', tr'))"
| "retry_loop (Suc n) f v tr =
     (case f v tr of
        (None, v', tr') \<Rightarrow> (None, v', tr')
      | (Some (NonRetryableError e), v', tr') \<Rightarrow> (Some e, v', tr')
      | (Some (RetryableError e), v', tr') \<Rightarrow> retry_loop n f v' tr')"

definition Retry ::
  "TencentCloudClient \<Rightarrow> timeout \<Rightarrow> 'v closure \<Rightarrow> 'v \<Rightarrow> log \<Rightarrow> error option \<times> 'v \<times> log" where
  "Retry m t f v tr =
     (case retry_loop (retries (ext m) t) f v (tr @ [RetryEnter t]) of
        (r, v', tr') \<Rightarrow> (r, v', tr' @ [RetryLeave r]))"

subsection \<open>Resource data and compound IDs\<close>

text \<open>
  \<^verbatim>\<open>schema.ResourceData\<close> of a resource whose attributes are the record \<open>'a\<close>: the ID, the
  attributes of the prior state, and the attributes that \<^verbatim>\<open>d.Get\<close> reads and \<^verbatim>\<open>d.Set\<close>
  writes. \<^verbatim>\<open>d.HasChange(k)\<close> compares field \<open>k\<close> of the two.
\<close>

record 'a ResourceData =
  Id :: string
  prior :: 'a
  attrs :: 'a

text \<open>
  The declaration of \<^verbatim>\<open>FILED_SP\<close> is not among the resource files; the import examples in
  their headers (\<^verbatim>\<open>instance_id#agent_id\<close>, \<^verbatim>\<open>function_name#namespace\<close>) give its value.
\<close>

definition FILED_SP :: string where
  "FILED_SP = ''#''"

text \<open>Go's \<^verbatim>\<open>strings.Join\<close>.\<close>

fun Join :: "string list \<Rightarrow> string \<Rightarrow> string" where
  "Join [] sep = []"
| "Join [x] sep = x"
| "Join (x # y # ys) sep = x @ sep @ Join (y # ys) sep"

text \<open>
  Go's \<^verbatim>\<open>strings.Split\<close>: the string is cut at every occurrence of the separator, found
  from the left and not overlapping; an empty separator cuts after every character.
  \<open>splitFrom sep cur s\<close> scans \<open>s\<close> with \<open>cur\<close> the part read since the last cut.
\<close>

function splitFrom :: "string \<Rightarrow> string \<Rightarrow> string \<Rightarrow> string list" where
  "splitFrom sep cur [] = [cur]"
| "splitFrom sep cur (c # cs) =
     (if sep \<noteq> [] \<and> take (length sep) (c # cs) = sep
      then cur # splitFrom sep [] (drop (length sep) (c # cs))
      else splitFrom sep (cur @ [c]) cs)"
  by pat_completeness auto
termination
  by (relation "measure (\<lambda>(sep, cur, s). length s)") auto

definition Split :: "string \<Rightarrow> string \<Rightarrow> string list" where
  "Split s sep = (if sep = [] then map (\<lambda>c. [c]) s else splitFrom sep [] s)"

section \<open>Resource declarations\<close>

text \<open>
  The lifecycle fields of a \<^verbatim>\<open>schema.Resource\<close>: each names the function it is set to, or
  is \<open>None\<close> when the declaration leaves it out. The \<^verbatim>\<open>Schema\<close> field is embedded
  separately for the NAT gateway.
\<close>

record Resource =
  Create :: "string option"
  Read :: "string option"
  Update :: "string option"
  Delete :: "string option"
  Importer :: bool

definition resourceTencentCloudNatGateway :: Resource where
  "resourceTencentCloudNatGateway =
     \<lparr> Create = Some ''resourceTencentCloudNatGatewayCreate'',
       Read = Some ''resourceTencentCloudNatGatewayRead'',
       Update = Some ''resourceTencentCloudNatGatewayUpdate'',
       Delete = Some ''resourceTencentCloudNatGatewayDelete'',
       Importer = True \<rparr>"

definition resourceTencentCloudMonitorTmpCvmAgent :: Resource where
  "resourceTencentCloudMonitorTmpCvmAgent =
     \<lparr> Create = Some ''resourceTencentCloudMonitorTmpCvmAgentCreate'',
       Read = Some ''resourceTencentCloudMonitorTmpCvmAgentRead'',
       Update = None,
       Delete = Some ''resourceTencentCloudMonitorTmpCvmAgentDelete'',
       Importer = True \<rparr>"

definition resourceTencentCloudWedataRuleTemplate :: Resource where
  "resourceTencentCloudWedataRuleTemplate =
     \<lparr> Create = Some ''resourceTencentCloudWedataRuleTemplateCreate'',
       Read = Some ''resourceTencentCloudWedataRuleTemplateRead'',
       Update = Some ''resourceTencentCloudWedataRuleTemplateUpdate'',
       Delete = Some ''resourceTencentCloudWedataRuleTemplateDelete'',
       Importer = True \<rparr>"

definition resourceTencentCloudScfFunctionEventInvokeConfig :: Resource where
  "resourceTencentCloudScfFunctionEventInvokeConfig =
     \<lparr> Create = Some ''resourceTencentCloudScfFunctionEventInvokeConfigCreate'',
       Read = Some ''resourceTencentCloudScfFunctionEventInvokeConfigRead'',
       Update = Some ''resourceTencentCloudScfFunctionEventInvokeConfigUpdate'',
       Delete = Some ''resourceTencentCloudScfFunctionEventInvokeConfigDelete'',
       Importer = True \<rparr>"

definition resourceTencentCloudTdmqNamespaceRoleAttachment :: Resource where
  "resourceTencentCloudTdmqNamespaceRoleAttachment =
     \<lparr> Create = Some ''resourceTencentCloudTdmqNamespaceRoleAttachmentCreate'',
       Read = Some ''resourceTencentCloudTdmqNamespaceRoleAttachmentRead'',
       Update = Some ''resourceTencentCloudTdmqNamespaceRoleAttachmentUpdate'',
       Delete = Some ''resourceTencentCloudTdmqNamespaceRoleAttachmentDelete'',
       Importer = True \<rparr>"

definition resourceTencentCloudEmrCluster :: Resource where
  "resourceTencentCloudEmrCluster =
     \<lparr> Create = Some ''resourceTencentCloudEmrClusterCreate'',
       Read = Some ''resourceTencentCloudEmrClusterRead'',
       Update = Some ''resourceTencentCloudEmrClusterUpdate'',
       Delete = Some ''resourceTencentCloudEmrClusterDelete'',
       Importer = False \<rparr>"

definition resourceTencentCloudTdmqRabbitmqUser :: Resource where
  "resourceTencentCloudTdmqRabbitmqUser =
     \<lparr> Create = Some ''resourceTencentCloudTdmqRabbitmqUserCreate'',
       Read = Some ''resourceTencentCloudTdmqRabbitmqUserRead'',
       Update = Some ''resourceTencentCloudTdmqRabbitmqUserUpdate'',
       Delete = Some ''resourceTencentCloudTdmqRabbitmqUserDelete'',
       Importer = False \<rparr>"

text \<open>
  The resource definitions of the repository: every function of the source files that
  returns a \<^verbatim>\<open>schema.Resource\<close> with a create operation. The two data sources set
  \<^verbatim>\<open>Read\<close> only and are not resources.
\<close>

definition resources :: "Resource list" where
  "resources =
     [resourceTencentCloudNatGateway, resourceTencentCloudMonitorTmpCvmAgent,
      resourceTencentCloudWedataRuleTemplate, resourceTencentCloudScfFunctionEventInvokeConfig,
      resourceTencentCloudTdmqNamespaceRoleAttachment, resourceTencentCloudEmrCluster,
      resourceTencentCloudTdmqRabbitmqUser]"

definition declares_all_four :: "Resource \<Rightarrow> bool" where
  "declares_all_four r \<longleftrightarrow>
     Create r \<noteq> None \<and> Read r \<noteq> None \<and> Update r \<noteq> None \<and> Delete r \<noteq> None"

section \<open>Monitor tmp cvm agent\<close>

record CvmAgentAttrs =
  ca_instance_id :: string
  ca_name :: string
  ca_agent_id :: string

text \<open>\<^verbatim>\<open>d.GetOk\<close> of a string attribute: the value, if it is not the zero value.\<close>

definition GetOk_string :: "string \<Rightarrow> string option" where
  "GetOk_string v = (if v = [] then None else Some v)"

definition resourceTencentCloudMonitorTmpCvmAgentRead ::
  "TencentCloudClient \<Rightarrow> CvmAgentAttrs ResourceData \<Rightarrow> log
     \<Rightarrow> error option \<times> CvmAgentAttrs ResourceData \<times> log" where
  "resourceTencentCloudMonitorTmpCvmAgentRead m d tr =
     (case Split (Id d) FILED_SP of
        [ids0, ids1] \<Rightarrow>
          (let tr1 = tr @ [Service (DescribeMonitorTmpCvmAgent ids0 ids1)] in
           case rsp_DescribeMonitorTmpCvmAgent (monitor m) (length tr) of
             Inl err \<Rightarrow> (Some err, d, tr1)
           | Inr None \<Rightarrow>
               (Some (Errorf (''resource `tmpCvmAgent` '' @ ids1 @ '' does not exist'')),
                d\<lparr>Id := []\<rparr>, tr1)
           | Inr (Some tmpCvmAgent) \<Rightarrow>
               (let a1 = (case pa_InstanceId tmpCvmAgent of
                            None \<Rightarrow> attrs d | Some v \<Rightarrow> (attrs d)\<lparr>ca_instance_id := v\<rparr>);
                    a2 = (case pa_Name tmpCvmAgent of
                            None \<Rightarrow> a1 | Some v \<Rightarrow> a1\<lparr>ca_name := v\<rparr>);
                    a3 = (case pa_AgentId tmpCvmAgent of
                            None \<Rightarrow> a2 | Some v \<Rightarrow> a2\<lparr>ca_agent_id := v\<rparr>)
                in (None, d\<lparr>attrs := a3\<rparr>, tr1)))
      | _ \<Rightarrow> (Some (Errorf (''id is broken, id is '' @ Id d)), d, tr))"

definition CreatePrometheusAgent_closure ::
  "TencentCloudClient \<Rightarrow> string option \<Rightarrow> string option \<Rightarrow> string option option closure" where
  "CreatePrometheusAgent_closure m reqInstanceId reqName response tr =
     (let tr1 = tr @ [Sdk (CreatePrometheusAgent reqInstanceId reqName)] in
      case rsp_CreatePrometheusAgent (monitor m) (length tr) of
        Inl e \<Rightarrow> (Some (retryError m e []), response, tr1)
      | Inr result \<Rightarrow> (None, Some result, tr1))"

definition resourceTencentCloudMonitorTmpCvmAgentCreate ::
  "TencentCloudClient \<Rightarrow> CvmAgentAttrs ResourceData \<Rightarrow> log
     \<Rightarrow> error option \<times> CvmAgentAttrs ResourceData \<times> log" where
  "resourceTencentCloudMonitorTmpCvmAgentCreate m d tr =
     (let instanceId = (case GetOk_string (ca_instance_id (attrs d)) of
                          None \<Rightarrow> [] | Some v \<Rightarrow> v)
      in case Retry m writeRetryTimeout
                (CreatePrometheusAgent_closure m (GetOk_string (ca_instance_id (attrs d)))
                   (GetOk_string (ca_name (attrs d))))
                None tr of
           (Some err, response, tr1) \<Rightarrow> (Some err, d, tr1)
         | (None, None, tr1) \<Rightarrow> (Some (Panic ''nil response''), d, tr1)
         | (None, Some None, tr1) \<Rightarrow> (Some (Panic ''nil AgentId''), d, tr1)
         | (None, Some (Some tmpCvmAgentId), tr1) \<Rightarrow>
             resourceTencentCloudMonitorTmpCvmAgentRead m
               (d\<lparr>Id := Join [instanceId, tmpCvmAgentId] FILED_SP\<rparr>) tr1)"

definition resourceTencentCloudMonitorTmpCvmAgentDelete ::
  "TencentCloudClient \<Rightarrow> CvmAgentAttrs ResourceData \<Rightarrow> log
     \<Rightarrow> error option \<times> CvmAgentAttrs ResourceData \<times> log" where
  "resourceTencentCloudMonitorTmpCvmAgentDelete m d tr = (None, d, tr)"

section \<open>Scf function event invoke config\<close>

record AsyncTriggerConfigAttr =
  retry_config :: "int list"
  msg_ttl :: int

record ScfAttrs =
  sa_function_name :: string
  sa_namespace :: string
  sa_async_trigger_config :: "AsyncTriggerConfigAttr list"

definition zero_int :: "int option \<Rightarrow> int" where
  "zero_int v = (case v of None \<Rightarrow> 0 | Some n \<Rightarrow> n)"

definition resourceTencentCloudScfFunctionEventInvokeConfigRead ::
  "TencentCloudClient \<Rightarrow> ScfAttrs ResourceData \<Rightarrow> log
     \<Rightarrow> error option \<times> ScfAttrs ResourceData \<times> log" where
  "resourceTencentCloudScfFunctionEventInvokeConfigRead m d tr =
     (case Split (Id d) FILED_SP of
        [functionName, namespace] \<Rightarrow>
          (let tr1 = tr @ [Service (DescribeScfFunctionEventInvokeConfigById namespace functionName)] in
           case rsp_DescribeScfFunctionEventInvokeConfigById (scf m) (length tr) of
             Inl err \<Rightarrow> (Some err, d, tr1)
           | Inr None \<Rightarrow> (None, d\<lparr>Id := []\<rparr>, tr1)
           | Inr (Some cfg) \<Rightarrow>
               (None,
                d\<lparr>attrs := (attrs d)
                     \<lparr>sa_async_trigger_config :=
                        [\<lparr>retry_config = map zero_int (RetryConfig cfg),
                          msg_ttl = zero_int (MsgTTL cfg)\<rparr>],
                      sa_function_name := functionName,
                      sa_namespace := namespace\<rparr>\<rparr>,
                tr1))
      | _ \<Rightarrow> (Some (Errorf (''id is broken,'' @ Id d)), d, tr))"

definition UpdateFunctionEventInvokeConfig_closure ::
  "TencentCloudClient \<Rightarrow> string \<Rightarrow> string \<Rightarrow> AsyncTriggerConfig option \<Rightarrow> unit closure" where
  "UpdateFunctionEventInvokeConfig_closure m namespace functionName cfg u tr =
     (let tr1 = tr @ [Sdk (UpdateFunctionEventInvokeConfig namespace functionName cfg)] in
      case rsp_UpdateFunctionEventInvokeConfig (scf m) (length tr) of
        Some e \<Rightarrow> (Some (retryError m e []), u, tr1)
      | None \<Rightarrow> (None, u, tr1))"

text \<open>\<^verbatim>\<open>helper.InterfacesHeadMap\<close> and the request's \<^verbatim>\<open>AsyncTriggerConfig\<close> built from it.\<close>

definition asyncTriggerConfig_of :: "AsyncTriggerConfigAttr list \<Rightarrow> AsyncTriggerConfig option" where
  "asyncTriggerConfig_of l =
     (case l of
        [] \<Rightarrow> None
      | dMap # _ \<Rightarrow> Some \<lparr>RetryConfig = map Some (retry_config dMap), MsgTTL = Some (msg_ttl dMap)\<rparr>)"

definition resourceTencentCloudScfFunctionEventInvokeConfigUpdate ::
  "TencentCloudClient \<Rightarrow> ScfAttrs ResourceData \<Rightarrow> log
     \<Rightarrow> error option \<times> ScfAttrs ResourceData \<times> log" where
  "resourceTencentCloudScfFunctionEventInvokeConfigUpdate m d tr =
     (case Split (Id d) FILED_SP of
        [functionName, namespace] \<Rightarrow>
          (case Retry m writeRetryTimeout
                  (UpdateFunctionEventInvokeConfig_closure m namespace functionName
                     (asyncTriggerConfig_of (sa_async_trigger_config (attrs d))))
                  () tr of
             (Some err, u, tr1) \<Rightarrow> (Some err, d, tr1)
           | (None, u, tr1) \<Rightarrow> resourceTencentCloudScfFunctionEventInvokeConfigRead m d tr1)
      | _ \<Rightarrow> (Some (Errorf (''id is broken,'' @ Id d)), d, tr))"

definition resourceTencentCloudScfFunctionEventInvokeConfigCreate ::
  "TencentCloudClient \<Rightarrow> ScfAttrs ResourceData \<Rightarrow> log
     \<Rightarrow> error option \<times> ScfAttrs ResourceData \<times> log" where
  "resourceTencentCloudScfFunctionEventInvokeConfigCreate m d tr =
     (let functionName = sa_function_name (attrs d);
          namespace = sa_namespace (attrs d)
      in resourceTencentCloudScfFunctionEventInvokeConfigUpdate m
           (d\<lparr>Id := functionName @ FILED_SP @ namespace\<rparr>) tr)"

definition resourceTencentCloudScfFunctionEventInvokeConfigDelete ::
  "TencentCloudClient \<Rightarrow> ScfAttrs ResourceData \<Rightarrow> log
     \<Rightarrow> error option \<times> ScfAttrs ResourceData \<times> log" where
  "resourceTencentCloudScfFunctionEventInvokeConfigDelete m d tr = (None, d, tr)"

section \<open>Tdmq namespace role attachment\<close>

record TdmqAttrs =
  ta_environ_id :: string
  ta_role_name :: string
  ta_permissions :: "string list"
  ta_cluster_id :: string
  ta_create_time :: string

definition DescribeTdmqNamespaceRoleAttachment_closure ::
  "TencentCloudClient \<Rightarrow> string \<Rightarrow> string \<Rightarrow> string \<Rightarrow> TdmqAttrs ResourceData closure" where
  "DescribeTdmqNamespaceRoleAttachment_closure m environId roleName clusterId d tr =
     (let tr1 = tr @ [Service (DescribeTdmqNamespaceRoleAttachment environId roleName clusterId)] in
      case rsp_DescribeTdmqNamespaceRoleAttachment (tdmq m) (length tr) of
        Inl e \<Rightarrow> (Some (retryError m e []), d, tr1)
      | Inr None \<Rightarrow> (None, d\<lparr>Id := []\<rparr>, tr1)
      | Inr (Some info) \<Rightarrow>
          (None,
           d\<lparr>attrs := (attrs d)
                \<lparr>ta_environ_id := EnvironmentId info,
                 ta_role_name := RoleName info,
                 ta_permissions := Permissions info,
                 ta_create_time := CreateTime info\<rparr>\<rparr>,
           tr1))"

definition resourceTencentCloudTdmqNamespaceRoleAttachmentRead ::
  "TencentCloudClient \<Rightarrow> TdmqAttrs ResourceData \<Rightarrow> log
     \<Rightarrow> error option \<times> TdmqAttrs ResourceData \<times> log" where
  "resourceTencentCloudTdmqNamespaceRoleAttachmentRead m d tr =
     (case Split (Id d) FILED_SP of
        [environId, roleName] \<Rightarrow>
          Retry m readRetryTimeout
            (DescribeTdmqNamespaceRoleAttachment_closure m environId roleName
               (ta_cluster_id (attrs d)))
            d tr
      | _ \<Rightarrow> (Some (Errorf (''environment role id is borken, id is '' @ Id d)), d, tr))"

definition resourceTencentCloudTdmqNamespaceRoleAttachmentCreate ::
  "TencentCloudClient \<Rightarrow> TdmqAttrs ResourceData \<Rightarrow> log
     \<Rightarrow> error option \<times> TdmqAttrs ResourceData \<times> log" where
  "resourceTencentCloudTdmqNamespaceRoleAttachmentCreate m d tr =
     (let environId = (case GetOk_string (ta_environ_id (attrs d)) of None \<Rightarrow> [] | Some v \<Rightarrow> v);
          roleName = (case GetOk_string (ta_role_name (attrs d)) of None \<Rightarrow> [] | Some v \<Rightarrow> v);
          permissions = ta_permissions (attrs d);
          clusterId = (case GetOk_string (ta_cluster_id (attrs d)) of None \<Rightarrow> [] | Some v \<Rightarrow> v)
      in if GetOk_string (ta_environ_id (attrs d)) \<noteq> None \<and> length environId < 1
         then (Some (Errorf ''environ_id should be not empty string''), d, tr)
         else if GetOk_string (ta_role_name (attrs d)) \<noteq> None \<and> length roleName < 1
         then (Some (Errorf ''role_name should be not empty string''), d, tr)
         else if GetOk_string (ta_cluster_id (attrs d)) \<noteq> None \<and> length clusterId < 1
         then (Some (Errorf ''cluster_id should be not empty string''), d, tr)
         else
           (let tr1 = tr @ [Service (CreateTdmqNamespaceRoleAttachment environId roleName
                                       permissions clusterId)] in
            case rsp_CreateTdmqNamespaceRoleAttachment (tdmq m) (length tr) of
              Some err \<Rightarrow> (Some err, d, tr1)
            | None \<Rightarrow>
                resourceTencentCloudTdmqNamespaceRoleAttachmentRead m
                  (d\<lparr>Id := environId @ FILED_SP @ roleName\<rparr>) tr1))"

definition resourceTencentCloudTdmqNamespaceRoleAttachmentUpdate ::
  "TencentCloudClient \<Rightarrow> TdmqAttrs ResourceData \<Rightarrow> log
     \<Rightarrow> error option \<times> TdmqAttrs ResourceData \<times> log" where
  "resourceTencentCloudTdmqNamespaceRoleAttachmentUpdate m d tr =
     (case Split (Id d) FILED_SP of
        [environId, roleName] \<Rightarrow>
          (let clusterId = ta_cluster_id (attrs d);
               old = ta_permissions (prior d);
               now = ta_permissions (attrs d);
               permissions = (if old \<noteq> now then now else old);
               tr1 = tr @ [Service (ModifyTdmqNamespaceRoleAttachment environId roleName
                                      permissions clusterId)]
           in case rsp_ModifyTdmqNamespaceRoleAttachment (tdmq m) (length tr) of
                Some err \<Rightarrow> (Some err, d, tr1)
              | None \<Rightarrow> resourceTencentCloudTdmqNamespaceRoleAttachmentRead m d tr1)
      | _ \<Rightarrow> (Some (Errorf (''environment role id is borken, id is '' @ Id d)), d, tr))"

definition DeleteTdmqNamespaceRoleAttachment_closure ::
  "TencentCloudClient \<Rightarrow> string \<Rightarrow> string \<Rightarrow> string \<Rightarrow> unit closure" where
  "DeleteTdmqNamespaceRoleAttachment_closure m environId roleName clusterId u tr =
     (let tr1 = tr @ [Service (DeleteTdmqNamespaceRoleAttachment environId roleName clusterId)] in
      case rsp_DeleteTdmqNamespaceRoleAttachment (tdmq m) (length tr) of
        None \<Rightarrow> (None, u, tr1)
      | Some err \<Rightarrow>
          (case err of
             TencentCloudSDKError code \<Rightarrow>
               if code = VPCNotFound (ext m) then (None, u, tr1)
               else (Some (RetryableError err), u, tr1)
           | _ \<Rightarrow> (Some (RetryableError err), u, tr1)))"

definition resourceTencentCloudTdmqNamespaceRoleAttachmentDelete ::
  "TencentCloudClient \<Rightarrow> TdmqAttrs ResourceData \<Rightarrow> log
     \<Rightarrow> error option \<times> TdmqAttrs ResourceData \<times> log" where
  "resourceTencentCloudTdmqNamespaceRoleAttachmentDelete m d tr =
     (case Split (Id d) FILED_SP of
        [environId, roleName] \<Rightarrow>
          (case Retry m writeRetryTimeout
                  (DeleteTdmqNamespaceRoleAttachment_closure m environId roleName
                     (ta_cluster_id (attrs d)))
                  () tr of
             (err, u, tr1) \<Rightarrow> (err, d, tr1))
      | _ \<Rightarrow> (Some (Errorf (''environment role id is borken, id is '' @ Id d)), d, tr))"

section \<open>Wedata rule template\<close>

text \<open>
  Every argument of the resource is optional; \<open>None\<close> is an argument that is not set.
\<close>

record WedataAttrs =
  wa_type :: "int option"
  wa_name :: "string option"
  wa_quality_dim :: "int option"
  wa_source_object_type :: "int option"
  wa_description :: "string option"
  wa_source_engine_types :: "int list option"
  wa_multi_source_flag :: "bool option"
  wa_sql_expression :: "string option"
  wa_project_id :: "string option"
  wa_where_flag :: "bool option"

text \<open>\<^verbatim>\<open>d.HasChange(k)\<close> for the arguments of the resource.\<close>

definition wedata_HasChange :: "WedataAttrs ResourceData \<Rightarrow> string \<Rightarrow> bool" where
  "wedata_HasChange d k =
     (if k = ''type'' then wa_type (prior d) \<noteq> wa_type (attrs d)
      else if k = ''name'' then wa_name (prior d) \<noteq> wa_name (attrs d)
      else if k = ''quality_dim'' then wa_quality_dim (prior d) \<noteq> wa_quality_dim (attrs d)
      else if k = ''source_object_type''
        then wa_source_object_type (prior d) \<noteq> wa_source_object_type (attrs d)
      else if k = ''description'' then wa_description (prior d) \<noteq> wa_description (attrs d)
      else if k = ''source_engine_types''
        then wa_source_engine_types (prior d) \<noteq> wa_source_engine_types (attrs d)
      else if k = ''multi_source_flag''
        then wa_multi_source_flag (prior d) \<noteq> wa_multi_source_flag (attrs d)
      else if k = ''sql_expression'' then wa_sql_expression (prior d) \<noteq> wa_sql_expression (attrs d)
      else if k = ''project_id'' then wa_project_id (prior d) \<noteq> wa_project_id (attrs d)
      else if k = ''where_flag'' then wa_where_flag (prior d) \<noteq> wa_where_flag (attrs d)
      else False)"

text \<open>
  \<^verbatim>\<open>d.GetOk\<close> yields a value that is set and is not the zero value of its type;
  \<^verbatim>\<open>d.GetOkExists\<close> yields every value that is set.
\<close>

definition GetOk_opt :: "'a \<Rightarrow> 'a option \<Rightarrow> 'a option" where
  "GetOk_opt zero v = (if v = Some zero then None else v)"

definition wedata_immutableArgs :: "string list" where
  "wedata_immutableArgs =
     [''type'', ''name'', ''quality_dim'', ''source_object_type'',
      ''description'', ''source_engine_types'', ''multi_source_flag'',
      ''sql_expression'', ''project_id'', ''where_flag'']"

text \<open>\<^verbatim>\<open>if x != nil { _ = d.Set(k, x) }\<close>: the attribute after the statement.\<close>

definition Set_nonnil :: "'a option \<Rightarrow> 'a option \<Rightarrow> 'a option" where
  "Set_nonnil new old = (case new of None \<Rightarrow> old | Some v \<Rightarrow> Some v)"

definition resourceTencentCloudWedataRuleTemplateRead ::
  "TencentCloudClient \<Rightarrow> WedataAttrs ResourceData \<Rightarrow> log
     \<Rightarrow> error option \<times> WedataAttrs ResourceData \<times> log" where
  "resourceTencentCloudWedataRuleTemplateRead m d tr =
     (let tr1 = tr @ [Service (DescribeWedataRuleTemplateById (Id d))] in
      case rsp_DescribeWedataRuleTemplateById (wedata m) (length tr) of
        Inl err \<Rightarrow> (Some err, d, tr1)
      | Inr None \<Rightarrow> (None, d\<lparr>Id := []\<rparr>, tr1)
      | Inr (Some ruleTemplate) \<Rightarrow>
          (let a = attrs d
           in (None,
               d\<lparr>attrs := a
                    \<lparr>wa_type := Set_nonnil (rt_Type ruleTemplate) (wa_type a),
                     wa_name := Set_nonnil (rt_Name ruleTemplate) (wa_name a),
                     wa_quality_dim := Set_nonnil (rt_QualityDim ruleTemplate) (wa_quality_dim a),
                     wa_source_object_type :=
                       Set_nonnil (rt_SourceObjectType ruleTemplate) (wa_source_object_type a),
                     wa_description := Set_nonnil (rt_Description ruleTemplate) (wa_description a),
                     wa_source_engine_types :=
                       Set_nonnil (rt_SourceEngineTypes ruleTemplate) (wa_source_engine_types a),
                     wa_multi_source_flag :=
                       Set_nonnil (rt_MultiSourceFlag ruleTemplate) (wa_multi_source_flag a),
                     wa_sql_expression := Set_nonnil (rt_SqlExpression ruleTemplate) (wa_sql_expression a),
                     wa_where_flag := Set_nonnil (rt_WhereFlag ruleTemplate) (wa_where_flag a)\<rparr>\<rparr>,
               tr1)))"

definition ModifyRuleTemplate_closure ::
  "TencentCloudClient \<Rightarrow> ModifyRuleTemplateRequest \<Rightarrow> unit closure" where
  "ModifyRuleTemplate_closure m request u tr =
     (let tr1 = tr @ [Sdk (ModifyRuleTemplate request)] in
      case rsp_ModifyRuleTemplate (wedata m) (length tr) of
        Some e \<Rightarrow> (Some (retryError m e []), u, tr1)
      | None \<Rightarrow> (None, u, tr1))"

text \<open>
  The request of the update, built by the ten \<^verbatim>\<open>if d.HasChange(...)\<close> blocks that follow
  the check of the immutable arguments. The template ID is kept as the ID string.
\<close>

definition wedata_update_request :: "WedataAttrs ResourceData \<Rightarrow> ModifyRuleTemplateRequest" where
  "wedata_update_request d =
     (let a = attrs d in
      \<lparr> mr_TemplateId = Id d,
        mr_Type = (if wedata_HasChange d ''type'' then wa_type a else None),
        mr_Name = (if wedata_HasChange d ''name'' then GetOk_opt [] (wa_name a) else None),
        mr_QualityDim = (if wedata_HasChange d ''quality_dim'' then wa_quality_dim a else None),
        mr_SourceObjectType =
          (if wedata_HasChange d ''source_object_type'' then wa_source_object_type a else None),
        mr_Description =
          (if wedata_HasChange d ''description'' then GetOk_opt [] (wa_description a) else None),
        mr_SourceEngineTypes =
          (if wedata_HasChange d ''source_engine_types''
           then (case GetOk_opt [] (wa_source_engine_types a) of None \<Rightarrow> [] | Some l \<Rightarrow> l)
           else []),
        mr_MultiSourceFlag =
          (if wedata_HasChange d ''multi_source_flag'' then wa_multi_source_flag a else None),
        mr_SqlExpression =
          (if wedata_HasChange d ''sql_expression'' then GetOk_opt [] (wa_sql_expression a) else None),
        mr_ProjectId =
          (if wedata_HasChange d ''project_id'' then GetOk_opt [] (wa_project_id a) else None),
        mr_WhereFlag = (if wedata_HasChange d ''where_flag'' then wa_where_flag a else None) \<rparr>)"

definition resourceTencentCloudWedataRuleTemplateUpdate ::
  "TencentCloudClient \<Rightarrow> WedataAttrs ResourceData \<Rightarrow> log
     \<Rightarrow> error option \<times> WedataAttrs ResourceData \<times> log" where
  "resourceTencentCloudWedataRuleTemplateUpdate m d tr =
     (case find (wedata_HasChange d) wedata_immutableArgs of
        Some v \<Rightarrow> (Some (Errorf (''argument `'' @ v @ ''` cannot be changed'')), d, tr)
      | None \<Rightarrow>
          (case Retry m writeRetryTimeout (ModifyRuleTemplate_closure m (wedata_update_request d))
                  () tr of
             (Some err, u, tr1) \<Rightarrow> (Some err, d, tr1)
           | (None, u, tr1) \<Rightarrow> resourceTencentCloudWedataRuleTemplateRead m d tr1))"

section \<open>NAT gateway\<close>

record NatAttrs =
  na_vpc_id :: string
  na_name :: string
  na_max_concurrent :: int
  na_bandwidth :: int
  na_assigned_eip_set :: "string list"
  na_zone :: string
  na_tags :: "(string \<times> string) list"
  na_created_time :: string

subsection \<open>Create\<close>

definition CreateNatGateway_closure ::
  "TencentCloudClient \<Rightarrow> CreateNatGatewayRequest \<Rightarrow> NatGateway list option closure" where
  "CreateNatGateway_closure m request response tr =
     (let tr1 = tr @ [Sdk (CreateNatGateway request)] in
      case rsp_CreateNatGateway (vpc m) (length tr) of
        Inl e \<Rightarrow> (Some (retryError m e []), response, tr1)
      | Inr result \<Rightarrow> (None, Some result, tr1))"

text \<open>The closure of the poll that waits for the new gateway (lines 199 to 219).\<close>

definition NatGatewayCreate_poll :: "TencentCloudClient \<Rightarrow> string list \<Rightarrow> unit closure" where
  "NatGatewayCreate_poll m ids u tr =
     (let tr1 = tr @ [Sdk (DescribeNatGateways ids)] in
      case rsp_DescribeNatGateways (vpc m) (length tr) of
        Inl e \<Rightarrow> (Some (retryError m e []), u, tr1)
      | Inr result \<Rightarrow>
          if length result \<noteq> 1
          then (Some (NonRetryableError (Errorf ''creating error'')), u, tr1)
          else (case State (result ! 0) of
                  None \<Rightarrow> (Some (NonRetryableError (Panic ''nil State'')), u, tr1)
                | Some stat \<Rightarrow>
                    if stat = ''AVAILABLE'' then (None, u, tr1)
                    else (Some (RetryableError (Errorf ''creating not ready retry'')), u, tr1)))"

definition DescribeNatGateways_closure ::
  "TencentCloudClient \<Rightarrow> string list \<Rightarrow> NatGateway list option closure" where
  "DescribeNatGateways_closure m ids response tr =
     (let tr1 = tr @ [Sdk (DescribeNatGateways ids)] in
      case rsp_DescribeNatGateways (vpc m) (length tr) of
        Inl e \<Rightarrow> (Some (retryError m e []), response, tr1)
      | Inr result \<Rightarrow> (None, Some result, tr1))"

definition resourceTencentCloudNatGatewayRead ::
  "TencentCloudClient \<Rightarrow> NatAttrs ResourceData \<Rightarrow> log
     \<Rightarrow> error option \<times> NatAttrs ResourceData \<times> log" where
  "resourceTencentCloudNatGatewayRead m d tr =
     (case Retry m readRetryTimeout (DescribeNatGateways_closure m [Id d]) None tr of
        (Some err, response, tr1) \<Rightarrow> (Some err, d, tr1)
      | (None, None, tr1) \<Rightarrow> (Some (Panic ''nil response''), d, tr1)
      | (None, Some [], tr1) \<Rightarrow> (None, d\<lparr>Id := []\<rparr>, tr1)
      | (None, Some (gw # rest), tr1) \<Rightarrow>
          (case (VpcId gw, NatGatewayName gw, MaxConcurrentConnection gw,
                 InternetMaxBandwidthOut gw, CreatedTime gw, Zone gw) of
             (Some vpcId, Some natName, Some maxConcurrent, Some bandwidth,
              Some createdTime, Some zone) \<Rightarrow>
               (let d1 = d\<lparr>attrs := (attrs d)
                            \<lparr>na_vpc_id := vpcId, na_name := natName,
                             na_max_concurrent := maxConcurrent, na_bandwidth := bandwidth,
                             na_created_time := createdTime,
                             na_assigned_eip_set := PublicIpAddressSet gw,
                             na_zone := zone\<rparr>\<rparr>;
                    tr2 = tr1 @ [Service (DescribeResourceTags ''vpc'' ''nat'' (Region m) (Id d))]
                in case rsp_DescribeResourceTags (tag m) (length tr1) of
                     Inl err \<Rightarrow> (Some err, d1, tr2)
                   | Inr tags \<Rightarrow> (None, d1\<lparr>attrs := (attrs d1)\<lparr>na_tags := tags\<rparr>\<rparr>, tr2))
           | _ \<Rightarrow> (Some (Panic ''nil pointer dereference''), d, tr1)))"

definition nat_create_request :: "NatAttrs \<Rightarrow> CreateNatGatewayRequest" where
  "nat_create_request a =
     \<lparr> cr_VpcId = na_vpc_id a, cr_NatGatewayName = na_name a,
       cr_InternetMaxBandwidthOut = na_bandwidth a,
       cr_MaxConcurrentConnection = na_max_concurrent a,
       cr_PublicIpAddresses = na_assigned_eip_set a,
       cr_Zone = GetOk_string (na_zone a),
       cr_Tags = na_tags a \<rparr>"

text \<open>
  Lines 127 to 194 of the create function: the request, the retried CreateNatGateway
  call, the ID and the tags.
\<close>

definition NatGatewayCreate_submit ::
  "TencentCloudClient \<Rightarrow> NatAttrs ResourceData \<Rightarrow> log
     \<Rightarrow> error option \<times> NatAttrs ResourceData \<times> log" where
  "NatGatewayCreate_submit m d tr =
     (case Retry m readRetryTimeout (CreateNatGateway_closure m (nat_create_request (attrs d)))
             None tr of
        (Some err, response, tr1) \<Rightarrow> (Some err, d, tr1)
      | (None, None, tr1) \<Rightarrow> (Some (Panic ''nil response''), d, tr1)
      | (None, Some [], tr1) \<Rightarrow> (Some (Errorf ''NAT gateway ID is nil''), d, tr1)
      | (None, Some (gw # rest), tr1) \<Rightarrow>
          (case NatGatewayId gw of
             None \<Rightarrow> (Some (Panic ''nil NatGatewayId''), d, tr1)
           | Some natId \<Rightarrow>
               (let d1 = d\<lparr>Id := natId\<rparr> in
                if length (na_tags (attrs d)) > 0
                then (let resourceName = BuildTagResourceName (ext m) ''vpc'' ''nat'' (Region m) natId;
                          tr2 = tr1 @ [Service (ModifyTags resourceName (na_tags (attrs d)) [])]
                      in case rsp_ModifyTags (tag m) (length tr1) of
                           Some err \<Rightarrow> (Some err, d1, tr2)
                         | None \<Rightarrow> (None, d1, tr2))
                else (None, d1, tr1))))"

definition resourceTencentCloudNatGatewayCreate ::
  "TencentCloudClient \<Rightarrow> NatAttrs ResourceData \<Rightarrow> log
     \<Rightarrow> error option \<times> NatAttrs ResourceData \<times> log" where
  "resourceTencentCloudNatGatewayCreate m d tr =
     (case NatGatewayCreate_submit m d tr of
        (Some err, d1, tr1) \<Rightarrow> (Some err, d1, tr1)
      | (None, d1, tr1) \<Rightarrow>
          (case Retry m readRetryTimeout (NatGatewayCreate_poll m [Id d1]) () tr1 of
             (Some err, u, tr2) \<Rightarrow> (Some err, d1, tr2)
           | (None, u, tr2) \<Rightarrow> resourceTencentCloudNatGatewayRead m d1 tr2))"

subsection \<open>Update\<close>

definition ModifyNatGatewayAttribute_closure ::
  "TencentCloudClient \<Rightarrow> ModifyNatGatewayAttributeRequest \<Rightarrow> unit closure" where
  "ModifyNatGatewayAttribute_closure m request u tr =
     (let tr1 = tr @ [Sdk (ModifyNatGatewayAttribute request)] in
      case rsp_ModifyNatGatewayAttribute (vpc m) (length tr) of
        Some e \<Rightarrow> (Some (retryError m e []), u, tr1)
      | None \<Rightarrow> (None, u, tr1))"

definition ResetNatGatewayConnection_closure ::
  "TencentCloudClient \<Rightarrow> string \<Rightarrow> int \<Rightarrow> unit closure" where
  "ResetNatGatewayConnection_closure m natGatewayId concurrent u tr =
     (let tr1 = tr @ [Sdk (ResetNatGatewayConnection natGatewayId concurrent)] in
      case rsp_ResetNatGatewayConnection (vpc m) (length tr) of
        Some e \<Rightarrow> (Some (retryError m e [InternalError (ext m)]), u, tr1)
      | None \<Rightarrow> (None, u, tr1))"

definition DisassociateNatGatewayAddress_closure ::
  "TencentCloudClient \<Rightarrow> string \<Rightarrow> string list \<Rightarrow> unit closure" where
  "DisassociateNatGatewayAddress_closure m natGatewayId ips u tr =
     (let tr1 = tr @ [Service (DisassociateNatGatewayAddress natGatewayId ips)] in
      case rsp_DisassociateNatGatewayAddress (vpc m) (length tr) of
        Some e \<Rightarrow> (Some (retryError m e []), u, tr1)
      | None \<Rightarrow> (None, u, tr1))"

definition AssociateNatGatewayAddress_closure ::
  "TencentCloudClient \<Rightarrow> string \<Rightarrow> string list \<Rightarrow> unit closure" where
  "AssociateNatGatewayAddress_closure m natGatewayId ips u tr =
     (let tr1 = tr @ [Sdk (AssociateNatGatewayAddress natGatewayId ips)] in
      case rsp_AssociateNatGatewayAddress (vpc m) (length tr) of
        Some e \<Rightarrow> (Some (retryError m e []), u, tr1)
      | None \<Rightarrow> (None, u, tr1))"

text \<open>Lines 298 to 322: name and bandwidth.\<close>

definition NatGatewayUpdate_attribute ::
  "TencentCloudClient \<Rightarrow> NatAttrs ResourceData \<Rightarrow> log \<Rightarrow> error option \<times> log" where
  "NatGatewayUpdate_attribute m d tr =
     (let request =
            \<lparr> mn_NatGatewayId = Id d,
              mn_NatGatewayName =
                (if na_name (prior d) \<noteq> na_name (attrs d) then Some (na_name (attrs d)) else None),
              mn_InternetMaxBandwidthOut =
                (if na_bandwidth (prior d) \<noteq> na_bandwidth (attrs d)
                 then Some (na_bandwidth (attrs d)) else None) \<rparr>;
          changed = (na_name (prior d) \<noteq> na_name (attrs d) \<or>
                     na_bandwidth (prior d) \<noteq> na_bandwidth (attrs d))
      in if changed
         then (case Retry m readRetryTimeout (ModifyNatGatewayAttribute_closure m request) () tr of
                 (err, u, tr1) \<Rightarrow> (err, tr1))
         else (None, tr))"

text \<open>Lines 324 to 343: max_concurrent.\<close>

definition NatGatewayUpdate_concurrent ::
  "TencentCloudClient \<Rightarrow> NatAttrs ResourceData \<Rightarrow> log \<Rightarrow> error option \<times> log" where
  "NatGatewayUpdate_concurrent m d tr =
     (if na_max_concurrent (prior d) \<noteq> na_max_concurrent (attrs d)
      then (case Retry m readRetryTimeout
                   (ResetNatGatewayConnection_closure m (Id d) (na_max_concurrent (attrs d))) () tr of
              (err, u, tr1) \<Rightarrow> (err, tr1))
      else (None, tr))"

text \<open>
  Lines 369 to 384: the loop over the old EIPs. The state is the list of addresses of
  the request and \<^verbatim>\<open>backUpOldIp\<close>; \<open>n\<close> is \<^verbatim>\<open>len(oldEipSet)\<close>.
\<close>

fun unassign_loop ::
  "nat \<Rightarrow> string list \<Rightarrow> string list \<Rightarrow> string list \<times> string \<Rightarrow> string list \<times> string" where
  "unassign_loop n newEipSet [] (req, backUpOldIp) = (req, backUpOldIp)"
| "unassign_loop n newEipSet (publicIp # rest) (req, backUpOldIp) =
     (if publicIp \<notin> set newEipSet
      then (if length req + 1 = n
            then unassign_loop n newEipSet rest (req, publicIp)
            else unassign_loop n newEipSet rest (req @ [publicIp], backUpOldIp))
      else unassign_loop n newEipSet rest (req, backUpOldIp))"

text \<open>
  Lines 407 to 422: the loop over the new EIPs. The state is the list of addresses of
  the request and \<^verbatim>\<open>backUpNewIp\<close>.
\<close>

fun assign_loop ::
  "nat \<Rightarrow> nat \<Rightarrow> string list \<Rightarrow> string list \<Rightarrow> string list \<times> string \<Rightarrow> string list \<times> string" where
  "assign_loop limit eipSetLength oldEipSet [] (req, backUpNewIp) = (req, backUpNewIp)"
| "assign_loop limit eipSetLength oldEipSet (publicIp # rest) (req, backUpNewIp) =
     (if publicIp \<notin> set oldEipSet
      then (if length req + eipSetLength + 1 = limit
            then assign_loop limit eipSetLength oldEipSet rest (req, publicIp)
            else assign_loop limit eipSetLength oldEipSet rest (req @ [publicIp], backUpNewIp))
      else assign_loop limit eipSetLength oldEipSet rest (req, backUpNewIp))"

text \<open>A retried call that is made only when the condition holds.\<close>

definition Retry_when ::
  "bool \<Rightarrow> TencentCloudClient \<Rightarrow> timeout \<Rightarrow> unit closure \<Rightarrow> log \<Rightarrow> error option \<times> log" where
  "Retry_when c m t f tr =
     (if c then (case Retry m t f () tr of (err, u, tr1) \<Rightarrow> (err, tr1)) else (None, tr))"

text \<open>
  Lines 364 to 384 and 402 to 422: the addresses of the first disassociate request with
  \<^verbatim>\<open>backUpOldIp\<close>, and the addresses of the first associate request with
  \<^verbatim>\<open>backUpNewIp\<close>.
\<close>

definition unassigned_of :: "string list \<Rightarrow> string list \<Rightarrow> string list \<times> string" where
  "unassigned_of oldEipSet newEipSet =
     (if length oldEipSet > 0
      then unassign_loop (length oldEipSet) newEipSet oldEipSet ([], [])
      else ([], []))"

definition assigned_of :: "nat \<Rightarrow> string list \<Rightarrow> string list \<Rightarrow> string list \<times> string" where
  "assigned_of limit oldEipSet newEipSet =
     (if length newEipSet > 0
      then assign_loop limit (length newEipSet) oldEipSet newEipSet ([], [])
      else ([], []))"

text \<open>
  The four requests of lines 386 to 475, each made when its list or its backup address
  is not empty, with the two sleeps of three minutes.
\<close>

fun NatGatewayUpdate_eip_requests ::
  "TencentCloudClient \<Rightarrow> string \<Rightarrow> string list \<times> string \<Rightarrow> string list \<times> string \<Rightarrow> log
     \<Rightarrow> error option \<times> log" where
  "NatGatewayUpdate_eip_requests m natGatewayId (unassigned, backUpOldIp) (assigned, backUpNewIp) tr =
     (case Retry_when (length unassigned > 0) m readRetryTimeout
             (DisassociateNatGatewayAddress_closure m natGatewayId unassigned) tr of
        (Some err, tr1) \<Rightarrow> (Some err, tr1)
      | (None, tr1) \<Rightarrow>
          (case Retry_when (length assigned > 0) m readRetryTimeout
                  (AssociateNatGatewayAddress_closure m natGatewayId assigned) (tr1 @ [Sleep 180]) of
             (Some err, tr3) \<Rightarrow> (Some err, tr3)
           | (None, tr3) \<Rightarrow>
               (case Retry_when (backUpOldIp \<noteq> []) m readRetryTimeout
                       (DisassociateNatGatewayAddress_closure m natGatewayId [backUpOldIp])
                       (tr3 @ [Sleep 180]) of
                  (Some err, tr5) \<Rightarrow> (Some err, tr5)
                | (None, tr5) \<Rightarrow>
                    Retry_when (backUpNewIp \<noteq> []) m readRetryTimeout
                      (AssociateNatGatewayAddress_closure m natGatewayId [backUpNewIp]) tr5)))"

text \<open>Lines 347 to 478: assigned_eip_set.\<close>

definition NatGatewayUpdate_eip ::
  "TencentCloudClient \<Rightarrow> NatAttrs ResourceData \<Rightarrow> log \<Rightarrow> error option \<times> log" where
  "NatGatewayUpdate_eip m d tr =
     (if na_assigned_eip_set (prior d) \<noteq> na_assigned_eip_set (attrs d)
      then NatGatewayUpdate_eip_requests m (Id d)
             (unassigned_of (na_assigned_eip_set (prior d)) (na_assigned_eip_set (attrs d)))
             (assigned_of (NAT_EIP_MAX_LIMIT (ext m)) (na_assigned_eip_set (prior d))
                (na_assigned_eip_set (attrs d)))
             tr
      else (None, tr))"

text \<open>Lines 480 to 492: tags.\<close>

definition NatGatewayUpdate_tags ::
  "TencentCloudClient \<Rightarrow> NatAttrs ResourceData \<Rightarrow> log \<Rightarrow> error option \<times> log" where
  "NatGatewayUpdate_tags m d tr =
     (if na_tags (prior d) \<noteq> na_tags (attrs d)
      then (case diffTags (ext m) (na_tags (prior d)) (na_tags (attrs d)) of
              (replaceTags, deleteTags) \<Rightarrow>
                (let resourceName = BuildTagResourceName (ext m) ''vpc'' ''nat'' (Region m) (Id d)
                 in (rsp_ModifyTags (tag m) (length tr),
                     tr @ [Service (ModifyTags resourceName replaceTags deleteTags)])))
      else (None, tr))"

definition resourceTencentCloudNatGatewayUpdate ::
  "TencentCloudClient \<Rightarrow> NatAttrs ResourceData \<Rightarrow> log
     \<Rightarrow> error option \<times> NatAttrs ResourceData \<times> log" where
  "resourceTencentCloudNatGatewayUpdate m d tr =
     (if na_zone (prior d) \<noteq> na_zone (attrs d)
      then (Some (Errorf ''argument `zone` cannot be changed''), d, tr)
      else
        (case NatGatewayUpdate_attribute m d tr of
           (Some err, tr1) \<Rightarrow> (Some err, d, tr1)
         | (None, tr1) \<Rightarrow>
             (case NatGatewayUpdate_concurrent m d tr1 of
                (Some err, tr2) \<Rightarrow> (Some err, d, tr2)
              | (None, tr2) \<Rightarrow>
                  (case NatGatewayUpdate_eip m d tr2 of
                     (Some err, tr3) \<Rightarrow> (Some err, d, tr3)
                   | (None, tr3) \<Rightarrow>
                       (case NatGatewayUpdate_tags m d tr3 of
                          (err, tr4) \<Rightarrow> (err, d, tr4))))))"

subsection \<open>Delete\<close>

definition DeleteNatGateway_closure :: "TencentCloudClient \<Rightarrow> string \<Rightarrow> unit closure" where
  "DeleteNatGateway_closure m natGatewayId u tr =
     (let tr1 = tr @ [Sdk (DeleteNatGateway natGatewayId)] in
      case rsp_DeleteNatGateway (vpc m) (length tr) of
        Some e \<Rightarrow> (Some (retryError m e []), u, tr1)
      | None \<Rightarrow> (None, u, tr1))"

text \<open>The closure of the poll that waits for the gateway to be gone (lines 526 to 548).\<close>

definition NatGatewayDelete_poll :: "TencentCloudClient \<Rightarrow> string list \<Rightarrow> unit closure" where
  "NatGatewayDelete_poll m ids u tr =
     (let tr1 = tr @ [Sdk (DescribeNatGateways ids)] in
      case rsp_DescribeNatGateways (vpc m) (length tr) of
        Inl e \<Rightarrow> (Some (retryError m e []), u, tr1)
      | Inr result \<Rightarrow>
          if length result = 0 then (None, u, tr1)
          else (case State (result ! 0) of
                  None \<Rightarrow> (Some (NonRetryableError (Panic ''nil State'')), u, tr1)
                | Some stat \<Rightarrow>
                    if stat = NAT_FAILED_STATE (ext m)
                    then (Some (NonRetryableError (Errorf ''delete NAT failed'')), u, tr1)
                    else (Some (RetryableError (Errorf ''deleting retry'')), u, tr1 @ [Sleep 3])))"

definition resourceTencentCloudNatGatewayDelete ::
  "TencentCloudClient \<Rightarrow> NatAttrs ResourceData \<Rightarrow> log
     \<Rightarrow> error option \<times> NatAttrs ResourceData \<times> log" where
  "resourceTencentCloudNatGatewayDelete m d tr =
     (case Retry m writeRetryTimeout (DeleteNatGateway_closure m (Id d)) () tr of
        (Some err, u, tr1) \<Rightarrow> (Some err, d, tr1)
      | (None, u, tr1) \<Rightarrow>
          (case Retry m readRetryTimeout (NatGatewayDelete_poll m [Id d]) () (tr1 @ [Sleep 10]) of
             (err, u, tr2) \<Rightarrow> (err, d, tr2)))"

subsection \<open>The discipline of retried calls\<close>

text \<open>
  \<open>disciplined ins evs res\<close> reads the events \<open>evs\<close> that an operation has logged and
  checks them against the result \<open>res\<close> of the operation. The flag \<open>ins\<close> tells whether a
  call of \<^verbatim>\<open>resource.Retry\<close> is open. Every SDK call lies inside a call of
  \<^verbatim>\<open>resource.Retry\<close> whose timeout is \<^verbatim>\<open>readRetryTimeout\<close> or \<^verbatim>\<open>writeRetryTimeout\<close>; calls
  of \<^verbatim>\<open>resource.Retry\<close> do not nest and are all closed; where one returns an error,
  the log ends and the error is the result of the operation.
\<close>

fun disciplined :: "bool \<Rightarrow> event list \<Rightarrow> error option \<Rightarrow> bool" where
  "disciplined ins [] res = (\<not> ins)"
| "disciplined ins (RetryEnter t # es) res =
     (\<not> ins \<and> (t = readRetryTimeout \<or> t = writeRetryTimeout) \<and> disciplined True es res)"
| "disciplined ins (RetryLeave None # es) res = (ins \<and> disciplined False es res)"
| "disciplined ins (RetryLeave (Some e) # es) res = (ins \<and> es = [] \<and> res = Some e)"
| "disciplined ins (Sdk c # es) res = (ins \<and> disciplined ins es res)"
| "disciplined ins (Service c # es) res = disciplined ins es res"
| "disciplined ins (Sleep n # es) res = disciplined ins es res"

text \<open>An event that a closure logs: a call or a sleep.\<close>

fun inner :: "event \<Rightarrow> bool" where
  "inner (Sdk c) = True"
| "inner (Service c) = True"
| "inner (Sleep n) = True"
| "inner (RetryEnter t) = False"
| "inner (RetryLeave r) = False"

text \<open>
  \<open>well_logged tr res tr'\<close>: a piece of an operation that starts with the log \<open>tr\<close> and
  ends with the result \<open>res\<close> and the log \<open>tr'\<close> has only added events, in a disciplined
  way, and has seen no call of \<^verbatim>\<open>resource.Retry\<close> return an error unless it ends with
  an error itself.
\<close>

definition well_logged :: "log \<Rightarrow> error option \<Rightarrow> log \<Rightarrow> bool" where
  "well_logged tr res tr' \<longleftrightarrow>
     (\<exists>evs. tr' = tr @ evs \<and> disciplined False evs res \<and>
            (res = None \<longrightarrow> (\<forall>e. RetryLeave (Some e) \<notin> set evs)))"

section \<open>EMR cluster\<close>

text \<open>
  The attributes that the resource functions read themselves; the service method
  \<^verbatim>\<open>CreateInstance\<close> reads the others from the resource data.
\<close>

record EmrResourceSpec =
  master_count :: int
  task_count :: int
  core_count :: int

record EmrAttrs =
  ea_display_strategy :: string
  ea_time_unit :: "string option"
  ea_time_span :: "int option"
  ea_pay_mode :: "int option"
  ea_resource_spec :: "EmrResourceSpec list"
  ea_extend_fs_field :: string
  ea_instance_id :: string
  ea_tags :: "(string \<times> string) list"

text \<open>
  The closure of the polling loops of create (lines 367 to 388), update (lines 322 to 343)
  and delete (lines 423 to 447). They differ in the display strategy, in the SDK error
  codes on which the closure returns nil (\<open>codes\<close>) and in the expected status.
\<close>

definition EmrCluster_poll ::
  "TencentCloudClient \<Rightarrow> string list \<Rightarrow> int \<Rightarrow> string \<Rightarrow> string \<Rightarrow> unit closure" where
  "EmrCluster_poll m codes expected instanceId displayStrategy u tr =
     (let tr1 = tr @ [Service (EmrDescribeInstancesById instanceId displayStrategy)] in
      case rsp_DescribeInstancesById (emr m) (length tr) of
        (clusters, err) \<Rightarrow>
          if (case err of Some (TencentCloudSDKError code) \<Rightarrow> code \<in> set codes | _ \<Rightarrow> False)
          then (None, u, tr1)
          else
            (case (if length clusters > 0
                   then (case Status (clusters ! 0) of
                           None \<Rightarrow> Some (NonRetryableError (Panic ''nil Status''))
                         | Some status \<Rightarrow>
                             if status \<noteq> expected
                             then Some (RetryableError (StatusStill instanceId status))
                             else None)
                   else None) of
               Some r \<Rightarrow> (Some r, u, tr1)
             | None \<Rightarrow>
                 (case err of
                    Some e \<Rightarrow> (Some (RetryableError e), u, tr1)
                  | None \<Rightarrow> (None, u, tr1))))"

definition EmrClusterCreate_wait ::
  "TencentCloudClient \<Rightarrow> string \<Rightarrow> string \<Rightarrow> log \<Rightarrow> error option \<times> unit \<times> log" where
  "EmrClusterCreate_wait m instanceId displayStrategy tr =
     Retry m (Times 10 readRetryTimeout)
       (EmrCluster_poll m [''InternalError.ClusterNotFound'']
          (EmrInternetStatusCreated (ext m)) instanceId displayStrategy) () tr"

definition EmrClusterUpdate_wait ::
  "TencentCloudClient \<Rightarrow> string \<Rightarrow> log \<Rightarrow> error option \<times> unit \<times> log" where
  "EmrClusterUpdate_wait m instanceId tr =
     Retry m (Times 10 readRetryTimeout)
       (EmrCluster_poll m [''InternalError.ClusterNotFound'']
          (EmrInternetStatusCreated (ext m)) instanceId (DisplayStrategyIsclusterList (ext m))) () tr"

definition EmrClusterDelete_wait ::
  "TencentCloudClient \<Rightarrow> string \<Rightarrow> log \<Rightarrow> error option \<times> unit \<times> log" where
  "EmrClusterDelete_wait m instanceId tr =
     Retry m (Times 10 readRetryTimeout)
       (EmrCluster_poll m [''InternalError.ClusterNotFound'', ''UnauthorizedOperation'']
          (EmrInternetStatusDeleted (ext m)) instanceId (DisplayStrategyIsclusterList (ext m))) () tr"

definition resourceTencentCloudEmrClusterCreate ::
  "TencentCloudClient \<Rightarrow> EmrAttrs ResourceData \<Rightarrow> log
     \<Rightarrow> error option \<times> EmrAttrs ResourceData \<times> log" where
  "resourceTencentCloudEmrClusterCreate m d tr =
     (let tr1 = tr @ [Service EmrCreateInstance] in
      case rsp_CreateInstance (emr m) (length tr) of
        Inl err \<Rightarrow> (Some err, d, tr1)
      | Inr instanceId \<Rightarrow>
          (let d1 = d\<lparr>Id := instanceId, attrs := (attrs d)\<lparr>ea_instance_id := instanceId\<rparr>\<rparr>;
               displayStrategy = ea_display_strategy (attrs d)
           in case EmrClusterCreate_wait m instanceId displayStrategy tr1 of
                (Some err, u, tr2) \<Rightarrow> (Some err, d1, tr2)
              | (None, u, tr2) \<Rightarrow>
                  if length (ea_tags (attrs d)) > 0
                  then (let resourceName =
                              ''qcs::emr:'' @ Region m @ '':uin/:emr-instance/'' @ Id d1
                        in (rsp_ModifyTags (tag m) (length tr2), d1,
                            tr2 @ [Service (ModifyTags resourceName (ea_tags (attrs d)) [])]))
                  else (None, d1, tr2)))"

definition resourceTencentCloudEmrClusterUpdate ::
  "TencentCloudClient \<Rightarrow> EmrAttrs ResourceData \<Rightarrow> log
     \<Rightarrow> error option \<times> EmrAttrs ResourceData \<times> log" where
  "resourceTencentCloudEmrClusterUpdate m d tr =
     (let instanceId = Id d in
      if ea_time_unit (attrs d) = None \<or> ea_time_span (attrs d) = None \<or> ea_pay_mode (attrs d) = None
      then (Some (Errorf ''Time_unit, time_span or pay_mode must be set.''), d, tr)
      else
        (case (if ea_tags (prior d) \<noteq> ea_tags (attrs d)
               then (case diffTags (ext m) (ea_tags (prior d)) (ea_tags (attrs d)) of
                       (replaceTags, deleteTags) \<Rightarrow>
                         (rsp_ModifyTags (tag m) (length tr),
                          tr @ [Service (ModifyTags
                                  (BuildTagResourceName (ext m) ''emr'' ''emr-instance''
                                     (Region m) instanceId)
                                  replaceTags deleteTags)]))
               else (None, tr)) of
           (Some err, tr1) \<Rightarrow> (Some err, d, tr1)
         | (None, tr1) \<Rightarrow>
             (case ea_resource_spec (attrs d) of
                [] \<Rightarrow> (Some (Panic ''index out of range''), d, tr1)
              | resourceSpec # rest \<Rightarrow>
                  (let hasChange =
                         (map master_count (take 1 (ea_resource_spec (prior d))) \<noteq> [master_count resourceSpec] \<or>
                          map task_count (take 1 (ea_resource_spec (prior d))) \<noteq> [task_count resourceSpec] \<or>
                          map core_count (take 1 (ea_resource_spec (prior d))) \<noteq> [core_count resourceSpec])
                   in if ea_extend_fs_field (prior d) \<noteq> ea_extend_fs_field (attrs d)
                      then (Some (Errorf ''extend_fs_field not support update.''), d, tr1)
                      else if \<not> hasChange then (None, d, tr1)
                      else
                        (let tr2 = tr1 @ [Service EmrUpdateInstance] in
                         case rsp_UpdateInstance (emr m) (length tr1) of
                           Some err \<Rightarrow> (Some err, d, tr2)
                         | None \<Rightarrow>
                             (case EmrClusterUpdate_wait m instanceId tr2 of
                                (err, u, tr3) \<Rightarrow> (err, d, tr3)))))))"

definition OfflineIsolatedInstances_closure :: "TencentCloudClient \<Rightarrow> string \<Rightarrow> unit closure" where
  "OfflineIsolatedInstances_closure m metaDB u tr =
     (let tr1 = tr @ [Service (OfflineIsolatedInstances metaDB)] in
      case rsp_OfflineIsolatedInstances (emr m) (length tr) of
        Some err \<Rightarrow> (Some (retryError m err [InternalError (ext m)]), u, tr1)
      | None \<Rightarrow> (None, u, tr1))"

definition resourceTencentCloudEmrClusterDelete ::
  "TencentCloudClient \<Rightarrow> EmrAttrs ResourceData \<Rightarrow> log
     \<Rightarrow> error option \<times> EmrAttrs ResourceData \<times> log" where
  "resourceTencentCloudEmrClusterDelete m d tr =
     (let instanceId = Id d;
          tr1 = tr @ [Service (EmrDescribeInstancesById instanceId (DisplayStrategyIsclusterList (ext m)))]
      in case rsp_DescribeInstancesById (emr m) (length tr) of
           ([], err) \<Rightarrow> (Some (Errorf ''Not find clusters.''), d, tr1)
         | (cluster # rest, Some err) \<Rightarrow> (Some err, d, tr1)
         | (cluster # rest, None) \<Rightarrow>
             (let metaDB = MetaDb cluster; tr2 = tr1 @ [Service EmrDeleteInstance] in
              case rsp_DeleteInstance (emr m) (length tr1) of
                Some err \<Rightarrow> (Some err, d, tr2)
              | None \<Rightarrow>
                  (case EmrClusterDelete_wait m instanceId tr2 of
                     (Some err, u, tr3) \<Rightarrow> (Some err, d, tr3)
                   | (None, u, tr3) \<Rightarrow>
                       (case metaDB of
                          None \<Rightarrow> (None, d, tr3)
                        | Some db \<Rightarrow>
                            if db \<noteq> []
                            then (case Retry m writeRetryTimeout
                                         (OfflineIsolatedInstances_closure m db) () tr3 of
                                    (err, u, tr4) \<Rightarrow> (err, d, tr4))
                            else (None, d, tr3)))))"

text \<open>
  The answers of \<^verbatim>\<open>DescribeInstancesById\<close> on which the polling closure returns nil: an
  SDK error with one of the codes, or no error and either no cluster or a first cluster
  with the expected status.
\<close>

definition emr_poll_done :: "string list \<Rightarrow> int \<Rightarrow> ClusterInstancesInfo list \<times> error option \<Rightarrow> bool" where
  "emr_poll_done codes expected rsp \<longleftrightarrow>
     (\<exists>code \<in> set codes. snd rsp = Some (TencentCloudSDKError code)) \<or>
     (snd rsp = None \<and> (fst rsp = [] \<or> Status (fst rsp ! 0) = Some expected))"

section \<open>The schema of the NAT gateway\<close>

datatype ValueType = TypeString | TypeInt | TypeSet | TypeMap

text \<open>A value of a configuration: a string, an int, a set or list (as written), a map.\<close>

datatype cfg_value =
    VString string
  | VInt int
  | VSet "cfg_value list"
  | VMap "(string \<times> string) list"

text \<open>
  The validation functions that the schema names. Their bodies are not among the
  resource files.
\<close>

datatype ValidateFunc =
    validateStringLengthInRange nat nat
  | validateAllowedIntValue "int list"
  | validateIp

record ElemSchema =
  elem_Type :: ValueType
  elem_ValidateFunc :: "ValidateFunc option"

text \<open>
  A \<^verbatim>\<open>schema.Schema\<close> without its description. \<open>MinItems\<close> and \<open>MaxItems\<close> are 0 when
  the declaration does not set them.
\<close>

record Schema =
  Type :: ValueType
  Required :: bool
  Optional :: bool
  Computed :: bool
  ForceNew :: bool
  Default :: "cfg_value option"
  ValidateFunc :: "ValidateFunc option"
  Elem :: "ElemSchema option"
  MinItems :: nat
  MaxItems :: nat

definition plain :: "ValueType \<Rightarrow> Schema" where
  "plain t =
     \<lparr> Type = t, Required = False, Optional = False, Computed = False, ForceNew = False,
       Default = None, ValidateFunc = None, Elem = None, MinItems = 0, MaxItems = 0 \<rparr>"

definition NatGatewaySchema :: "(string \<times> Schema) list" where
  "NatGatewaySchema =
     [(''vpc_id'', (plain TypeString)\<lparr>Required := True, ForceNew := True\<rparr>),
      (''name'', (plain TypeString)
         \<lparr>Required := True, ValidateFunc := Some (validateStringLengthInRange 1 60)\<rparr>),
      (''max_concurrent'', (plain TypeInt)
         \<lparr>Optional := True, Default := Some (VInt 1000000),
          ValidateFunc := Some (validateAllowedIntValue [1000000, 3000000, 10000000])\<rparr>),
      (''bandwidth'', (plain TypeInt)\<lparr>Optional := True, Default := Some (VInt 100)\<rparr>),
      (''assigned_eip_set'', (plain TypeSet)
         \<lparr>Required := True,
          Elem := Some \<lparr>elem_Type = TypeString, elem_ValidateFunc = Some validateIp\<rparr>,
          MinItems := 1, MaxItems := 10\<rparr>),
      (''zone'', (plain TypeString)\<lparr>Optional := True, Computed := True\<rparr>),
      (''tags'', (plain TypeMap)\<lparr>Optional := True\<rparr>),
      (''created_time'', (plain TypeString)\<lparr>Computed := True\<rparr>)]"

text \<open>
  Modelled from the spec: the validation functions \<^verbatim>\<open>validateStringLengthInRange\<close>,
  \<^verbatim>\<open>validateAllowedIntValue\<close> and \<^verbatim>\<open>validateIp\<close> are missing. By their names and the
  descriptions of the arguments, the first accepts a string whose length lies between
  the two bounds, the second an int of the list; what \<^verbatim>\<open>validateIp\<close> accepts is the
  parameter \<open>is_ip\<close>.
\<close>

fun run_ValidateFunc :: "(string \<Rightarrow> bool) \<Rightarrow> ValidateFunc \<Rightarrow> cfg_value \<Rightarrow> bool" where
  "run_ValidateFunc is_ip (validateStringLengthInRange lo hi) (VString v) =
     (lo \<le> length v \<and> length v \<le> hi)"
| "run_ValidateFunc is_ip (validateAllowedIntValue allowed) (VInt v) = (v \<in> set allowed)"
| "run_ValidateFunc is_ip validateIp (VString v) = is_ip v"
| "run_ValidateFunc is_ip f v = False"

text \<open>
  Modelled from the spec: the type check of the plugin SDK is missing; a value has the
  type of its constructor.
\<close>

fun has_type :: "ValueType \<Rightarrow> cfg_value \<Rightarrow> bool" where
  "has_type TypeString (VString v) = True"
| "has_type TypeInt (VInt v) = True"
| "has_type TypeSet (VSet v) = True"
| "has_type TypeMap (VMap v) = True"
| "has_type t v = False"

text \<open>
  Modelled from the spec: the validation that the plugin SDK runs on a configuration
  against a schema is missing. A required argument must be set and an argument that is
  only computed must not be; a value that is set must have the type of the schema and
  pass its validation function; a set must have at least \<open>MinItems\<close> and (when it is not
  0) at most \<open>MaxItems\<close> elements, each of the element type and passing the element's
  validation function. An optional argument that is not set takes its default.
\<close>

definition validate_elem :: "(string \<Rightarrow> bool) \<Rightarrow> ElemSchema \<Rightarrow> cfg_value \<Rightarrow> bool" where
  "validate_elem is_ip e v \<longleftrightarrow>
     has_type (elem_Type e) v \<and>
     (case elem_ValidateFunc e of None \<Rightarrow> True | Some f \<Rightarrow> run_ValidateFunc is_ip f v)"

text \<open>
  Modelled from the spec: the validation of a value that is set (missing, see above).
\<close>

definition validate_value :: "(string \<Rightarrow> bool) \<Rightarrow> Schema \<Rightarrow> cfg_value \<Rightarrow> bool" where
  "validate_value is_ip sch v \<longleftrightarrow>
     has_type (Type sch) v \<and>
     (case ValidateFunc sch of None \<Rightarrow> True | Some f \<Rightarrow> run_ValidateFunc is_ip f v) \<and>
     (case v of
        VSet l \<Rightarrow>
          MinItems sch \<le> length l \<and> (MaxItems sch = 0 \<or> length l \<le> MaxItems sch) \<and>
          (case Elem sch of None \<Rightarrow> True | Some e \<Rightarrow> list_all (validate_elem is_ip e) l)
      | _ \<Rightarrow> True)"

text \<open>
  Modelled from the spec: the validation of an argument that is set or left out (missing,
  see above).
\<close>

definition validate_argument :: "(string \<Rightarrow> bool) \<Rightarrow> Schema \<Rightarrow> cfg_value option \<Rightarrow> bool" where
  "validate_argument is_ip sch v =
     (case v of
        None \<Rightarrow> \<not> Required sch
      | Some x \<Rightarrow> (Required sch \<or> Optional sch) \<and> validate_value is_ip sch x)"

text \<open>
  Modelled from the spec: the validation of a configuration, argument by argument
  (missing, see above).
\<close>

definition validate_config ::
  "(string \<Rightarrow> bool) \<Rightarrow> (string \<times> Schema) list \<Rightarrow> (string \<rightharpoonup> cfg_value) \<Rightarrow> bool" where
  "validate_config is_ip schema cfg =
     list_all (\<lambda>(k, sch). validate_argument is_ip sch (cfg k)) schema"

text \<open>
  Modelled from the spec: the value that \<^verbatim>\<open>d.Get\<close> of the plugin SDK (missing) reads for
  an argument is the configured one, or the default of the schema.
\<close>

definition effective_value ::
  "(string \<times> Schema) list \<Rightarrow> (string \<rightharpoonup> cfg_value) \<Rightarrow> string \<Rightarrow> cfg_value option" where
  "effective_value schema cfg k =
     (case cfg k of
        Some v \<Rightarrow> Some v
      | None \<Rightarrow> (case map_of schema k of None \<Rightarrow> None | Some sch \<Rightarrow> Default sch))"

section \<open>Answers on which a poll is repeated\<close>

text \<open>
  The answer of DescribeNatGateways at time \<open>t\<close> holds exactly one gateway, in a state
  other than "AVAILABLE": the poll of create is repeated.
\<close>

definition NatGateway_pending :: "TencentCloudClient \<Rightarrow> nat \<Rightarrow> bool" where
  "NatGateway_pending m t =
     (case rsp_DescribeNatGateways (vpc m) t of
        Inr [g] \<Rightarrow> (case State g of Some s \<Rightarrow> s \<noteq> ''AVAILABLE'' | None \<Rightarrow> False)
      | _ \<Rightarrow> False)"

text \<open>
  The answer of DescribeNatGateways at time \<open>t\<close> holds a first gateway, in a state other
  than \<^verbatim>\<open>NAT_FAILED_STATE\<close>: the poll of delete is repeated.
\<close>

definition NatGateway_remaining :: "TencentCloudClient \<Rightarrow> nat \<Rightarrow> bool" where
  "NatGateway_remaining m t =
     (case rsp_DescribeNatGateways (vpc m) t of
        Inr (g # gs) \<Rightarrow>
          (case State g of Some s \<Rightarrow> s \<noteq> NAT_FAILED_STATE (ext m) | None \<Rightarrow> False)
      | _ \<Rightarrow> False)"

text \<open>
  The answer of \<^verbatim>\<open>DescribeInstancesById\<close> is not an SDK error with one of the codes and
  holds a first cluster whose status differs from the expected one: the poll of the EMR
  cluster is repeated.
\<close>

definition emr_poll_pending :: "string list \<Rightarrow> int \<Rightarrow> ClusterInstancesInfo list \<times> error option \<Rightarrow> bool" where
  "emr_poll_pending codes expected rsp =
     ((case snd rsp of Some (TencentCloudSDKError code) \<Rightarrow> code \<notin> set codes | _ \<Rightarrow> True) \<and>
      (case fst rsp of
         c # cs \<Rightarrow> (case Status c of Some s \<Rightarrow> s \<noteq> expected | None \<Rightarrow> False)
       | [] \<Rightarrow> False))"

section \<open>A sample environment\<close>

text \<open>
  Go's \<^verbatim>\<open>strings.Contains\<close>, used to say that a component of an ID holds the separator.
\<close>

fun Contains :: "string \<Rightarrow> string \<Rightarrow> bool" where
  "Contains [] sep = (sep = [])"
| "Contains (c # cs) sep = (take (length sep) (c # cs) = sep \<or> Contains cs sep)"

text \<open>
  An environment in which every call succeeds at once: the gateway is available, the
  agent, role and configuration exist. The concrete runs below start from it.
\<close>

definition sample_ext :: Extension where
  "sample_ext =
     \<lparr> NAT_FAILED_STATE = ''FAILED'', NAT_EIP_MAX_LIMIT = 10,
       VPCNotFound = ''ResourceNotFound'', InternalError = ''InternalError'',
       EmrInternetStatusCreated = 2, EmrInternetStatusDeleted = 201,
       DisplayStrategyIsclusterList = ''clusterList'',
       retries = (\<lambda>t. 2), retryable = (\<lambda>e codes. False),
       diffTags = (\<lambda>old new. (new, [])),
       BuildTagResourceName = (\<lambda>service typ region ident. ident) \<rparr>"

definition sample_gateway :: NatGateway where
  "sample_gateway =
     \<lparr> NatGatewayId = Some ''nat-1'', State = Some ''AVAILABLE'', VpcId = Some ''vpc-1'',
       NatGatewayName = Some ''gw'', MaxConcurrentConnection = Some 1000000,
       InternetMaxBandwidthOut = Some 100, CreatedTime = Some ''2023'',
       PublicIpAddressSet = [''1.1.1.1''], Zone = Some ''ap-guangzhou-3'' \<rparr>"

definition sample_client :: TencentCloudClient where
  "sample_client =
     \<lparr> Region = ''ap-guangzhou'', ext = sample_ext,
       vpc = \<lparr> rsp_CreateNatGateway = (\<lambda>t. Inr [sample_gateway]),
               rsp_DescribeNatGateways = (\<lambda>t. Inr [sample_gateway]),
               rsp_ModifyNatGatewayAttribute = (\<lambda>t. None),
               rsp_ResetNatGatewayConnection = (\<lambda>t. None),
               rsp_AssociateNatGatewayAddress = (\<lambda>t. None),
               rsp_DisassociateNatGatewayAddress = (\<lambda>t. None),
               rsp_DeleteNatGateway = (\<lambda>t. None) \<rparr>,
       tag = \<lparr> rsp_ModifyTags = (\<lambda>t. None), rsp_DescribeResourceTags = (\<lambda>t. Inr []) \<rparr>,
       monitor = \<lparr> rsp_CreatePrometheusAgent = (\<lambda>t. Inr (Some ''agent-1'')),
                   rsp_DescribeMonitorTmpCvmAgent =
                     (\<lambda>t. Inr (Some \<lparr>pa_InstanceId = Some ''prom-1'', pa_Name = Some ''tf-agent'',
                                     pa_AgentId = Some ''agent-1''\<rparr>)) \<rparr>,
       scf = \<lparr> rsp_UpdateFunctionEventInvokeConfig = (\<lambda>t. None),
               rsp_DescribeScfFunctionEventInvokeConfigById =
                 (\<lambda>t. Inr (Some \<lparr>RetryConfig = [Some 2], MsgTTL = Some 24\<rparr>)) \<rparr>,
       tdmq = \<lparr> rsp_CreateTdmqNamespaceRoleAttachment = (\<lambda>t. None),
                rsp_DescribeTdmqNamespaceRoleAttachment =
                  (\<lambda>t. Inr (Some \<lparr>EnvironmentId = ''env'', RoleName = ''role'',
                                  Permissions = [''produce''], CreateTime = ''2023''\<rparr>)),
                rsp_ModifyTdmqNamespaceRoleAttachment = (\<lambda>t. None),
                rsp_DeleteTdmqNamespaceRoleAttachment = (\<lambda>t. None) \<rparr>,
       wedata = \<lparr> rsp_ModifyRuleTemplate = (\<lambda>t. None),
                  rsp_DescribeWedataRuleTemplateById = (\<lambda>t. Inr None) \<rparr>,
       emr = \<lparr> rsp_CreateInstance = (\<lambda>t. Inr ''emr-1''),
               rsp_DescribeInstancesById = (\<lambda>t. ([\<lparr>Status = Some 2, MetaDb = None\<rparr>], None)),
               rsp_UpdateInstance = (\<lambda>t. None),
               rsp_DeleteInstance = (\<lambda>t. None),
               rsp_OfflineIsolatedInstances = (\<lambda>t. None) \<rparr> \<rparr>"

definition sample_agent :: "CvmAgentAttrs ResourceData" where
  "sample_agent =
     \<lparr> Id = ''broken'',
       prior = \<lparr>ca_instance_id = [], ca_name = [], ca_agent_id = []\<rparr>,
       attrs = \<lparr>ca_instance_id = ''prom-1'', ca_name = ''tf-agent'', ca_agent_id = []\<rparr> \<rparr>"

definition sample_scf :: "ScfAttrs ResourceData" where
  "sample_scf =
     \<lparr> Id = ''keep#default'',
       prior = \<lparr>sa_function_name = [], sa_namespace = [], sa_async_trigger_config = []\<rparr>,
       attrs = \<lparr>sa_function_name = ''keep'', sa_namespace = ''default'',
                sa_async_trigger_config = [\<lparr>retry_config = [2], msg_ttl = 24\<rparr>]\<rparr> \<rparr>"

definition sample_tdmq :: "TdmqAttrs ResourceData" where
  "sample_tdmq =
     \<lparr> Id = ''env#role'',
       prior = \<lparr>ta_environ_id = ''env'', ta_role_name = ''role'', ta_permissions = [''produce''],
                ta_cluster_id = ''pulsar-1'', ta_create_time = []\<rparr>,
       attrs = \<lparr>ta_environ_id = ''env'', ta_role_name = ''role'',
                ta_permissions = [''produce'', ''consume''],
                ta_cluster_id = ''pulsar-1'', ta_create_time = []\<rparr> \<rparr>"

definition sample_template :: "WedataAttrs ResourceData" where
  "sample_template =
     \<lparr> Id = ''42'',
       prior = \<lparr>wa_type = Some 2, wa_name = Some ''fo test'', wa_quality_dim = Some 3,
                wa_source_object_type = Some 2, wa_description = Some ''for tf test'',
                wa_source_engine_types = Some [3], wa_multi_source_flag = Some False,
                wa_sql_expression = Some ''c2VsZWN0'', wa_project_id = Some ''184'',
                wa_where_flag = Some False\<rparr>,
       attrs = \<lparr>wa_type = Some 2, wa_name = Some ''fo test'', wa_quality_dim = Some 3,
                wa_source_object_type = Some 2, wa_description = Some ''changed'',
                wa_source_engine_types = Some [3], wa_multi_source_flag = Some False,
                wa_sql_expression = Some ''c2VsZWN0'', wa_project_id = Some ''184'',
                wa_where_flag = Some True\<rparr> \<rparr>"

definition sample_nat :: "NatAttrs ResourceData" where
  "sample_nat =
     \<lparr> Id = ''nat-1'',
       prior = \<lparr>na_vpc_id = ''vpc-1'', na_name = ''gw'', na_max_concurrent = 1000000,
                na_bandwidth = 100, na_assigned_eip_set = [''1.1.1.1''],
                na_zone = ''ap-guangzhou-3'', na_tags = [], na_created_time = ''2023''\<rparr>,
       attrs = \<lparr>na_vpc_id = ''vpc-1'', na_name = ''gw'', na_max_concurrent = 1000000,
                na_bandwidth = 100,
                na_assigned_eip_set =
                  [''2.2.2.1'', ''2.2.2.2'', ''2.2.2.3'', ''2.2.2.4'', ''2.2.2.5'', ''2.2.2.6''],
                na_zone = ''ap-guangzhou-3'', na_tags = [], na_created_time = ''2023''\<rparr> \<rparr>"

definition sample_emr :: "EmrAttrs ResourceData" where
  "sample_emr =
     \<lparr> Id = ''emr-1'',
       prior = \<lparr>ea_display_strategy = ''clusterList'', ea_time_unit = Some ''s'',
                ea_time_span = Some 3600, ea_pay_mode = Some 0,
                ea_resource_spec = [\<lparr>master_count = 1, task_count = 0, core_count = 2\<rparr>],
                ea_extend_fs_field = [], ea_instance_id = ''emr-1'', ea_tags = []\<rparr>,
       attrs = \<lparr>ea_display_strategy = ''clusterList'', ea_time_unit = Some ''s'',
                ea_time_span = Some 3600, ea_pay_mode = Some 0,
                ea_resource_spec = [\<lparr>master_count = 1, task_count = 0, core_count = 3\<rparr>],
                ea_extend_fs_field = [], ea_instance_id = ''emr-1'', ea_tags = []\<rparr> \<rparr>"

text \<open>A client whose EMR polls all answer that the cluster is not found.\<close>

definition not_found_client :: TencentCloudClient where
  "not_found_client =
     sample_client
       \<lparr>emr := (emr sample_client)
          \<lparr>rsp_DescribeInstancesById :=
             (\<lambda>t. ([], Some (TencentCloudSDKError ''InternalError.ClusterNotFound'')))\<rparr>\<rparr>"

text \<open>A client whose EMR polls all answer a cluster with status 201.\<close>

definition deleted_client :: TencentCloudClient where
  "deleted_client =
     sample_client
       \<lparr>emr := (emr sample_client)
          \<lparr>rsp_DescribeInstancesById := (\<lambda>t. ([\<lparr>Status = Some 201, MetaDb = None\<rparr>], None))\<rparr>\<rparr>"

text \<open>
  Clients whose DescribeNatGateways polls all answer with no gateway, or with one
  gateway in the given state.
\<close>

definition empty_client :: TencentCloudClient where
  "empty_client =
     sample_client\<lparr>vpc := (vpc sample_client)\<lparr>rsp_DescribeNatGateways := (\<lambda>t. Inr [])\<rparr>\<rparr>"

definition state_client :: "string \<Rightarrow> TencentCloudClient" where
  "state_client stat =
     sample_client
       \<lparr>vpc := (vpc sample_client)
          \<lparr>rsp_DescribeNatGateways := (\<lambda>t. Inr [sample_gateway\<lparr>State := Some stat\<rparr>])\<rparr>\<rparr>"

text \<open>
  A NAT gateway whose ten EIPs are all replaced by ten others.
\<close>

definition sample_nat_full :: "NatAttrs ResourceData" where
  "sample_nat_full =
     sample_nat
       \<lparr>prior := (prior sample_nat)
          \<lparr>na_assigned_eip_set :=
             [''1.1.1.0'', ''1.1.1.1'', ''1.1.1.2'', ''1.1.1.3'', ''1.1.1.4'',
              ''1.1.1.5'', ''1.1.1.6'', ''1.1.1.7'', ''1.1.1.8'', ''1.1.1.9'']\<rparr>,
        attrs := (attrs sample_nat)
          \<lparr>na_assigned_eip_set :=
             [''2.2.2.0'', ''2.2.2.1'', ''2.2.2.2'', ''2.2.2.3'', ''2.2.2.4'',
              ''2.2.2.5'', ''2.2.2.6'', ''2.2.2.7'', ''2.2.2.8'', ''2.2.2.9'']\<rparr>\<rparr>"

text \<open>The configuration of the example in the header of the NAT gateway file.\<close>

definition sample_config :: "string \<rightharpoonup> cfg_value" where
  "sample_config =
     [''vpc_id'' \<mapsto> VString ''vpc-1'',
      ''name'' \<mapsto> VString ''tf_example_nat_gateway'',
      ''bandwidth'' \<mapsto> VInt 100,
      ''assigned_eip_set'' \<mapsto> VSet [VString ''1.1.1.1'', VString ''1.1.1.2'']]"

text \<open>
  Clients whose polls give the repeating answer at the listed times and the final answer
  at all other times: a gateway that is pending and then available, a gateway that is
  still there and then gone, a cluster that is still in status 1 and then in status 2.
\<close>

definition pending_client :: "nat list \<Rightarrow> TencentCloudClient" where
  "pending_client ts =
     sample_client
       \<lparr>vpc := (vpc sample_client)
          \<lparr>rsp_DescribeNatGateways :=
             (\<lambda>t. if t \<in> set ts then Inr [sample_gateway\<lparr>State := Some ''PENDING''\<rparr>]
                  else Inr [sample_gateway])\<rparr>\<rparr>"

definition deleting_client :: "nat list \<Rightarrow> TencentCloudClient" where
  "deleting_client ts =
     sample_client
       \<lparr>vpc := (vpc sample_client)
          \<lparr>rsp_DescribeNatGateways :=
             (\<lambda>t. if t \<in> set ts then Inr [sample_gateway\<lparr>State := Some ''DELETING''\<rparr>]
                  else Inr [])\<rparr>\<rparr>"

definition creating_client :: "nat list \<Rightarrow> int \<Rightarrow> TencentCloudClient" where
  "creating_client ts final =
     sample_client
       \<lparr>emr := (emr sample_client)
          \<lparr>rsp_DescribeInstancesById :=
             (\<lambda>t. if t \<in> set ts then ([\<lparr>Status = Some 1, MetaDb = None\<rparr>], None)
                  else ([\<lparr>Status = Some final, MetaDb = None\<rparr>], None))\<rparr>\<rparr>"

section \<open>Theorems\<close>

subsection \<open>Splitting, joining and the first call of a retried closure\<close>

lemma splitFrom_notin: "c \<notin> set s \<Longrightarrow> splitFrom [c] cur s = [cur @ s]"
  by (induction s arbitrary: cur) auto

lemma splitFrom_first: "c \<notin> set a \<Longrightarrow> splitFrom [c] cur (a @ c # b) = (cur @ a) # splitFrom [c] [] b"
  by (induction a arbitrary: cur) auto

lemma Contains_single: "Contains s [c] \<longleftrightarrow> c \<in> set s"
  by (induction s) auto

lemma Split_Join:
  "\<not> Contains a FILED_SP \<Longrightarrow> \<not> Contains b FILED_SP \<Longrightarrow> Split (Join [a, b] FILED_SP) FILED_SP = [a, b]"
  by (simp add: Split_def FILED_SP_def splitFrom_first splitFrom_notin Contains_single)

lemma Split_append:
  "\<not> Contains a FILED_SP \<Longrightarrow> \<not> Contains b FILED_SP \<Longrightarrow> Split (a @ FILED_SP @ b) FILED_SP = [a, b]"
  using Split_Join by simp

lemma cvm_read_ok:
  "Split (Id d) FILED_SP = [a, b] \<Longrightarrow>
   \<exists>r d'. resourceTencentCloudMonitorTmpCvmAgentRead m d tr = (r, d', tr @ [Service (DescribeMonitorTmpCvmAgent a b)])"
  by (auto simp: resourceTencentCloudMonitorTmpCvmAgentRead_def Let_def split: sum.splits option.splits)

lemma retry_loop_first:
  assumes "\<And>v tr. \<exists>r v'. f v tr = (r, v', tr @ [e])"
  shows "\<exists>r v' evs. retry_loop n f v tr = (r, v', tr @ e # evs)"
proof (induction n arbitrary: v tr)
  case 0
  from assms obtain r v' where "f v tr = (r, v', tr @ [e])" by blast
  then show ?case by (cases r) (auto split: RetryError.splits)
next
  case (Suc n)
  from assms obtain r v' where f: "f v tr = (r, v', tr @ [e])" by blast
  show ?case
  proof (cases r)
    case None
    with f show ?thesis by auto
  next
    case (Some re)
    show ?thesis
    proof (cases re)
      case (RetryableError x)
      from Suc obtain r2 v2 evs where "retry_loop n f v' (tr @ [e]) = (r2, v2, (tr @ [e]) @ e # evs)" by blast
      with f Some RetryableError show ?thesis by auto
    next
      case (NonRetryableError x)
      with f Some show ?thesis by auto
    qed
  qed
qed

lemma Retry_first:
  assumes "\<And>v tr. \<exists>r v'. f v tr = (r, v', tr @ [e])"
  shows "\<exists>r v' evs. Retry m t f v tr = (r, v', tr @ RetryEnter t # e # evs)"
proof -
  have "\<exists>r v' evs. retry_loop (retries (ext m) t) f v (tr @ [RetryEnter t]) = (r, v', (tr @ [RetryEnter t]) @ e # evs)"
    by (rule retry_loop_first) (rule assms)
  then obtain r v' evs where "retry_loop (retries (ext m) t) f v (tr @ [RetryEnter t]) = (r, v', (tr @ [RetryEnter t]) @ e # evs)" by blast
  then show ?thesis by (auto simp: Retry_def)
qed


lemma cvm_create_sets_id:
  "ca_instance_id (attrs d) = a \<Longrightarrow>
   Retry m writeRetryTimeout
     (CreatePrometheusAgent_closure m (GetOk_string a) (GetOk_string (ca_name (attrs d))))
     None tr = (None, Some (Some b), tr1) \<Longrightarrow>
   resourceTencentCloudMonitorTmpCvmAgentCreate m d tr =
     resourceTencentCloudMonitorTmpCvmAgentRead m (d\<lparr>Id := Join [a, b] FILED_SP\<rparr>) tr1"
  by (auto simp: resourceTencentCloudMonitorTmpCvmAgentCreate_def GetOk_string_def)

lemma tdmq_create_sets_id:
  "ta_environ_id (attrs d) = a \<Longrightarrow> ta_role_name (attrs d) = b \<Longrightarrow>
   rsp_CreateTdmqNamespaceRoleAttachment (tdmq m) (length tr) = None \<Longrightarrow>
   resourceTencentCloudTdmqNamespaceRoleAttachmentCreate m d tr =
     resourceTencentCloudTdmqNamespaceRoleAttachmentRead m (d\<lparr>Id := Join [a, b] FILED_SP\<rparr>)
       (tr @ [Service (CreateTdmqNamespaceRoleAttachment a b (ta_permissions (attrs d))
                         (ta_cluster_id (attrs d)))])"
  by (auto simp: resourceTencentCloudTdmqNamespaceRoleAttachmentCreate_def GetOk_string_def Let_def)

lemma scf_create_sets_id:
  "sa_function_name (attrs d) = a \<Longrightarrow> sa_namespace (attrs d) = b \<Longrightarrow>
   resourceTencentCloudScfFunctionEventInvokeConfigCreate m d tr =
     resourceTencentCloudScfFunctionEventInvokeConfigUpdate m (d\<lparr>Id := Join [a, b] FILED_SP\<rparr>) tr"
  by (simp add: resourceTencentCloudScfFunctionEventInvokeConfigCreate_def)

lemma tdmq_read_ok:
  "Split (Id d) FILED_SP = [a, b] \<Longrightarrow>
   \<exists>r d' evs. resourceTencentCloudTdmqNamespaceRoleAttachmentRead m d tr =
     (r, d', tr @ RetryEnter readRetryTimeout #
               Service (DescribeTdmqNamespaceRoleAttachment a b (ta_cluster_id (attrs d))) # evs)"
  unfolding resourceTencentCloudTdmqNamespaceRoleAttachmentRead_def
  by (simp, rule Retry_first)
     (auto simp: DescribeTdmqNamespaceRoleAttachment_closure_def Let_def split: sum.splits option.splits)

lemma tdmq_update_ok:
  "Split (Id d) FILED_SP = [a, b] \<Longrightarrow>
   \<exists>r d' evs. resourceTencentCloudTdmqNamespaceRoleAttachmentUpdate m d tr =
     (r, d', tr @ Service (ModifyTdmqNamespaceRoleAttachment a b (ta_permissions (attrs d))
                            (ta_cluster_id (attrs d))) # evs)"
proof -
  assume s: "Split (Id d) FILED_SP = [a, b]"
  let ?tr1 = "tr @ [Service (ModifyTdmqNamespaceRoleAttachment a b (ta_permissions (attrs d))
                            (ta_cluster_id (attrs d)))]"
  from tdmq_read_ok[OF s, of m ?tr1] obtain r d' evs where
    "resourceTencentCloudTdmqNamespaceRoleAttachmentRead m d ?tr1 =
       (r, d', ?tr1 @ RetryEnter readRetryTimeout #
               Service (DescribeTdmqNamespaceRoleAttachment a b (ta_cluster_id (attrs d))) # evs)"
    by blast
  with s show ?thesis
    by (cases "rsp_ModifyTdmqNamespaceRoleAttachment (tdmq m) (length tr)")
       (auto simp: resourceTencentCloudTdmqNamespaceRoleAttachmentUpdate_def Let_def)
qed

lemma tdmq_delete_ok:
  "Split (Id d) FILED_SP = [a, b] \<Longrightarrow>
   \<exists>r evs. resourceTencentCloudTdmqNamespaceRoleAttachmentDelete m d tr =
     (r, d, tr @ RetryEnter writeRetryTimeout #
               Service (DeleteTdmqNamespaceRoleAttachment a b (ta_cluster_id (attrs d))) # evs)"
proof -
  assume s: "Split (Id d) FILED_SP = [a, b]"
  have "\<exists>r v' evs. Retry m writeRetryTimeout
          (DeleteTdmqNamespaceRoleAttachment_closure m a b (ta_cluster_id (attrs d))) () tr =
       (r, v', tr @ RetryEnter writeRetryTimeout #
               Service (DeleteTdmqNamespaceRoleAttachment a b (ta_cluster_id (attrs d))) # evs)"
    by (rule Retry_first)
       (auto simp: DeleteTdmqNamespaceRoleAttachment_closure_def Let_def split: option.splits error.splits)
  with s show ?thesis
    by (auto simp: resourceTencentCloudTdmqNamespaceRoleAttachmentDelete_def)
qed

lemma scf_read_ok:
  "Split (Id d) FILED_SP = [a, b] \<Longrightarrow>
   \<exists>r d'. resourceTencentCloudScfFunctionEventInvokeConfigRead m d tr =
     (r, d', tr @ [Service (DescribeScfFunctionEventInvokeConfigById b a)])"
  by (auto simp: resourceTencentCloudScfFunctionEventInvokeConfigRead_def Let_def split: sum.splits option.splits)

lemma scf_update_ok:
  "Split (Id d) FILED_SP = [a, b] \<Longrightarrow>
   \<exists>r d' evs. resourceTencentCloudScfFunctionEventInvokeConfigUpdate m d tr =
     (r, d', tr @ RetryEnter writeRetryTimeout #
        Sdk (UpdateFunctionEventInvokeConfig b a
               (asyncTriggerConfig_of (sa_async_trigger_config (attrs d)))) # evs)"
proof -
  assume s: "Split (Id d) FILED_SP = [a, b]"
  let ?c = "UpdateFunctionEventInvokeConfig_closure m b a
              (asyncTriggerConfig_of (sa_async_trigger_config (attrs d)))"
  let ?e = "Sdk (UpdateFunctionEventInvokeConfig b a
               (asyncTriggerConfig_of (sa_async_trigger_config (attrs d))))"
  have "\<exists>r v' evs. Retry m writeRetryTimeout ?c () tr =
       (r, v', tr @ RetryEnter writeRetryTimeout # ?e # evs)"
    by (rule Retry_first)
       (auto simp: UpdateFunctionEventInvokeConfig_closure_def Let_def split: option.splits)
  then obtain r v' evs where R: "Retry m writeRetryTimeout ?c () tr =
       (r, v', tr @ RetryEnter writeRetryTimeout # ?e # evs)" by blast
  let ?tr1 = "tr @ RetryEnter writeRetryTimeout # ?e # evs"
  from scf_read_ok[OF s, of m ?tr1] obtain r2 d2 where
    "resourceTencentCloudScfFunctionEventInvokeConfigRead m d ?tr1 =
       (r2, d2, ?tr1 @ [Service (DescribeScfFunctionEventInvokeConfigById b a)])" by blast
  with s R show ?thesis
    by (cases r) (auto simp: resourceTencentCloudScfFunctionEventInvokeConfigUpdate_def)
qed

lemma broken_ids:
  "length (Split (Id dc) FILED_SP) \<noteq> 2 \<Longrightarrow>
     resourceTencentCloudMonitorTmpCvmAgentRead m dc tr =
       (Some (Errorf (''id is broken, id is '' @ Id dc)), dc, tr)"
  "length (Split (Id dt) FILED_SP) \<noteq> 2 \<Longrightarrow>
     resourceTencentCloudTdmqNamespaceRoleAttachmentRead m dt tr =
       (Some (Errorf (''environment role id is borken, id is '' @ Id dt)), dt, tr)"
  "length (Split (Id dt) FILED_SP) \<noteq> 2 \<Longrightarrow>
     resourceTencentCloudTdmqNamespaceRoleAttachmentUpdate m dt tr =
       (Some (Errorf (''environment role id is borken, id is '' @ Id dt)), dt, tr)"
  "length (Split (Id dt) FILED_SP) \<noteq> 2 \<Longrightarrow>
     resourceTencentCloudTdmqNamespaceRoleAttachmentDelete m dt tr =
       (Some (Errorf (''environment role id is borken, id is '' @ Id dt)), dt, tr)"
  "length (Split (Id ds) FILED_SP) \<noteq> 2 \<Longrightarrow>
     resourceTencentCloudScfFunctionEventInvokeConfigRead m ds tr =
       (Some (Errorf (''id is broken,'' @ Id ds)), ds, tr)"
  "length (Split (Id ds) FILED_SP) \<noteq> 2 \<Longrightarrow>
     resourceTencentCloudScfFunctionEventInvokeConfigUpdate m ds tr =
       (Some (Errorf (''id is broken,'' @ Id ds)), ds, tr)"
  by (auto simp: resourceTencentCloudMonitorTmpCvmAgentRead_def
        resourceTencentCloudTdmqNamespaceRoleAttachmentRead_def
        resourceTencentCloudTdmqNamespaceRoleAttachmentUpdate_def
        resourceTencentCloudTdmqNamespaceRoleAttachmentDelete_def
        resourceTencentCloudScfFunctionEventInvokeConfigRead_def
        resourceTencentCloudScfFunctionEventInvokeConfigUpdate_def split: list.splits)


subsection \<open>Lifecycle declarations\<close>

text \<open>
  C4, as stated: every resource definition declares all four lifecycle operations. The
  definition of the monitor tmp cvm agent resource is among the resource definitions and
  has no update operation (the line that would set it is commented out).
\<close>

theorem cvm_agent_declares_no_update:
  "resourceTencentCloudMonitorTmpCvmAgent \<in> set resources \<and>
   \<not> declares_all_four resourceTencentCloudMonitorTmpCvmAgent"
  by (simp add: resources_def declares_all_four_def resourceTencentCloudMonitorTmpCvmAgent_def)

text \<open>
  C4, amended: every resource definition declares create, read and delete, and every
  one except the monitor tmp cvm agent resource also declares update.
\<close>

theorem lifecycle_declared:
  "\<forall>r \<in> set resources.
     Create r \<noteq> None \<and> Read r \<noteq> None \<and> Delete r \<noteq> None \<and>
     (Update r = None \<longleftrightarrow> r = resourceTencentCloudMonitorTmpCvmAgent)"
  by (simp add: resources_def resourceTencentCloudNatGateway_def
        resourceTencentCloudMonitorTmpCvmAgent_def resourceTencentCloudWedataRuleTemplate_def
        resourceTencentCloudScfFunctionEventInvokeConfig_def
        resourceTencentCloudTdmqNamespaceRoleAttachment_def resourceTencentCloudEmrCluster_def
        resourceTencentCloudTdmqRabbitmqUser_def)

theorem lifecycle_declared_witness:
  "resourceTencentCloudNatGateway \<in> set resources \<and>
   Create resourceTencentCloudNatGateway \<noteq> None \<and>
   Read resourceTencentCloudNatGateway \<noteq> None \<and>
   Delete resourceTencentCloudNatGateway \<noteq> None \<and>
   Update resourceTencentCloudNatGateway \<noteq> None"
  using lifecycle_declared
  by (simp add: resources_def resourceTencentCloudNatGateway_def
        resourceTencentCloudMonitorTmpCvmAgent_def)

subsection \<open>Compound IDs\<close>

text \<open>
  C1, as stated: read, update and delete of every resource with a compound ID return an
  error for every ID that does not split into exactly two parts. The ID \<open>broken\<close> splits
  into one part, and the delete operation of the monitor tmp cvm agent resource returns
  nil on it.
\<close>

theorem cvm_agent_delete_accepts_broken_id:
  "Id sample_agent = ''broken'' \<and> length (Split ''broken'' FILED_SP) \<noteq> 2 \<and>
   resourceTencentCloudMonitorTmpCvmAgentDelete sample_client sample_agent [] =
     (None, sample_agent, [])"
  by (simp add: sample_agent_def Split_def FILED_SP_def
        resourceTencentCloudMonitorTmpCvmAgentDelete_def)

text \<open>
  C1, amended. For the three resources with a compound ID (monitor tmp cvm agent:
  instance_id \<open>i\<close> and agent_id \<open>g\<close>; tdmq namespace role attachment: environ_id \<open>e\<close> and
  role_name \<open>r\<close>; scf function event invoke config: function_name \<open>f\<close> and namespace \<open>n\<close>):
  once its call has succeeded (scf: at once), create continues with the ID set to the two
  components joined by \<open>FILED_SP\<close>; every operation that uses the ID (read of all three,
  update of tdmq and scf, delete of tdmq) splits it on \<open>FILED_SP\<close>, and when neither
  component contains the separator its first call carries exactly the two components;
  on every ID that does not split into exactly two parts each of these operations
  returns an error and makes no call. The delete operations of the monitor tmp cvm agent
  and scf resources do not look at the ID and return nil.
\<close>

theorem compound_id_parsed:
  "(\<not> Contains i FILED_SP \<and> \<not> Contains g FILED_SP \<longrightarrow>
      (ca_instance_id (attrs dc) = i \<and>
       Retry m writeRetryTimeout
         (CreatePrometheusAgent_closure m (GetOk_string i) (GetOk_string (ca_name (attrs dc))))
         None tr = (None, Some (Some g), trc) \<longrightarrow>
       resourceTencentCloudMonitorTmpCvmAgentCreate m dc tr =
         resourceTencentCloudMonitorTmpCvmAgentRead m (dc\<lparr>Id := Join [i, g] FILED_SP\<rparr>) trc) \<and>
      (Id dc' = Join [i, g] FILED_SP \<longrightarrow>
       (\<exists>res d'. resourceTencentCloudMonitorTmpCvmAgentRead m dc' tr =
          (res, d', tr @ [Service (DescribeMonitorTmpCvmAgent i g)])))) \<and>
   (\<not> Contains e FILED_SP \<and> \<not> Contains r FILED_SP \<longrightarrow>
      (ta_environ_id (attrs dt) = e \<and> ta_role_name (attrs dt) = r \<and>
       rsp_CreateTdmqNamespaceRoleAttachment (tdmq m) (length tr) = None \<longrightarrow>
       resourceTencentCloudTdmqNamespaceRoleAttachmentCreate m dt tr =
         resourceTencentCloudTdmqNamespaceRoleAttachmentRead m (dt\<lparr>Id := Join [e, r] FILED_SP\<rparr>)
           (tr @ [Service (CreateTdmqNamespaceRoleAttachment e r (ta_permissions (attrs dt))
                             (ta_cluster_id (attrs dt)))])) \<and>
      (Id dt' = Join [e, r] FILED_SP \<longrightarrow>
       (\<exists>res d' evs. resourceTencentCloudTdmqNamespaceRoleAttachmentRead m dt' tr =
          (res, d', tr @ RetryEnter readRetryTimeout #
             Service (DescribeTdmqNamespaceRoleAttachment e r (ta_cluster_id (attrs dt'))) # evs)) \<and>
       (\<exists>res d' evs. resourceTencentCloudTdmqNamespaceRoleAttachmentUpdate m dt' tr =
          (res, d', tr @ Service (ModifyTdmqNamespaceRoleAttachment e r (ta_permissions (attrs dt'))
                                   (ta_cluster_id (attrs dt'))) # evs)) \<and>
       (\<exists>res evs. resourceTencentCloudTdmqNamespaceRoleAttachmentDelete m dt' tr =
          (res, dt', tr @ RetryEnter writeRetryTimeout #
             Service (DeleteTdmqNamespaceRoleAttachment e r (ta_cluster_id (attrs dt'))) # evs)))) \<and>
   (\<not> Contains f FILED_SP \<and> \<not> Contains n FILED_SP \<longrightarrow>
      (sa_function_name (attrs ds) = f \<and> sa_namespace (attrs ds) = n \<longrightarrow>
       resourceTencentCloudScfFunctionEventInvokeConfigCreate m ds tr =
         resourceTencentCloudScfFunctionEventInvokeConfigUpdate m
           (ds\<lparr>Id := Join [f, n] FILED_SP\<rparr>) tr) \<and>
      (Id ds' = Join [f, n] FILED_SP \<longrightarrow>
       (\<exists>res d'. resourceTencentCloudScfFunctionEventInvokeConfigRead m ds' tr =
          (res, d', tr @ [Service (DescribeScfFunctionEventInvokeConfigById n f)])) \<and>
       (\<exists>res d' evs. resourceTencentCloudScfFunctionEventInvokeConfigUpdate m ds' tr =
          (res, d', tr @ RetryEnter writeRetryTimeout #
             Sdk (UpdateFunctionEventInvokeConfig n f
                    (asyncTriggerConfig_of (sa_async_trigger_config (attrs ds')))) # evs)))) \<and>
   (length (Split (Id xc) FILED_SP) \<noteq> 2 \<longrightarrow>
      resourceTencentCloudMonitorTmpCvmAgentRead m xc tr =
        (Some (Errorf (''id is broken, id is '' @ Id xc)), xc, tr)) \<and>
   (length (Split (Id xt) FILED_SP) \<noteq> 2 \<longrightarrow>
      resourceTencentCloudTdmqNamespaceRoleAttachmentRead m xt tr =
        (Some (Errorf (''environment role id is borken, id is '' @ Id xt)), xt, tr) \<and>
      resourceTencentCloudTdmqNamespaceRoleAttachmentUpdate m xt tr =
        (Some (Errorf (''environment role id is borken, id is '' @ Id xt)), xt, tr) \<and>
      resourceTencentCloudTdmqNamespaceRoleAttachmentDelete m xt tr =
        (Some (Errorf (''environment role id is borken, id is '' @ Id xt)), xt, tr)) \<and>
   (length (Split (Id xs) FILED_SP) \<noteq> 2 \<longrightarrow>
      resourceTencentCloudScfFunctionEventInvokeConfigRead m xs tr =
        (Some (Errorf (''id is broken,'' @ Id xs)), xs, tr) \<and>
      resourceTencentCloudScfFunctionEventInvokeConfigUpdate m xs tr =
        (Some (Errorf (''id is broken,'' @ Id xs)), xs, tr)) \<and>
   resourceTencentCloudMonitorTmpCvmAgentDelete m xc tr = (None, xc, tr) \<and>
   resourceTencentCloudScfFunctionEventInvokeConfigDelete m xs tr = (None, xs, tr)"
proof -
  have cvm: "\<not> Contains i FILED_SP \<and> \<not> Contains g FILED_SP \<Longrightarrow> Id dc' = Join [i, g] FILED_SP \<Longrightarrow>
      \<exists>res d'. resourceTencentCloudMonitorTmpCvmAgentRead m dc' tr =
          (res, d', tr @ [Service (DescribeMonitorTmpCvmAgent i g)])"
    by (rule cvm_read_ok) (simp add: Split_append)
  have tdmq: "\<not> Contains e FILED_SP \<and> \<not> Contains r FILED_SP \<Longrightarrow> Id dt' = Join [e, r] FILED_SP \<Longrightarrow>
      Split (Id dt') FILED_SP = [e, r]"
    by (simp add: Split_append)
  have scf: "\<not> Contains f FILED_SP \<and> \<not> Contains n FILED_SP \<Longrightarrow> Id ds' = Join [f, n] FILED_SP \<Longrightarrow>
      Split (Id ds') FILED_SP = [f, n]"
    by (simp add: Split_append)
  show ?thesis
    using cvm tdmq_read_ok[OF tdmq] tdmq_update_ok[OF tdmq] tdmq_delete_ok[OF tdmq]
      scf_read_ok[OF scf] scf_update_ok[OF scf]
      cvm_create_sets_id[of dc i m tr g trc] tdmq_create_sets_id[of dt e r m tr]
      scf_create_sets_id[of ds f n m tr]
      broken_ids(1)[of xc m tr] broken_ids(2-4)[of xt m tr] broken_ids(5-6)[of xs m tr]
    by (simp add: resourceTencentCloudMonitorTmpCvmAgentDelete_def
          resourceTencentCloudScfFunctionEventInvokeConfigDelete_def)
qed

theorem compound_id_parsed_witness:
  "\<not> Contains ''prom-1'' FILED_SP \<and> \<not> Contains ''agent-1'' FILED_SP \<and>
   ca_instance_id (attrs sample_agent) = ''prom-1'' \<and>
   Retry sample_client writeRetryTimeout
     (CreatePrometheusAgent_closure sample_client (GetOk_string ''prom-1'')
        (GetOk_string (ca_name (attrs sample_agent))))
     None [] =
     (None, Some (Some ''agent-1''),
      [RetryEnter writeRetryTimeout,
       Sdk (CreatePrometheusAgent (Some ''prom-1'') (Some ''tf-agent'')), RetryLeave None]) \<and>
   resourceTencentCloudMonitorTmpCvmAgentCreate sample_client sample_agent [] =
     resourceTencentCloudMonitorTmpCvmAgentRead sample_client
       (sample_agent\<lparr>Id := Join [''prom-1'', ''agent-1''] FILED_SP\<rparr>)
       [RetryEnter writeRetryTimeout,
        Sdk (CreatePrometheusAgent (Some ''prom-1'') (Some ''tf-agent'')), RetryLeave None] \<and>
   Id (sample_agent\<lparr>Id := ''prom-1#agent-1''\<rparr>) = Join [''prom-1'', ''agent-1''] FILED_SP \<and>
   (\<exists>res d'. resourceTencentCloudMonitorTmpCvmAgentRead sample_client
        (sample_agent\<lparr>Id := ''prom-1#agent-1''\<rparr>) [] =
      (res, d', [] @ [Service (DescribeMonitorTmpCvmAgent ''prom-1'' ''agent-1'')])) \<and>
   \<not> Contains ''env'' FILED_SP \<and> \<not> Contains ''role'' FILED_SP \<and>
   ta_environ_id (attrs sample_tdmq) = ''env'' \<and> ta_role_name (attrs sample_tdmq) = ''role'' \<and>
   rsp_CreateTdmqNamespaceRoleAttachment (tdmq sample_client) (length ([] :: log)) = None \<and>
   resourceTencentCloudTdmqNamespaceRoleAttachmentCreate sample_client sample_tdmq [] =
     resourceTencentCloudTdmqNamespaceRoleAttachmentRead sample_client
       (sample_tdmq\<lparr>Id := Join [''env'', ''role''] FILED_SP\<rparr>)
       ([] @ [Service (CreateTdmqNamespaceRoleAttachment ''env'' ''role''
                        (ta_permissions (attrs sample_tdmq)) (ta_cluster_id (attrs sample_tdmq)))]) \<and>
   Id sample_tdmq = Join [''env'', ''role''] FILED_SP \<and>
   (\<exists>res evs. resourceTencentCloudTdmqNamespaceRoleAttachmentDelete sample_client sample_tdmq [] =
      (res, sample_tdmq, [] @ RetryEnter writeRetryTimeout #
         Service (DeleteTdmqNamespaceRoleAttachment ''env'' ''role''
                    (ta_cluster_id (attrs sample_tdmq))) # evs)) \<and>
   \<not> Contains ''keep'' FILED_SP \<and> \<not> Contains ''default'' FILED_SP \<and>
   sa_function_name (attrs sample_scf) = ''keep'' \<and> sa_namespace (attrs sample_scf) = ''default'' \<and>
   resourceTencentCloudScfFunctionEventInvokeConfigCreate sample_client sample_scf [] =
     resourceTencentCloudScfFunctionEventInvokeConfigUpdate sample_client
       (sample_scf\<lparr>Id := Join [''keep'', ''default''] FILED_SP\<rparr>) [] \<and>
   Id sample_scf = Join [''keep'', ''default''] FILED_SP \<and>
   (\<exists>res d'. resourceTencentCloudScfFunctionEventInvokeConfigRead sample_client sample_scf [] =
      (res, d', [] @ [Service (DescribeScfFunctionEventInvokeConfigById ''default'' ''keep'')])) \<and>
   length (Split (Id sample_agent) FILED_SP) \<noteq> 2 \<and>
   resourceTencentCloudMonitorTmpCvmAgentRead sample_client sample_agent [] =
     (Some (Errorf (''id is broken, id is '' @ Id sample_agent)), sample_agent, []) \<and>
   length (Split (Id (sample_tdmq\<lparr>Id := ''env''\<rparr>)) FILED_SP) \<noteq> 2 \<and>
   resourceTencentCloudTdmqNamespaceRoleAttachmentDelete sample_client (sample_tdmq\<lparr>Id := ''env''\<rparr>) [] =
     (Some (Errorf (''environment role id is borken, id is '' @ Id (sample_tdmq\<lparr>Id := ''env''\<rparr>))),
      sample_tdmq\<lparr>Id := ''env''\<rparr>, []) \<and>
   length (Split (Id (sample_scf\<lparr>Id := ''a#b#c''\<rparr>)) FILED_SP) \<noteq> 2 \<and>
   resourceTencentCloudScfFunctionEventInvokeConfigUpdate sample_client (sample_scf\<lparr>Id := ''a#b#c''\<rparr>) [] =
     (Some (Errorf (''id is broken,'' @ Id (sample_scf\<lparr>Id := ''a#b#c''\<rparr>))),
      sample_scf\<lparr>Id := ''a#b#c''\<rparr>, [])"
proof -
  have h1: "\<not> Contains ''prom-1'' FILED_SP \<and> \<not> Contains ''agent-1'' FILED_SP"
    by (simp add: FILED_SP_def)
  have h2: "\<not> Contains ''env'' FILED_SP \<and> \<not> Contains ''role'' FILED_SP"
    by (simp add: FILED_SP_def)
  have h3: "\<not> Contains ''keep'' FILED_SP \<and> \<not> Contains ''default'' FILED_SP"
    by (simp add: FILED_SP_def)
  have h4: "ca_instance_id (attrs sample_agent) = ''prom-1'' \<and>
   Retry sample_client writeRetryTimeout
     (CreatePrometheusAgent_closure sample_client (GetOk_string ''prom-1'')
        (GetOk_string (ca_name (attrs sample_agent))))
     None [] =
     (None, Some (Some ''agent-1''),
      [RetryEnter writeRetryTimeout,
       Sdk (CreatePrometheusAgent (Some ''prom-1'') (Some ''tf-agent'')), RetryLeave None])"
    by (simp add: sample_agent_def sample_client_def sample_ext_def Retry_def
          CreatePrometheusAgent_closure_def GetOk_string_def eval_nat_numeral)
  have h5: "Id (sample_agent\<lparr>Id := ''prom-1#agent-1''\<rparr>) = Join [''prom-1'', ''agent-1''] FILED_SP"
    "Id sample_tdmq = Join [''env'', ''role''] FILED_SP"
    "Id sample_scf = Join [''keep'', ''default''] FILED_SP"
    by (simp_all add: FILED_SP_def sample_tdmq_def sample_scf_def)
  have h6: "ta_environ_id (attrs sample_tdmq) = ''env'' \<and> ta_role_name (attrs sample_tdmq) = ''role'' \<and>
   rsp_CreateTdmqNamespaceRoleAttachment (tdmq sample_client) (length ([] :: log)) = None"
    "sa_function_name (attrs sample_scf) = ''keep'' \<and> sa_namespace (attrs sample_scf) = ''default''"
    by (simp_all add: sample_tdmq_def sample_client_def sample_scf_def)
  have h7: "length (Split (Id sample_agent) FILED_SP) \<noteq> 2"
    "length (Split (Id (sample_tdmq\<lparr>Id := ''env''\<rparr>)) FILED_SP) \<noteq> 2"
    "length (Split (Id (sample_scf\<lparr>Id := ''a#b#c''\<rparr>)) FILED_SP) \<noteq> 2"
    by (simp_all add: sample_agent_def Split_def FILED_SP_def)
  show ?thesis
    using h1 h2 h3 h4 h5 h6 h7
      compound_id_parsed[where m = sample_client and tr = "[]" and i = "''prom-1''" and g = "''agent-1''"
        and dc = sample_agent
        and trc = "[RetryEnter writeRetryTimeout,
                    Sdk (CreatePrometheusAgent (Some ''prom-1'') (Some ''tf-agent'')), RetryLeave None]"
        and dc' = "sample_agent\<lparr>Id := ''prom-1#agent-1''\<rparr>"
        and e = "''env''" and r = "''role''" and dt = sample_tdmq and dt' = sample_tdmq
        and f = "''keep''" and n = "''default''" and ds = sample_scf and ds' = sample_scf
        and xc = sample_agent and xt = "sample_tdmq\<lparr>Id := ''env''\<rparr>"
        and xs = "sample_scf\<lparr>Id := ''a#b#c''\<rparr>"]
    by simp
qed

subsection \<open>Delete operations without effect\<close>

text \<open>
  C10. The delete operations of the monitor tmp cvm agent resource and of the scf
  function event invoke config resource return nil for every client, resource data and
  log, make no call (the log is returned as it was given) and leave the ID and every
  attribute of the resource data unchanged.
\<close>

theorem delete_is_noop:
  "resourceTencentCloudMonitorTmpCvmAgentDelete m d tr = (None, d, tr) \<and>
   resourceTencentCloudScfFunctionEventInvokeConfigDelete m' d' tr' = (None, d', tr')"
  by (simp add: resourceTencentCloudMonitorTmpCvmAgentDelete_def
        resourceTencentCloudScfFunctionEventInvokeConfigDelete_def)

subsection \<open>Events of a retried closure\<close>

lemma retry_loop_events:
  assumes "\<And>v tr. \<exists>r v' evs. f v tr = (r, v', tr @ evs) \<and> (\<forall>x \<in> set evs. P x)"
  shows "\<exists>r v' evs. retry_loop n f v tr = (r, v', tr @ evs) \<and> (\<forall>x \<in> set evs. P x)"
proof (induction n arbitrary: v tr)
  case 0
  from assms obtain r v' evs where "f v tr = (r, v', tr @ evs)" "\<forall>x \<in> set evs. P x" by blast
  then show ?case by (cases r) (auto split: RetryError.splits)
next
  case (Suc n)
  from assms obtain r v' evs where f: "f v tr = (r, v', tr @ evs)" and P: "\<forall>x \<in> set evs. P x" by blast
  show ?case
  proof (cases r)
    case None
    with f P show ?thesis by auto
  next
    case (Some re)
    show ?thesis
    proof (cases re)
      case (RetryableError x)
      from Suc obtain r2 v2 evs2 where
        "retry_loop n f v' (tr @ evs) = (r2, v2, (tr @ evs) @ evs2)" "\<forall>x \<in> set evs2. P x" by blast
      with f P Some RetryableError have
        "retry_loop (Suc n) f v tr = (r2, v2, tr @ (evs @ evs2)) \<and> (\<forall>x \<in> set (evs @ evs2). P x)"
        by auto
      then show ?thesis by blast
    next
      case (NonRetryableError x)
      with f P Some show ?thesis by auto
    qed
  qed
qed

lemma Retry_events:
  assumes "\<And>v tr. \<exists>r v' evs. f v tr = (r, v', tr @ evs) \<and> (\<forall>x \<in> set evs. P x)"
  shows "\<exists>r v' evs. Retry m t f v tr = (r, v', tr @ RetryEnter t # evs @ [RetryLeave r]) \<and>
           (\<forall>x \<in> set evs. P x)"
proof -
  have "\<exists>r v' evs. retry_loop (retries (ext m) t) f v (tr @ [RetryEnter t]) =
          (r, v', (tr @ [RetryEnter t]) @ evs) \<and> (\<forall>x \<in> set evs. P x)"
    by (rule retry_loop_events) (rule assms)
  then show ?thesis by (auto simp: Retry_def)
qed


subsection \<open>Update of the wedata rule template\<close>

lemma HasChange_keys:
  "wedata_HasChange d ''type'' = (wa_type (prior d) \<noteq> wa_type (attrs d))"
  "wedata_HasChange d ''name'' = (wa_name (prior d) \<noteq> wa_name (attrs d))"
  "wedata_HasChange d ''quality_dim'' = (wa_quality_dim (prior d) \<noteq> wa_quality_dim (attrs d))"
  "wedata_HasChange d ''source_object_type'' =
     (wa_source_object_type (prior d) \<noteq> wa_source_object_type (attrs d))"
  "wedata_HasChange d ''description'' = (wa_description (prior d) \<noteq> wa_description (attrs d))"
  "wedata_HasChange d ''source_engine_types'' =
     (wa_source_engine_types (prior d) \<noteq> wa_source_engine_types (attrs d))"
  "wedata_HasChange d ''multi_source_flag'' =
     (wa_multi_source_flag (prior d) \<noteq> wa_multi_source_flag (attrs d))"
  "wedata_HasChange d ''sql_expression'' =
     (wa_sql_expression (prior d) \<noteq> wa_sql_expression (attrs d))"
  "wedata_HasChange d ''project_id'' = (wa_project_id (prior d) \<noteq> wa_project_id (attrs d))"
  "wedata_HasChange d ''where_flag'' = (wa_where_flag (prior d) \<noteq> wa_where_flag (attrs d))"
  by (simp_all add: wedata_HasChange_def)

lemma find_unchanged:
  "prior d = attrs d \<Longrightarrow> find (wedata_HasChange d) wedata_immutableArgs = None"
  by (simp add: wedata_immutableArgs_def HasChange_keys)

lemma find_changed:
  assumes "prior d \<noteq> attrs d"
  shows "\<exists>k \<in> set wedata_immutableArgs. wedata_HasChange d k"
proof (rule ccontr)
  assume "\<not> (\<exists>k \<in> set wedata_immutableArgs. wedata_HasChange d k)"
  then have "prior d = attrs d"
    by (intro WedataAttrs.equality) (simp_all add: wedata_immutableArgs_def HasChange_keys)
  with assms show False by simp
qed

lemma request_unchanged:
  "prior d = attrs d \<Longrightarrow> wedata_update_request d =
     \<lparr> mr_TemplateId = Id d, mr_Type = None, mr_Name = None, mr_QualityDim = None,
       mr_SourceObjectType = None, mr_Description = None, mr_SourceEngineTypes = [],
       mr_MultiSourceFlag = None, mr_SqlExpression = None, mr_ProjectId = None,
       mr_WhereFlag = None \<rparr>"
  by (simp add: wedata_update_request_def HasChange_keys)

text \<open>
  C9. For the wedata rule template resource: whenever any of the ten arguments (type,
  name, quality_dim, source_object_type, description, source_engine_types,
  multi_source_flag, sql_expression, project_id, where_flag) has changed, update returns
  the error "argument `k` cannot be changed" for the first changed argument \<open>k\<close> of the
  list, with the resource data and the log as they were (no call is made). Hence every
  ModifyRuleTemplate request that update issues is issued with no argument changed, and
  carries the template ID and none of the ten fields.
\<close>

theorem wedata_update_rejects_changes:
  "(prior d \<noteq> attrs d \<or> (\<exists>a \<in> set wedata_immutableArgs. wedata_HasChange d a) \<longrightarrow>
      (\<exists>k. find (wedata_HasChange d) wedata_immutableArgs = Some k \<and>
           k \<in> set wedata_immutableArgs \<and> wedata_HasChange d k \<and>
           resourceTencentCloudWedataRuleTemplateUpdate m d tr =
             (Some (Errorf (''argument `'' @ k @ ''` cannot be changed'')), d, tr))) \<and>
   (\<forall>res d' tr' req.
      resourceTencentCloudWedataRuleTemplateUpdate m d tr = (res, d', tr') \<and>
      Sdk (ModifyRuleTemplate req) \<in> set (drop (length tr) tr') \<longrightarrow>
      prior d = attrs d \<and>
      req = \<lparr> mr_TemplateId = Id d, mr_Type = None, mr_Name = None, mr_QualityDim = None,
              mr_SourceObjectType = None, mr_Description = None, mr_SourceEngineTypes = [],
              mr_MultiSourceFlag = None, mr_SqlExpression = None, mr_ProjectId = None,
              mr_WhereFlag = None \<rparr>)"
proof (cases "prior d = attrs d")
  case True
  let ?e = "Sdk (ModifyRuleTemplate (wedata_update_request d))"
  have none: "find (wedata_HasChange d) wedata_immutableArgs = None"
    using True by (rule find_unchanged)
  then have nochange: "\<not> (\<exists>a \<in> set wedata_immutableArgs. wedata_HasChange d a)"
    by (simp add: find_None_iff)
  have "\<exists>r v' evs. Retry m writeRetryTimeout (ModifyRuleTemplate_closure m (wedata_update_request d)) () tr =
          (r, v', tr @ RetryEnter writeRetryTimeout # evs @ [RetryLeave r]) \<and> (\<forall>x \<in> set evs. x = ?e)"
    by (rule Retry_events)
       (auto simp: ModifyRuleTemplate_closure_def Let_def split: option.splits)
  then obtain r v' evs where
    R: "Retry m writeRetryTimeout (ModifyRuleTemplate_closure m (wedata_update_request d)) () tr =
          (r, v', tr @ RetryEnter writeRetryTimeout # evs @ [RetryLeave r])"
    and evs: "\<forall>x \<in> set evs. x = ?e" by blast
  have second: "req = wedata_update_request d"
    if "resourceTencentCloudWedataRuleTemplateUpdate m d tr = (res, d', tr')"
      and "Sdk (ModifyRuleTemplate req) \<in> set (drop (length tr) tr')" for res d' tr' req
  proof (cases r)
    case None
    with that R none evs show ?thesis
      by (auto simp: resourceTencentCloudWedataRuleTemplateUpdate_def
            resourceTencentCloudWedataRuleTemplateRead_def Let_def split: sum.splits option.splits)
  next
    case (Some err)
    with that R none evs show ?thesis
      by (auto simp: resourceTencentCloudWedataRuleTemplateUpdate_def)
  qed
  show ?thesis
    using True nochange second request_unchanged[OF True] by auto
next
  case False
  from find_changed[OF False] obtain a where a: "a \<in> set wedata_immutableArgs" "wedata_HasChange d a"
    by blast
  then have "find (wedata_HasChange d) wedata_immutableArgs \<noteq> None"
    by (auto simp: find_None_iff)
  then obtain k where k: "find (wedata_HasChange d) wedata_immutableArgs = Some k" by auto
  then have kin: "k \<in> set wedata_immutableArgs" "wedata_HasChange d k"
    by (auto simp: find_Some_iff)
  have upd: "resourceTencentCloudWedataRuleTemplateUpdate m d tr =
      (Some (Errorf (''argument `'' @ k @ ''` cannot be changed'')), d, tr)"
    using k by (simp add: resourceTencentCloudWedataRuleTemplateUpdate_def)
  show ?thesis using k kin upd by auto
qed

theorem wedata_update_rejects_changes_witness:
  "prior sample_template \<noteq> attrs sample_template \<and>
   ''description'' \<in> set wedata_immutableArgs \<and> wedata_HasChange sample_template ''description'' \<and>
   resourceTencentCloudWedataRuleTemplateUpdate sample_client sample_template [] =
     (Some (Errorf ''argument `description` cannot be changed''), sample_template, []) \<and>
   resourceTencentCloudWedataRuleTemplateUpdate sample_client
       (sample_template\<lparr>attrs := prior sample_template\<rparr>) [] =
     (None, sample_template\<lparr>attrs := prior sample_template, Id := []\<rparr>,
      [RetryEnter writeRetryTimeout,
       Sdk (ModifyRuleTemplate
         \<lparr> mr_TemplateId = ''42'', mr_Type = None, mr_Name = None, mr_QualityDim = None,
           mr_SourceObjectType = None, mr_Description = None, mr_SourceEngineTypes = [],
           mr_MultiSourceFlag = None, mr_SqlExpression = None, mr_ProjectId = None,
           mr_WhereFlag = None \<rparr>),
       RetryLeave None, Service (DescribeWedataRuleTemplateById ''42'')])"
proof -
  have h: "prior sample_template \<noteq> attrs sample_template"
    by (simp add: sample_template_def)
  have c: "wedata_HasChange sample_template ''description''"
    "''description'' \<in> set wedata_immutableArgs"
    by (simp_all add: HasChange_keys sample_template_def wedata_immutableArgs_def)
  have f: "find (wedata_HasChange sample_template) wedata_immutableArgs = Some ''description''"
    by (simp add: wedata_immutableArgs_def HasChange_keys sample_template_def)
  have u: "resourceTencentCloudWedataRuleTemplateUpdate sample_client
       (sample_template\<lparr>attrs := prior sample_template\<rparr>) [] =
     (None, sample_template\<lparr>attrs := prior sample_template, Id := []\<rparr>,
      [RetryEnter writeRetryTimeout,
       Sdk (ModifyRuleTemplate
         \<lparr> mr_TemplateId = ''42'', mr_Type = None, mr_Name = None, mr_QualityDim = None,
           mr_SourceObjectType = None, mr_Description = None, mr_SourceEngineTypes = [],
           mr_MultiSourceFlag = None, mr_SqlExpression = None, mr_ProjectId = None,
           mr_WhereFlag = None \<rparr>),
       RetryLeave None, Service (DescribeWedataRuleTemplateById ''42'')])"
    by (simp add: resourceTencentCloudWedataRuleTemplateUpdate_def find_unchanged
          request_unchanged Retry_def ModifyRuleTemplate_closure_def sample_client_def
          sample_ext_def eval_nat_numeral resourceTencentCloudWedataRuleTemplateRead_def
          sample_template_def)
  show ?thesis
    using h c f u wedata_update_rejects_changes[of sample_template sample_client "[]"]
    by simp
qed

subsection \<open>How a retried closure ends\<close>

lemma retry_loop_success:
  assumes "\<And>v tr. \<exists>evs. snd (snd (f v tr)) = tr @ evs"
    and "retry_loop n f v tr = (None, v', tr')"
  shows "\<exists>v0 evs0. f v0 (tr @ evs0) = (None, v', tr')"
  using assms(2)
proof (induction n arbitrary: v tr)
  case 0
  then have "f v (tr @ []) = (None, v', tr')"
    by (auto split: prod.splits option.splits RetryError.splits)
  then show ?case by blast
next
  case (Suc n)
  obtain r v1 tr1 where f: "f v tr = (r, v1, tr1)" by (cases "f v tr") auto
  from assms(1)[of v tr] f obtain evs where tr1: "tr1 = tr @ evs" by auto
  show ?case
  proof (cases r)
    case None
    with Suc.prems f have "f v (tr @ []) = (None, v', tr')" by auto
    then show ?thesis by blast
  next
    case (Some re)
    show ?thesis
    proof (cases re)
      case (RetryableError e)
      with Suc.prems f Some have "retry_loop n f v1 tr1 = (None, v', tr')" by auto
      from Suc.IH[OF this] obtain v0 evs0 where "f v0 (tr1 @ evs0) = (None, v', tr')" by blast
      with tr1 have "f v0 (tr @ (evs @ evs0)) = (None, v', tr')" by simp
      then show ?thesis by blast
    next
      case (NonRetryableError e)
      with Suc.prems f Some show ?thesis by auto
    qed
  qed
qed

lemma Retry_success:
  assumes "\<And>v tr. \<exists>evs. snd (snd (f v tr)) = tr @ evs"
    and "Retry m t f v tr = (None, v', tr')"
  shows "\<exists>v0 evs0 tr1. f v0 (tr @ RetryEnter t # evs0) = (None, v', tr1) \<and> tr' = tr1 @ [RetryLeave None]"
proof -
  obtain r v1 tr1 where L: "retry_loop (retries (ext m) t) f v (tr @ [RetryEnter t]) = (r, v1, tr1)"
    by (cases "retry_loop (retries (ext m) t) f v (tr @ [RetryEnter t])") auto
  with assms(2) have r: "r = None" "v1 = v'" "tr' = tr1 @ [RetryLeave None]"
    by (auto simp: Retry_def)
  from retry_loop_success[where f = f, OF assms(1)] L r
  obtain v0 evs0 where "f v0 ((tr @ [RetryEnter t]) @ evs0) = (None, v', tr1)" by blast
  with r show ?thesis by auto
qed

lemma retry_loop_retryable:
  "f v tr = (Some (RetryableError e), v', tr1) \<Longrightarrow>
   retry_loop (Suc n) f v tr = retry_loop n f v' tr1 \<and> retry_loop 0 f v tr = (Some e, v', tr1)"
  by simp

lemma retry_loop_nonretryable:
  "f v tr = (Some (NonRetryableError e), v', tr1) \<Longrightarrow> retry_loop n f v tr = (Some e, v', tr1)"
  by (cases n) auto

lemma retry_loop_nil:
  "f v tr = (None, v', tr1) \<Longrightarrow> retry_loop n f v tr = (None, v', tr1)"
  by (cases n) auto

text \<open>
  Runs of a retried closure: when the first \<open>k\<close> attempts return a retryable error and log
  the same events each, the loop goes on from the log of those attempts.
\<close>

lemma concat_replicate_single: "concat (replicate k [e]) = replicate k e"
  by (induction k) auto

lemma concat_replicate_Suc: "concat (replicate k er) @ er = concat (replicate (Suc k) er)"
proof -
  have "concat (replicate (Suc k) er) = concat (replicate k er @ [er])"
    by (simp only: replicate_append_same replicate_Suc)
  then show ?thesis by simp
qed

lemma retry_loop_skip:
  assumes "\<And>j. j < k \<Longrightarrow> \<exists>x. f v (tr @ concat (replicate j er)) =
             (Some (RetryableError x), v, tr @ concat (replicate j er) @ er)"
    and "k \<le> n"
  shows "retry_loop n f v tr = retry_loop (n - k) f v (tr @ concat (replicate k er))"
  using assms
proof (induction k arbitrary: n tr)
  case 0
  then show ?case by simp
next
  case (Suc k)
  from Suc.prems(2) obtain n' where n: "n = Suc n'" and kn: "k \<le> n'" by (cases n) auto
  from Suc.prems(1)[of 0] obtain x where f0: "f v tr = (Some (RetryableError x), v, tr @ er)"
    by auto
  have step: "\<exists>x. f v ((tr @ er) @ concat (replicate j er)) =
             (Some (RetryableError x), v, (tr @ er) @ concat (replicate j er) @ er)"
    if "j < k" for j
    using Suc.prems(1)[of "Suc j"] that by simp
  have "retry_loop n' f v (tr @ er) = retry_loop (n' - k) f v ((tr @ er) @ concat (replicate k er))"
    by (rule Suc.IH[OF step kn])
  with f0 n show ?case by simp
qed

lemma retry_loop_run_nil:
  assumes "\<And>j. j < k \<Longrightarrow> \<exists>x. f v (tr @ concat (replicate j er)) =
             (Some (RetryableError x), v, tr @ concat (replicate j er) @ er)"
    and "k \<le> n"
    and "f v (tr @ concat (replicate k er)) = (None, v', trf)"
  shows "retry_loop n f v tr = (None, v', trf)"
  using retry_loop_skip[where f = f, OF assms(1,2)] retry_loop_nil[where f = f, OF assms(3)]
  by simp

lemma retry_loop_run_quit:
  assumes "\<And>j. j < k \<Longrightarrow> \<exists>x. f v (tr @ concat (replicate j er)) =
             (Some (RetryableError x), v, tr @ concat (replicate j er) @ er)"
    and "k \<le> n"
    and "f v (tr @ concat (replicate k er)) = (Some (NonRetryableError e), v', trf)"
  shows "retry_loop n f v tr = (Some e, v', trf)"
  using retry_loop_skip[where f = f, OF assms(1,2)] retry_loop_nonretryable[where f = f, OF assms(3)]
  by simp

lemma retry_loop_run_timeout:
  assumes "\<And>j. j < n \<Longrightarrow> \<exists>x. f v (tr @ concat (replicate j er)) =
             (Some (RetryableError x), v, tr @ concat (replicate j er) @ er)"
    and "f v (tr @ concat (replicate n er)) =
           (Some (RetryableError e), v, tr @ concat (replicate n er) @ er)"
  shows "retry_loop n f v tr = (Some e, v, tr @ concat (replicate (Suc n) er))"
proof -
  have "retry_loop n f v tr = retry_loop (n - n) f v (tr @ concat (replicate n er))"
    by (rule retry_loop_skip[where f = f, OF assms(1)]) auto
  also have "\<dots> = (Some e, v, tr @ concat (replicate n er) @ er)"
    using assms(2) by simp
  finally show ?thesis
    using concat_replicate_Suc[of n er] by simp
qed


subsection \<open>Polling loops of the EMR cluster\<close>

lemma EmrCluster_poll_extends:
  "\<exists>evs. snd (snd (EmrCluster_poll m codes expected i ds v tr)) = tr @ evs"
  by (auto simp: EmrCluster_poll_def Let_def split: prod.splits option.splits error.splits)

lemma EmrCluster_poll_nil:
  assumes "EmrCluster_poll m codes expected i ds u tr = (None, u', tr')"
  shows "tr' = tr @ [Service (EmrDescribeInstancesById i ds)] \<and>
         emr_poll_done codes expected (rsp_DescribeInstancesById (emr m) (length tr))"
  using assms
  by (cases "rsp_DescribeInstancesById (emr m) (length tr)")
     (auto simp: EmrCluster_poll_def Let_def emr_poll_done_def
        split: option.splits error.splits if_splits)

lemma emr_wait_success:
  assumes "Retry m t (EmrCluster_poll m codes expected i ds) () tr = (None, u, tr')"
  shows "\<exists>k. length tr < k \<and> Suc (Suc k) = length tr' \<and>
           tr' ! k = Service (EmrDescribeInstancesById i ds) \<and>
           emr_poll_done codes expected (rsp_DescribeInstancesById (emr m) k)"
proof -
  from Retry_success[where f = "EmrCluster_poll m codes expected i ds", OF EmrCluster_poll_extends assms]
  obtain v0 evs0 tr1 where
    f: "EmrCluster_poll m codes expected i ds v0 (tr @ RetryEnter t # evs0) = (None, u, tr1)"
    and tr': "tr' = tr1 @ [RetryLeave None]" by blast
  let ?tr0 = "tr @ RetryEnter t # evs0"
  from EmrCluster_poll_nil[OF f] have
    tr1: "tr1 = ?tr0 @ [Service (EmrDescribeInstancesById i ds)]"
    and fin: "emr_poll_done codes expected (rsp_DescribeInstancesById (emr m) (length ?tr0))"
    by auto
  have "tr' ! length ?tr0 = Service (EmrDescribeInstancesById i ds)"
    unfolding tr' tr1 by (simp add: nth_append)
  with tr' tr1 fin show ?thesis
    by (intro exI[of _ "length ?tr0"]) auto
qed

lemma EmrCluster_poll_retry:
  assumes "rsp_DescribeInstancesById (emr m) (length tr) = (c # cs, err)"
    and "Status c = Some s" and "s \<noteq> expected"
    and "\<not> (\<exists>code \<in> set codes. err = Some (TencentCloudSDKError code))"
  shows "EmrCluster_poll m codes expected i ds u tr =
           (Some (RetryableError (StatusStill i s)), u, tr @ [Service (EmrDescribeInstancesById i ds)])"
  using assms
  by (auto simp: EmrCluster_poll_def Let_def split: option.splits error.splits)

lemma EmrCluster_poll_done:
  assumes "emr_poll_done codes expected (rsp_DescribeInstancesById (emr m) (length tr))"
  shows "EmrCluster_poll m codes expected i ds u tr =
           (None, u, tr @ [Service (EmrDescribeInstancesById i ds)])"
  using assms
  by (cases "rsp_DescribeInstancesById (emr m) (length tr)")
     (auto simp: EmrCluster_poll_def Let_def emr_poll_done_def
        split: option.splits error.splits)

lemma EmrCluster_poll_pending:
  assumes "emr_poll_pending codes expected (rsp_DescribeInstancesById (emr m) (length tr))"
  shows "\<exists>c cs s. fst (rsp_DescribeInstancesById (emr m) (length tr)) = c # cs \<and>
           Status c = Some s \<and> s \<noteq> expected \<and>
           EmrCluster_poll m codes expected i ds u tr =
             (Some (RetryableError (StatusStill i s)), u,
              tr @ [Service (EmrDescribeInstancesById i ds)])"
  using assms
  by (cases "rsp_DescribeInstancesById (emr m) (length tr)")
     (auto simp: EmrCluster_poll_def Let_def emr_poll_pending_def
        split: option.splits error.splits list.splits)

lemma emr_wait_pending:
  assumes "\<forall>j < k. emr_poll_pending codes expected
             (rsp_DescribeInstancesById (emr m) (Suc (length tr) + j))" and "j < k"
  shows "\<exists>x. EmrCluster_poll m codes expected i ds ()
               ((tr @ [RetryEnter t]) @
                concat (replicate j [Service (EmrDescribeInstancesById i ds)])) =
             (Some (RetryableError x), (),
              (tr @ [RetryEnter t]) @
              concat (replicate j [Service (EmrDescribeInstancesById i ds)]) @
              [Service (EmrDescribeInstancesById i ds)])"
proof -
  let ?p = "(tr @ [RetryEnter t]) @ concat (replicate j [Service (EmrDescribeInstancesById i ds)])"
  have "length ?p = Suc (length tr) + j" by (simp add: concat_replicate_single)
  with assms have "emr_poll_pending codes expected (rsp_DescribeInstancesById (emr m) (length ?p))"
    by simp
  from EmrCluster_poll_pending[OF this, of i ds "()"] show ?thesis by auto
qed

lemma emr_wait_run:
  assumes p: "\<forall>j < k. emr_poll_pending codes expected
                (rsp_DescribeInstancesById (emr m) (Suc (length tr) + j))"
    and k: "k \<le> retries (ext m) t"
    and d: "emr_poll_done codes expected (rsp_DescribeInstancesById (emr m) (Suc (length tr) + k))"
  shows "Retry m t (EmrCluster_poll m codes expected i ds) () tr =
           (None, (),
            tr @ RetryEnter t # replicate (Suc k) (Service (EmrDescribeInstancesById i ds)) @
            [RetryLeave None])"
proof -
  let ?E = "Service (EmrDescribeInstancesById i ds)"
  let ?f = "EmrCluster_poll m codes expected i ds"
  let ?t0 = "tr @ [RetryEnter t]"
  let ?p = "?t0 @ concat (replicate k [?E])"
  have len: "length ?p = Suc (length tr) + k" by (simp add: concat_replicate_single)
  have skip: "\<And>j. j < k \<Longrightarrow> \<exists>x. ?f () (?t0 @ concat (replicate j [?E])) =
      (Some (RetryableError x), (), ?t0 @ concat (replicate j [?E]) @ [?E])"
    using emr_wait_pending[OF p] by blast
  from d len have "emr_poll_done codes expected (rsp_DescribeInstancesById (emr m) (length ?p))"
    by simp
  from EmrCluster_poll_done[OF this, of i ds "()"]
  have "?f () ?p = (None, (), ?p @ [?E])" .
  from retry_loop_run_nil[where f = ?f, OF skip k this]
  show ?thesis
    unfolding Retry_def by (simp add: concat_replicate_single replicate_append_same)
qed

lemma emr_wait_timeout:
  assumes p: "\<forall>j \<le> retries (ext m) t. emr_poll_pending codes expected
                (rsp_DescribeInstancesById (emr m) (Suc (length tr) + j))"
  shows "\<exists>c cs s.
           fst (rsp_DescribeInstancesById (emr m) (Suc (length tr) + retries (ext m) t)) = c # cs \<and>
           Status c = Some s \<and> s \<noteq> expected \<and>
           Retry m t (EmrCluster_poll m codes expected i ds) () tr =
             (Some (StatusStill i s), (),
              tr @ RetryEnter t #
                replicate (Suc (retries (ext m) t)) (Service (EmrDescribeInstancesById i ds)) @
                [RetryLeave (Some (StatusStill i s))])"
proof -
  let ?n = "retries (ext m) t"
  let ?E = "Service (EmrDescribeInstancesById i ds)"
  let ?f = "EmrCluster_poll m codes expected i ds"
  let ?t0 = "tr @ [RetryEnter t]"
  let ?p = "?t0 @ concat (replicate ?n [?E])"
  from p have p': "\<forall>j < ?n. emr_poll_pending codes expected
                (rsp_DescribeInstancesById (emr m) (Suc (length tr) + j))" by auto
  have skip: "\<And>j. j < ?n \<Longrightarrow> \<exists>x. ?f () (?t0 @ concat (replicate j [?E])) =
      (Some (RetryableError x), (), ?t0 @ concat (replicate j [?E]) @ [?E])"
    using emr_wait_pending[OF p'] by blast
  have len: "length ?p = Suc (length tr) + ?n" by (simp add: concat_replicate_single)
  with p have "emr_poll_pending codes expected (rsp_DescribeInstancesById (emr m) (length ?p))"
    by simp
  from EmrCluster_poll_pending[OF this, of i ds "()"] obtain c cs s where
    c: "fst (rsp_DescribeInstancesById (emr m) (length ?p)) = c # cs" "Status c = Some s"
       "s \<noteq> expected"
    and last: "?f () ?p = (Some (RetryableError (StatusStill i s)), (), ?p @ [?E])"
    by blast
  from retry_loop_run_timeout[where f = ?f and er = "[?E]", OF skip] last
  have "retry_loop ?n ?f () ?t0 =
          (Some (StatusStill i s), (), ?t0 @ concat (replicate (Suc ?n) [?E]))"
    by simp
  then have "Retry m t ?f () tr =
             (Some (StatusStill i s), (),
              tr @ RetryEnter t # replicate (Suc ?n) ?E @ [RetryLeave (Some (StatusStill i s))])"
    unfolding Retry_def by (simp add: concat_replicate_single)
  with c len show ?thesis by (metis (no_types, lifting))
qed

text \<open>
  C5, as stated: each polling loop returns success only when the polled cluster status
  equals the expected terminal value. Against a client whose polls answer with the SDK
  error \<^verbatim>\<open>InternalError.ClusterNotFound\<close> and no cluster, the polling loop of create
  returns nil after one poll, in which no status was seen.
\<close>

theorem emr_cluster_not_found_ends_poll:
  "EmrClusterCreate_wait not_found_client ''emr-1'' ''clusterList'' [] =
     (None, (),
      [RetryEnter (Times 10 readRetryTimeout),
       Service (EmrDescribeInstancesById ''emr-1'' ''clusterList''), RetryLeave None]) \<and>
   rsp_DescribeInstancesById (emr not_found_client) 1 =
     ([], Some (TencentCloudSDKError ''InternalError.ClusterNotFound''))"
  by (simp add: EmrClusterCreate_wait_def Retry_def not_found_client_def sample_client_def
        sample_ext_def EmrCluster_poll_def eval_nat_numeral)

text \<open>
  C5, amended. Each polling loop of the EMR cluster resource (create, update, delete;
  all run under the fixed timeout \<^verbatim>\<open>10*readRetryTimeout\<close>) returns success only when its
  last poll answered with the SDK error \<^verbatim>\<open>InternalError.ClusterNotFound\<close> (delete: or
  \<^verbatim>\<open>UnauthorizedOperation\<close>), or with no error and either no cluster or a first cluster
  whose status equals the expected terminal value (\<^verbatim>\<open>EmrInternetStatusCreated\<close> for
  create and update, \<^verbatim>\<open>EmrInternetStatusDeleted\<close> for delete). When a poll answers with a
  first cluster whose status differs from the expected value, and not with one of those
  error codes, the closure returns a retryable error. Of each of the three loops, under
  \<^verbatim>\<open>10*readRetryTimeout\<close>: when the first \<open>p\<close> polls are answered so (\<open>p\<close> not above the
  number of further attempts that the timeout allows) and the next poll with one of the
  answers that end the loop, the loop polls \<open>p + 1\<close> times and returns nil; when all the
  polls that the timeout allows are answered so, the loop makes them all and returns the
  error that names the status of the last poll.
\<close>

theorem emr_polling_loops:
  "(EmrClusterCreate_wait m i ds tr = (None, u, tr') \<longrightarrow>
      (\<exists>k. length tr < k \<and> Suc (Suc k) = length tr' \<and>
           tr' ! k = Service (EmrDescribeInstancesById i ds) \<and>
           emr_poll_done [''InternalError.ClusterNotFound''] (EmrInternetStatusCreated (ext m))
             (rsp_DescribeInstancesById (emr m) k))) \<and>
   (EmrClusterUpdate_wait m i tr = (None, u, tr') \<longrightarrow>
      (\<exists>k. length tr < k \<and> Suc (Suc k) = length tr' \<and>
           tr' ! k = Service (EmrDescribeInstancesById i (DisplayStrategyIsclusterList (ext m))) \<and>
           emr_poll_done [''InternalError.ClusterNotFound''] (EmrInternetStatusCreated (ext m))
             (rsp_DescribeInstancesById (emr m) k))) \<and>
   (EmrClusterDelete_wait m i tr = (None, u, tr') \<longrightarrow>
      (\<exists>k. length tr < k \<and> Suc (Suc k) = length tr' \<and>
           tr' ! k = Service (EmrDescribeInstancesById i (DisplayStrategyIsclusterList (ext m))) \<and>
           emr_poll_done [''InternalError.ClusterNotFound'', ''UnauthorizedOperation'']
             (EmrInternetStatusDeleted (ext m)) (rsp_DescribeInstancesById (emr m) k))) \<and>
   (rsp_DescribeInstancesById (emr m) (length tr) = (c # cs, err) \<and> Status c = Some s \<and>
    s \<noteq> expected \<and> \<not> (\<exists>code \<in> set codes. err = Some (TencentCloudSDKError code)) \<longrightarrow>
      EmrCluster_poll m codes expected i ds () tr =
        (Some (RetryableError (StatusStill i s)), (),
         tr @ [Service (EmrDescribeInstancesById i ds)]) \<and>
      retry_loop (Suc n) (EmrCluster_poll m codes expected i ds) () tr =
        retry_loop n (EmrCluster_poll m codes expected i ds) ()
          (tr @ [Service (EmrDescribeInstancesById i ds)]) \<and>
      retry_loop 0 (EmrCluster_poll m codes expected i ds) () tr =
        (Some (StatusStill i s), (), tr @ [Service (EmrDescribeInstancesById i ds)])) \<and>
   ((\<forall>j < p. emr_poll_pending [''InternalError.ClusterNotFound''] (EmrInternetStatusCreated (ext m))
         (rsp_DescribeInstancesById (emr m) (Suc (length tr) + j))) \<and>
    p \<le> retries (ext m) (Times 10 readRetryTimeout) \<and>
    emr_poll_done [''InternalError.ClusterNotFound''] (EmrInternetStatusCreated (ext m))
      (rsp_DescribeInstancesById (emr m) (Suc (length tr) + p)) \<longrightarrow>
      EmrClusterCreate_wait m i ds tr =
        (None, (),
         tr @ RetryEnter (Times 10 readRetryTimeout) #
           replicate (Suc p) (Service (EmrDescribeInstancesById i ds)) @ [RetryLeave None])) \<and>
   ((\<forall>j \<le> retries (ext m) (Times 10 readRetryTimeout).
       emr_poll_pending [''InternalError.ClusterNotFound''] (EmrInternetStatusCreated (ext m))
         (rsp_DescribeInstancesById (emr m) (Suc (length tr) + j))) \<longrightarrow>
      (\<exists>cl rest st.
         fst (rsp_DescribeInstancesById (emr m)
                (Suc (length tr) + retries (ext m) (Times 10 readRetryTimeout))) = cl # rest \<and>
         Status cl = Some st \<and> st \<noteq> EmrInternetStatusCreated (ext m) \<and>
         EmrClusterCreate_wait m i ds tr =
           (Some (StatusStill i st), (),
            tr @ RetryEnter (Times 10 readRetryTimeout) #
              replicate (Suc (retries (ext m) (Times 10 readRetryTimeout)))
                (Service (EmrDescribeInstancesById i ds)) @
              [RetryLeave (Some (StatusStill i st))]))) \<and>
   ((\<forall>j < p. emr_poll_pending [''InternalError.ClusterNotFound''] (EmrInternetStatusCreated (ext m))
         (rsp_DescribeInstancesById (emr m) (Suc (length tr) + j))) \<and>
    p \<le> retries (ext m) (Times 10 readRetryTimeout) \<and>
    emr_poll_done [''InternalError.ClusterNotFound''] (EmrInternetStatusCreated (ext m))
      (rsp_DescribeInstancesById (emr m) (Suc (length tr) + p)) \<longrightarrow>
      EmrClusterUpdate_wait m i tr =
        (None, (),
         tr @ RetryEnter (Times 10 readRetryTimeout) #
           replicate (Suc p) (Service (EmrDescribeInstancesById i (DisplayStrategyIsclusterList (ext m)))) @ [RetryLeave None])) \<and>
   ((\<forall>j \<le> retries (ext m) (Times 10 readRetryTimeout).
       emr_poll_pending [''InternalError.ClusterNotFound''] (EmrInternetStatusCreated (ext m))
         (rsp_DescribeInstancesById (emr m) (Suc (length tr) + j))) \<longrightarrow>
      (\<exists>cl rest st.
         fst (rsp_DescribeInstancesById (emr m)
                (Suc (length tr) + retries (ext m) (Times 10 readRetryTimeout))) = cl # rest \<and>
         Status cl = Some st \<and> st \<noteq> EmrInternetStatusCreated (ext m) \<and>
         EmrClusterUpdate_wait m i tr =
           (Some (StatusStill i st), (),
            tr @ RetryEnter (Times 10 readRetryTimeout) #
              replicate (Suc (retries (ext m) (Times 10 readRetryTimeout)))
                (Service (EmrDescribeInstancesById i (DisplayStrategyIsclusterList (ext m)))) @
              [RetryLeave (Some (StatusStill i st))]))) \<and>
   ((\<forall>j < p. emr_poll_pending [''InternalError.ClusterNotFound'', ''UnauthorizedOperation''] (EmrInternetStatusDeleted (ext m))
         (rsp_DescribeInstancesById (emr m) (Suc (length tr) + j))) \<and>
    p \<le> retries (ext m) (Times 10 readRetryTimeout) \<and>
    emr_poll_done [''InternalError.ClusterNotFound'', ''UnauthorizedOperation''] (EmrInternetStatusDeleted (ext m))
      (rsp_DescribeInstancesById (emr m) (Suc (length tr) + p)) \<longrightarrow>
      EmrClusterDelete_wait m i tr =
        (None, (),
         tr @ RetryEnter (Times 10 readRetryTimeout) #
           replicate (Suc p) (Service (EmrDescribeInstancesById i (DisplayStrategyIsclusterList (ext m)))) @ [RetryLeave None])) \<and>
   ((\<forall>j \<le> retries (ext m) (Times 10 readRetryTimeout).
       emr_poll_pending [''InternalError.ClusterNotFound'', ''UnauthorizedOperation''] (EmrInternetStatusDeleted (ext m))
         (rsp_DescribeInstancesById (emr m) (Suc (length tr) + j))) \<longrightarrow>
      (\<exists>cl rest st.
         fst (rsp_DescribeInstancesById (emr m)
                (Suc (length tr) + retries (ext m) (Times 10 readRetryTimeout))) = cl # rest \<and>
         Status cl = Some st \<and> st \<noteq> EmrInternetStatusDeleted (ext m) \<and>
         EmrClusterDelete_wait m i tr =
           (Some (StatusStill i st), (),
            tr @ RetryEnter (Times 10 readRetryTimeout) #
              replicate (Suc (retries (ext m) (Times 10 readRetryTimeout)))
                (Service (EmrDescribeInstancesById i (DisplayStrategyIsclusterList (ext m)))) @
              [RetryLeave (Some (StatusStill i st))])))"
proof -
  have retry: "EmrCluster_poll m codes expected i ds () tr =
        (Some (RetryableError (StatusStill i s)), (),
         tr @ [Service (EmrDescribeInstancesById i ds)]) \<and>
      retry_loop (Suc n) (EmrCluster_poll m codes expected i ds) () tr =
        retry_loop n (EmrCluster_poll m codes expected i ds) ()
          (tr @ [Service (EmrDescribeInstancesById i ds)]) \<and>
      retry_loop 0 (EmrCluster_poll m codes expected i ds) () tr =
        (Some (StatusStill i s), (), tr @ [Service (EmrDescribeInstancesById i ds)])"
    if "rsp_DescribeInstancesById (emr m) (length tr) = (c # cs, err)" "Status c = Some s"
      "s \<noteq> expected" "\<not> (\<exists>code \<in> set codes. err = Some (TencentCloudSDKError code))"
    using EmrCluster_poll_retry[OF that] retry_loop_retryable by metis
  have ends: "(EmrClusterCreate_wait m i ds tr = (None, u, tr') \<longrightarrow>
        (\<exists>k. length tr < k \<and> Suc (Suc k) = length tr' \<and>
             tr' ! k = Service (EmrDescribeInstancesById i ds) \<and>
             emr_poll_done [''InternalError.ClusterNotFound''] (EmrInternetStatusCreated (ext m))
               (rsp_DescribeInstancesById (emr m) k))) \<and>
     (EmrClusterUpdate_wait m i tr = (None, u, tr') \<longrightarrow>
        (\<exists>k. length tr < k \<and> Suc (Suc k) = length tr' \<and>
             tr' ! k = Service (EmrDescribeInstancesById i (DisplayStrategyIsclusterList (ext m))) \<and>
             emr_poll_done [''InternalError.ClusterNotFound''] (EmrInternetStatusCreated (ext m))
               (rsp_DescribeInstancesById (emr m) k))) \<and>
     (EmrClusterDelete_wait m i tr = (None, u, tr') \<longrightarrow>
        (\<exists>k. length tr < k \<and> Suc (Suc k) = length tr' \<and>
             tr' ! k = Service (EmrDescribeInstancesById i (DisplayStrategyIsclusterList (ext m))) \<and>
             emr_poll_done [''InternalError.ClusterNotFound'', ''UnauthorizedOperation'']
               (EmrInternetStatusDeleted (ext m)) (rsp_DescribeInstancesById (emr m) k))) \<and>
     (rsp_DescribeInstancesById (emr m) (length tr) = (c # cs, err) \<and> Status c = Some s \<and>
      s \<noteq> expected \<and> \<not> (\<exists>code \<in> set codes. err = Some (TencentCloudSDKError code)) \<longrightarrow>
        EmrCluster_poll m codes expected i ds () tr =
          (Some (RetryableError (StatusStill i s)), (),
           tr @ [Service (EmrDescribeInstancesById i ds)]) \<and>
        retry_loop (Suc n) (EmrCluster_poll m codes expected i ds) () tr =
          retry_loop n (EmrCluster_poll m codes expected i ds) ()
            (tr @ [Service (EmrDescribeInstancesById i ds)]) \<and>
        retry_loop 0 (EmrCluster_poll m codes expected i ds) () tr =
          (Some (StatusStill i s), (), tr @ [Service (EmrDescribeInstancesById i ds)]))"
    using retry emr_wait_success[of m "Times 10 readRetryTimeout"]
    unfolding EmrClusterCreate_wait_def EmrClusterUpdate_wait_def EmrClusterDelete_wait_def
    by blast
  have runa: "((\<forall>j < p. emr_poll_pending [''InternalError.ClusterNotFound''] (EmrInternetStatusCreated (ext m))
           (rsp_DescribeInstancesById (emr m) (Suc (length tr) + j))) \<and>
      p \<le> retries (ext m) (Times 10 readRetryTimeout) \<and>
      emr_poll_done [''InternalError.ClusterNotFound''] (EmrInternetStatusCreated (ext m))
        (rsp_DescribeInstancesById (emr m) (Suc (length tr) + p)) \<longrightarrow>
        EmrClusterCreate_wait m i ds tr =
          (None, (),
           tr @ RetryEnter (Times 10 readRetryTimeout) #
             replicate (Suc p) (Service (EmrDescribeInstancesById i ds)) @ [RetryLeave None]))"
    unfolding EmrClusterCreate_wait_def using emr_wait_run by blast
  have tmoa: "((\<forall>j \<le> retries (ext m) (Times 10 readRetryTimeout).
         emr_poll_pending [''InternalError.ClusterNotFound''] (EmrInternetStatusCreated (ext m))
           (rsp_DescribeInstancesById (emr m) (Suc (length tr) + j))) \<longrightarrow>
        (\<exists>cl rest st.
           fst (rsp_DescribeInstancesById (emr m)
                  (Suc (length tr) + retries (ext m) (Times 10 readRetryTimeout))) = cl # rest \<and>
           Status cl = Some st \<and> st \<noteq> EmrInternetStatusCreated (ext m) \<and>
           EmrClusterCreate_wait m i ds tr =
             (Some (StatusStill i st), (),
              tr @ RetryEnter (Times 10 readRetryTimeout) #
                replicate (Suc (retries (ext m) (Times 10 readRetryTimeout)))
                  (Service (EmrDescribeInstancesById i ds)) @
                [RetryLeave (Some (StatusStill i st))])))"
    unfolding EmrClusterCreate_wait_def using emr_wait_timeout by blast
  have runb: "((\<forall>j < p. emr_poll_pending [''InternalError.ClusterNotFound''] (EmrInternetStatusCreated (ext m))
           (rsp_DescribeInstancesById (emr m) (Suc (length tr) + j))) \<and>
      p \<le> retries (ext m) (Times 10 readRetryTimeout) \<and>
      emr_poll_done [''InternalError.ClusterNotFound''] (EmrInternetStatusCreated (ext m))
        (rsp_DescribeInstancesById (emr m) (Suc (length tr) + p)) \<longrightarrow>
        EmrClusterUpdate_wait m i tr =
          (None, (),
           tr @ RetryEnter (Times 10 readRetryTimeout) #
             replicate (Suc p) (Service (EmrDescribeInstancesById i (DisplayStrategyIsclusterList (ext m)))) @ [RetryLeave None]))"
    unfolding EmrClusterUpdate_wait_def using emr_wait_run by blast
  have tmob: "((\<forall>j \<le> retries (ext m) (Times 10 readRetryTimeout).
         emr_poll_pending [''InternalError.ClusterNotFound''] (EmrInternetStatusCreated (ext m))
           (rsp_DescribeInstancesById (emr m) (Suc (length tr) + j))) \<longrightarrow>
        (\<exists>cl rest st.
           fst (rsp_DescribeInstancesById (emr m)
                  (Suc (length tr) + retries (ext m) (Times 10 readRetryTimeout))) = cl # rest \<and>
           Status cl = Some st \<and> st \<noteq> EmrInternetStatusCreated (ext m) \<and>
           EmrClusterUpdate_wait m i tr =
             (Some (StatusStill i st), (),
              tr @ RetryEnter (Times 10 readRetryTimeout) #
                replicate (Suc (retries (ext m) (Times 10 readRetryTimeout)))
                  (Service (EmrDescribeInstancesById i (DisplayStrategyIsclusterList (ext m)))) @
                [RetryLeave (Some (StatusStill i st))])))"
    unfolding EmrClusterUpdate_wait_def using emr_wait_timeout by blast
  have runc: "((\<forall>j < p. emr_poll_pending [''InternalError.ClusterNotFound'', ''UnauthorizedOperation''] (EmrInternetStatusDeleted (ext m))
           (rsp_DescribeInstancesById (emr m) (Suc (length tr) + j))) \<and>
      p \<le> retries (ext m) (Times 10 readRetryTimeout) \<and>
      emr_poll_done [''InternalError.ClusterNotFound'', ''UnauthorizedOperation''] (EmrInternetStatusDeleted (ext m))
        (rsp_DescribeInstancesById (emr m) (Suc (length tr) + p)) \<longrightarrow>
        EmrClusterDelete_wait m i tr =
          (None, (),
           tr @ RetryEnter (Times 10 readRetryTimeout) #
             replicate (Suc p) (Service (EmrDescribeInstancesById i (DisplayStrategyIsclusterList (ext m)))) @ [RetryLeave None]))"
    unfolding EmrClusterDelete_wait_def using emr_wait_run by blast
  have tmoc: "((\<forall>j \<le> retries (ext m) (Times 10 readRetryTimeout).
         emr_poll_pending [''InternalError.ClusterNotFound'', ''UnauthorizedOperation''] (EmrInternetStatusDeleted (ext m))
           (rsp_DescribeInstancesById (emr m) (Suc (length tr) + j))) \<longrightarrow>
        (\<exists>cl rest st.
           fst (rsp_DescribeInstancesById (emr m)
                  (Suc (length tr) + retries (ext m) (Times 10 readRetryTimeout))) = cl # rest \<and>
           Status cl = Some st \<and> st \<noteq> EmrInternetStatusDeleted (ext m) \<and>
           EmrClusterDelete_wait m i tr =
             (Some (StatusStill i st), (),
              tr @ RetryEnter (Times 10 readRetryTimeout) #
                replicate (Suc (retries (ext m) (Times 10 readRetryTimeout)))
                  (Service (EmrDescribeInstancesById i (DisplayStrategyIsclusterList (ext m)))) @
                [RetryLeave (Some (StatusStill i st))])))"
    unfolding EmrClusterDelete_wait_def using emr_wait_timeout by blast
  from ends runa tmoa runb tmob runc tmoc show ?thesis
    by (intro conjI) blast+
qed

theorem emr_polling_loops_witness:
  "EmrClusterCreate_wait sample_client ''emr-1'' ''clusterList'' [] =
     (None, (), [RetryEnter (Times 10 readRetryTimeout),
                 Service (EmrDescribeInstancesById ''emr-1'' ''clusterList''), RetryLeave None]) \<and>
   EmrClusterUpdate_wait sample_client ''emr-1'' [] =
     (None, (), [RetryEnter (Times 10 readRetryTimeout),
                 Service (EmrDescribeInstancesById ''emr-1'' ''clusterList''), RetryLeave None]) \<and>
   emr_poll_done [''InternalError.ClusterNotFound''] 2 (rsp_DescribeInstancesById (emr sample_client) 1) \<and>
   EmrClusterDelete_wait deleted_client ''emr-1'' [] =
     (None, (), [RetryEnter (Times 10 readRetryTimeout),
                 Service (EmrDescribeInstancesById ''emr-1'' ''clusterList''), RetryLeave None]) \<and>
   emr_poll_done [''InternalError.ClusterNotFound'', ''UnauthorizedOperation''] 201
     (rsp_DescribeInstancesById (emr deleted_client) 1) \<and>
   rsp_DescribeInstancesById (emr sample_client) (length ([] :: log)) =
     (\<lparr>Status = Some 2, MetaDb = None\<rparr> # [], None) \<and>
   Status \<lparr>Status = Some 2, MetaDb = None\<rparr> = Some 2 \<and> (2 :: int) \<noteq> 201 \<and>
   \<not> (\<exists>code \<in> set [''InternalError.ClusterNotFound'', ''UnauthorizedOperation''].
         (None :: error option) = Some (TencentCloudSDKError code)) \<and>
   retry_loop 0 (EmrCluster_poll sample_client
       [''InternalError.ClusterNotFound'', ''UnauthorizedOperation''] 201 ''emr-1'' ''clusterList'') () [] =
     (Some (StatusStill ''emr-1'' 2), (), [Service (EmrDescribeInstancesById ''emr-1'' ''clusterList'')]) \<and>
   emr_poll_pending [''InternalError.ClusterNotFound''] 2
      (rsp_DescribeInstancesById (emr (creating_client [1] 2)) 1) \<and>
   (1 :: nat) \<le> retries (ext (creating_client [1] 2)) (Times 10 readRetryTimeout) \<and>
   emr_poll_done [''InternalError.ClusterNotFound''] 2
      (rsp_DescribeInstancesById (emr (creating_client [1] 2)) (Suc (length ([] :: log)) + 1)) \<and>
   EmrClusterCreate_wait (creating_client [1] 2) ''emr-1'' ''clusterList'' [] =
     (None, (), [RetryEnter (Times 10 readRetryTimeout),
                 Service (EmrDescribeInstancesById ''emr-1'' ''clusterList''),
                 Service (EmrDescribeInstancesById ''emr-1'' ''clusterList''), RetryLeave None]) \<and>
   EmrClusterUpdate_wait (creating_client [1] 2) ''emr-1'' [] =
     (None, (), [RetryEnter (Times 10 readRetryTimeout),
                 Service (EmrDescribeInstancesById ''emr-1'' ''clusterList''),
                 Service (EmrDescribeInstancesById ''emr-1'' ''clusterList''), RetryLeave None]) \<and>
   emr_poll_pending [''InternalError.ClusterNotFound'', ''UnauthorizedOperation''] 201
      (rsp_DescribeInstancesById (emr (creating_client [1] 201)) 1) \<and>
   emr_poll_done [''InternalError.ClusterNotFound'', ''UnauthorizedOperation''] 201
      (rsp_DescribeInstancesById (emr (creating_client [1] 201)) (Suc (length ([] :: log)) + 1)) \<and>
   EmrClusterDelete_wait (creating_client [1] 201) ''emr-1'' [] =
     (None, (), [RetryEnter (Times 10 readRetryTimeout),
                 Service (EmrDescribeInstancesById ''emr-1'' ''clusterList''),
                 Service (EmrDescribeInstancesById ''emr-1'' ''clusterList''), RetryLeave None]) \<and>
   retries (ext (creating_client [1, 2, 3] 2)) (Times 10 readRetryTimeout) = 2 \<and>
   emr_poll_pending [''InternalError.ClusterNotFound''] 2
     (rsp_DescribeInstancesById (emr (creating_client [1, 2, 3] 2)) 1) \<and>
   emr_poll_pending [''InternalError.ClusterNotFound''] 2
     (rsp_DescribeInstancesById (emr (creating_client [1, 2, 3] 2)) 2) \<and>
   emr_poll_pending [''InternalError.ClusterNotFound''] 2
     (rsp_DescribeInstancesById (emr (creating_client [1, 2, 3] 2)) 3) \<and>
   EmrClusterCreate_wait (creating_client [1, 2, 3] 2) ''emr-1'' ''clusterList'' [] =
     (Some (StatusStill ''emr-1'' 1), (),
      [RetryEnter (Times 10 readRetryTimeout),
       Service (EmrDescribeInstancesById ''emr-1'' ''clusterList''),
       Service (EmrDescribeInstancesById ''emr-1'' ''clusterList''),
       Service (EmrDescribeInstancesById ''emr-1'' ''clusterList''),
       RetryLeave (Some (StatusStill ''emr-1'' 1))]) \<and>
   EmrClusterUpdate_wait (creating_client [1, 2, 3] 2) ''emr-1'' [] =
     (Some (StatusStill ''emr-1'' 1), (),
      [RetryEnter (Times 10 readRetryTimeout),
       Service (EmrDescribeInstancesById ''emr-1'' ''clusterList''),
       Service (EmrDescribeInstancesById ''emr-1'' ''clusterList''),
       Service (EmrDescribeInstancesById ''emr-1'' ''clusterList''),
       RetryLeave (Some (StatusStill ''emr-1'' 1))]) \<and>
   retries (ext (creating_client [1, 2, 3] 201)) (Times 10 readRetryTimeout) = 2 \<and>
   emr_poll_pending [''InternalError.ClusterNotFound'', ''UnauthorizedOperation''] 201
     (rsp_DescribeInstancesById (emr (creating_client [1, 2, 3] 201)) 1) \<and>
   emr_poll_pending [''InternalError.ClusterNotFound'', ''UnauthorizedOperation''] 201
     (rsp_DescribeInstancesById (emr (creating_client [1, 2, 3] 201)) 2) \<and>
   emr_poll_pending [''InternalError.ClusterNotFound'', ''UnauthorizedOperation''] 201
     (rsp_DescribeInstancesById (emr (creating_client [1, 2, 3] 201)) 3) \<and>
   EmrClusterDelete_wait (creating_client [1, 2, 3] 201) ''emr-1'' [] =
     (Some (StatusStill ''emr-1'' 1), (),
      [RetryEnter (Times 10 readRetryTimeout),
       Service (EmrDescribeInstancesById ''emr-1'' ''clusterList''),
       Service (EmrDescribeInstancesById ''emr-1'' ''clusterList''),
       Service (EmrDescribeInstancesById ''emr-1'' ''clusterList''),
       RetryLeave (Some (StatusStill ''emr-1'' 1))])"
proof -
  let ?T = "[RetryEnter (Times 10 readRetryTimeout),
             Service (EmrDescribeInstancesById ''emr-1'' ''clusterList''), RetryLeave None]"
  let ?CNF = "[''InternalError.ClusterNotFound'']"
  let ?DEL = "[''InternalError.ClusterNotFound'', ''UnauthorizedOperation'']"
  let ?E = "Service (EmrDescribeInstancesById ''emr-1'' ''clusterList'')"
  have c: "EmrClusterCreate_wait sample_client ''emr-1'' ''clusterList'' [] = (None, (), ?T)"
    by (simp add: EmrClusterCreate_wait_def Retry_def sample_client_def
          sample_ext_def EmrCluster_poll_def eval_nat_numeral)
  have u: "EmrClusterUpdate_wait sample_client ''emr-1'' [] = (None, (), ?T)"
    by (simp add: EmrClusterUpdate_wait_def Retry_def sample_client_def
          sample_ext_def EmrCluster_poll_def eval_nat_numeral)
  have d: "EmrClusterDelete_wait deleted_client ''emr-1'' [] = (None, (), ?T)"
    by (simp add: EmrClusterDelete_wait_def Retry_def deleted_client_def sample_client_def
          sample_ext_def EmrCluster_poll_def eval_nat_numeral)
  have k: "\<And>P. (\<exists>k. 0 < k \<and> Suc (Suc k) = length ?T \<and> P k) \<Longrightarrow> P 1"
    by auto
  have e: "ext sample_client = sample_ext" "ext deleted_client = sample_ext"
    "EmrInternetStatusCreated sample_ext = 2" "EmrInternetStatusDeleted sample_ext = 201"
    by (simp_all add: sample_client_def deleted_client_def sample_ext_def)
  have ec: "ext (creating_client ts final) = sample_ext"
    "DisplayStrategyIsclusterList sample_ext = ''clusterList''"
    "retries sample_ext (Times 10 readRetryTimeout) = 2" for ts final
    by (simp_all add: creating_client_def sample_client_def sample_ext_def)
  have r: "rsp_DescribeInstancesById (emr sample_client) (length ([] :: log)) =
     (\<lparr>Status = Some 2, MetaDb = None\<rparr> # [], None)"
    by (simp add: sample_client_def)
  have old: "emr_poll_done ?CNF 2 (rsp_DescribeInstancesById (emr sample_client) 1) \<and>
      emr_poll_done ?DEL 201 (rsp_DescribeInstancesById (emr deleted_client) 1) \<and>
      Status \<lparr>Status = Some 2, MetaDb = None\<rparr> = Some 2 \<and> (2 :: int) \<noteq> 201 \<and>
      \<not> (\<exists>code \<in> set ?DEL. (None :: error option) = Some (TencentCloudSDKError code)) \<and>
      retry_loop 0 (EmrCluster_poll sample_client ?DEL 201 ''emr-1'' ''clusterList'') () [] =
        (Some (StatusStill ''emr-1'' 2), (), [?E])"
    using c u d r
      emr_polling_loops[where m = sample_client and i = "''emr-1''" and ds = "''clusterList''"
        and tr = "[]" and u = "()" and tr' = ?T and c = "\<lparr>Status = Some 2, MetaDb = None\<rparr>"
        and cs = "[]" and err = None and s = 2 and expected = 201
        and codes = ?DEL and n = 0, THEN conjunct1]
      emr_polling_loops[where m = sample_client and i = "''emr-1''" and ds = "''clusterList''"
        and tr = "[]" and u = "()" and tr' = ?T and c = "\<lparr>Status = Some 2, MetaDb = None\<rparr>"
        and cs = "[]" and err = None and s = 2 and expected = 201
        and codes = ?DEL and n = 0, THEN conjunct2, THEN conjunct2, THEN conjunct2, THEN conjunct1]
      emr_polling_loops[where m = deleted_client and i = "''emr-1''"
        and tr = "[]" and u = "()" and tr' = ?T, THEN conjunct2, THEN conjunct2, THEN conjunct1]
    by (auto simp: e dest!: k)
  have pa: "\<forall>j < 1. emr_poll_pending ?CNF 2
      (rsp_DescribeInstancesById (emr (creating_client [1] 2)) (Suc (length ([] :: log)) + j))"
    and pc: "\<forall>j < 1. emr_poll_pending ?DEL 201
      (rsp_DescribeInstancesById (emr (creating_client [1] 201)) (Suc (length ([] :: log)) + j))"
    by (simp_all add: emr_poll_pending_def creating_client_def sample_client_def)
  have k1: "(1 :: nat) \<le> retries (ext (creating_client [1] final)) (Times 10 readRetryTimeout)" for final
    by (simp add: ec)
  have da: "emr_poll_done ?CNF 2
      (rsp_DescribeInstancesById (emr (creating_client [1] 2)) (Suc (length ([] :: log)) + 1))"
    and dc: "emr_poll_done ?DEL 201
      (rsp_DescribeInstancesById (emr (creating_client [1] 201)) (Suc (length ([] :: log)) + 1))"
    by (simp_all add: emr_poll_done_def creating_client_def sample_client_def)
  have ca: "emr_poll_pending ?CNF 2 (rsp_DescribeInstancesById (emr (creating_client [1] 2)) 1)"
    "emr_poll_pending ?DEL 201 (rsp_DescribeInstancesById (emr (creating_client [1] 201)) 1)"
    "emr_poll_pending ?CNF 2 (rsp_DescribeInstancesById (emr (creating_client [1, 2, 3] 2)) 1)"
    "emr_poll_pending ?CNF 2 (rsp_DescribeInstancesById (emr (creating_client [1, 2, 3] 2)) 2)"
    "emr_poll_pending ?CNF 2 (rsp_DescribeInstancesById (emr (creating_client [1, 2, 3] 2)) 3)"
    "emr_poll_pending ?DEL 201 (rsp_DescribeInstancesById (emr (creating_client [1, 2, 3] 201)) 1)"
    "emr_poll_pending ?DEL 201 (rsp_DescribeInstancesById (emr (creating_client [1, 2, 3] 201)) 2)"
    "emr_poll_pending ?DEL 201 (rsp_DescribeInstancesById (emr (creating_client [1, 2, 3] 201)) 3)"
    by (simp_all add: emr_poll_pending_def creating_client_def sample_client_def)
  have three: "j = 0 \<or> j = 1 \<or> j = 2" if "j \<le> 2" for j :: nat
    using that by arith
  have qa: "\<forall>j \<le> retries (ext (creating_client [1, 2, 3] 2)) (Times 10 readRetryTimeout).
      emr_poll_pending ?CNF 2
        (rsp_DescribeInstancesById (emr (creating_client [1, 2, 3] 2)) (Suc (length ([] :: log)) + j))"
    and qc: "\<forall>j \<le> retries (ext (creating_client [1, 2, 3] 201)) (Times 10 readRetryTimeout).
      emr_poll_pending ?DEL 201
        (rsp_DescribeInstancesById (emr (creating_client [1, 2, 3] 201)) (Suc (length ([] :: log)) + j))"
    unfolding ec
    by (auto dest!: three simp: emr_poll_pending_def creating_client_def sample_client_def)
  note RA = emr_polling_loops[where m = "creating_client [1] 2" and i = "''emr-1''" and ds = "''clusterList''"
      and tr = "[]" and p = 1,
      THEN conjunct2, THEN conjunct2, THEN conjunct2, THEN conjunct2, THEN conjunct1, rule_format]
  note TA = emr_polling_loops[where m = "creating_client [1, 2, 3] 2" and i = "''emr-1''" and ds = "''clusterList''"
      and tr = "[]",
      THEN conjunct2, THEN conjunct2, THEN conjunct2, THEN conjunct2, THEN conjunct2, THEN conjunct1]
  note RB = emr_polling_loops[where m = "creating_client [1] 2" and i = "''emr-1''"
      and tr = "[]" and p = 1,
      THEN conjunct2, THEN conjunct2, THEN conjunct2, THEN conjunct2, THEN conjunct2, THEN conjunct2, THEN conjunct1, rule_format]
  note TB = emr_polling_loops[where m = "creating_client [1, 2, 3] 2" and i = "''emr-1''"
      and tr = "[]",
      THEN conjunct2, THEN conjunct2, THEN conjunct2, THEN conjunct2, THEN conjunct2, THEN conjunct2, THEN conjunct2, THEN conjunct1]
  note RC = emr_polling_loops[where m = "creating_client [1] 201" and i = "''emr-1''"
      and tr = "[]" and p = 1,
      THEN conjunct2, THEN conjunct2, THEN conjunct2, THEN conjunct2, THEN conjunct2, THEN conjunct2, THEN conjunct2, THEN conjunct2,
      THEN conjunct1, rule_format]
  note TC = emr_polling_loops[where m = "creating_client [1, 2, 3] 201" and i = "''emr-1''"
      and tr = "[]",
      THEN conjunct2, THEN conjunct2, THEN conjunct2, THEN conjunct2, THEN conjunct2, THEN conjunct2, THEN conjunct2, THEN conjunct2,
      THEN conjunct2]
  have ra: "EmrClusterCreate_wait (creating_client [1] 2) ''emr-1'' ''clusterList'' [] =
     (None, (), [RetryEnter (Times 10 readRetryTimeout), ?E, ?E, RetryLeave None])"
    using RA pa k1 da by (simp add: ec e)
  have rb: "EmrClusterUpdate_wait (creating_client [1] 2) ''emr-1'' [] =
     (None, (), [RetryEnter (Times 10 readRetryTimeout), ?E, ?E, RetryLeave None])"
    using RB pa k1 da by (simp add: ec e)
  have rc: "EmrClusterDelete_wait (creating_client [1] 201) ''emr-1'' [] =
     (None, (), [RetryEnter (Times 10 readRetryTimeout), ?E, ?E, RetryLeave None])"
    using RC pc k1 dc by (simp add: ec e)
  have ta: "EmrClusterCreate_wait (creating_client [1, 2, 3] 2) ''emr-1'' ''clusterList'' [] =
     (Some (StatusStill ''emr-1'' 1), (),
      [RetryEnter (Times 10 readRetryTimeout), ?E, ?E, ?E, RetryLeave (Some (StatusStill ''emr-1'' 1))])"
  proof -
    from TA[unfolded ec e] qa[unfolded ec] obtain cl rest st where
      o: "fst (rsp_DescribeInstancesById (emr (creating_client [1, 2, 3] 2))
                (Suc (length ([] :: log)) + 2)) = cl # rest"
         "Status cl = Some st"
         "EmrClusterCreate_wait (creating_client [1, 2, 3] 2) ''emr-1'' ''clusterList'' [] =
            (Some (StatusStill ''emr-1'' st), (),
             [] @ RetryEnter (Times 10 readRetryTimeout) # replicate (Suc 2) ?E @
             [RetryLeave (Some (StatusStill ''emr-1'' st))])"
      by blast
    from o(1,2) have "st = 1"
      by (auto simp: creating_client_def sample_client_def)
    with o(3) show ?thesis
      by (simp add: numeral_2_eq_2)
  qed
  have tb: "EmrClusterUpdate_wait (creating_client [1, 2, 3] 2) ''emr-1'' [] =
     (Some (StatusStill ''emr-1'' 1), (),
      [RetryEnter (Times 10 readRetryTimeout), ?E, ?E, ?E, RetryLeave (Some (StatusStill ''emr-1'' 1))])"
  proof -
    from TB[unfolded ec e] qa[unfolded ec] obtain cl rest st where
      o: "fst (rsp_DescribeInstancesById (emr (creating_client [1, 2, 3] 2))
                (Suc (length ([] :: log)) + 2)) = cl # rest"
         "Status cl = Some st"
         "EmrClusterUpdate_wait (creating_client [1, 2, 3] 2) ''emr-1'' [] =
            (Some (StatusStill ''emr-1'' st), (),
             [] @ RetryEnter (Times 10 readRetryTimeout) # replicate (Suc 2) ?E @
             [RetryLeave (Some (StatusStill ''emr-1'' st))])"
      by blast
    from o(1,2) have "st = 1"
      by (auto simp: creating_client_def sample_client_def)
    with o(3) show ?thesis
      by (simp add: numeral_2_eq_2)
  qed
  have tc: "EmrClusterDelete_wait (creating_client [1, 2, 3] 201) ''emr-1'' [] =
     (Some (StatusStill ''emr-1'' 1), (),
      [RetryEnter (Times 10 readRetryTimeout), ?E, ?E, ?E, RetryLeave (Some (StatusStill ''emr-1'' 1))])"
  proof -
    from TC[unfolded ec e] qc[unfolded ec] obtain cl rest st where
      o: "fst (rsp_DescribeInstancesById (emr (creating_client [1, 2, 3] 201))
                (Suc (length ([] :: log)) + 2)) = cl # rest"
         "Status cl = Some st"
         "EmrClusterDelete_wait (creating_client [1, 2, 3] 201) ''emr-1'' [] =
            (Some (StatusStill ''emr-1'' st), (),
             [] @ RetryEnter (Times 10 readRetryTimeout) # replicate (Suc 2) ?E @
             [RetryLeave (Some (StatusStill ''emr-1'' st))])"
      by blast
    from o(1,2) have "st = 1"
      by (auto simp: creating_client_def sample_client_def)
    with o(3) show ?thesis
      by (simp add: numeral_2_eq_2)
  qed
  show ?thesis
    using c u d r old ca k1 da ra rb dc rc ta tb tc by (simp add: ec)
qed

subsection \<open>Retried calls of the NAT gateway operations\<close>

lemma disciplined_append:
  "disciplined b evs1 r1 \<Longrightarrow> \<forall>e. RetryLeave (Some e) \<notin> set evs1 \<Longrightarrow>
   disciplined False evs2 r \<Longrightarrow> disciplined b (evs1 @ evs2) r"
  by (induction b evs1 r1 rule: disciplined.induct) auto

lemma disciplined_inner:
  "\<forall>x \<in> set evs. inner x \<Longrightarrow>
   disciplined True (evs @ RetryLeave r # rest) res =
     (case r of None \<Rightarrow> disciplined False rest res | Some e \<Rightarrow> rest = [] \<and> res = Some e)"
proof (induction evs)
  case Nil
  then show ?case by (cases r) auto
next
  case (Cons a evs)
  then show ?case by (cases a) auto
qed

lemma inner_no_leave: "\<forall>x \<in> set evs. inner x \<Longrightarrow> RetryLeave r \<notin> set evs"
  by auto

lemma wl_refl: "well_logged tr r tr"
  by (simp add: well_logged_def)

lemma wl_trans:
  assumes "well_logged tr None tr1" and "well_logged tr1 r tr2"
  shows "well_logged tr r tr2"
proof -
  from assms(1) obtain evs1 where 1: "tr1 = tr @ evs1" "disciplined False evs1 None"
    "\<forall>e. RetryLeave (Some e) \<notin> set evs1" by (auto simp: well_logged_def)
  from assms(2) obtain evs2 where 2: "tr2 = tr1 @ evs2" "disciplined False evs2 r"
    "r = None \<longrightarrow> (\<forall>e. RetryLeave (Some e) \<notin> set evs2)" by (auto simp: well_logged_def)
  have "disciplined False (evs1 @ evs2) r"
    using 1(2,3) 2(2) by (rule disciplined_append)
  with 1 2 show ?thesis
    unfolding well_logged_def by (intro exI[of _ "evs1 @ evs2"]) auto
qed

lemma wl_service: "well_logged tr r (tr @ [Service c])"
  by (simp add: well_logged_def)

lemma wl_sleep: "well_logged tr None (tr @ [Sleep n])"
  by (simp add: well_logged_def)

lemma wl_Retry:
  assumes "\<And>v tr. \<exists>r v' evs. f v tr = (r, v', tr @ evs) \<and> (\<forall>x \<in> set evs. inner x)"
    and "t = readRetryTimeout \<or> t = writeRetryTimeout"
    and "Retry m t f v tr = (r, v', tr')"
  shows "well_logged tr r tr'"
proof -
  have "\<exists>r v' evs. Retry m t f v tr = (r, v', tr @ RetryEnter t # evs @ [RetryLeave r]) \<and>
           (\<forall>x \<in> set evs. inner x)"
    by (rule Retry_events) (rule assms(1))
  with assms(3) obtain evs where
    tr': "tr' = tr @ RetryEnter t # evs @ [RetryLeave r]" and inn: "\<forall>x \<in> set evs. inner x"
    by auto
  have "disciplined False (RetryEnter t # evs @ [RetryLeave r]) r"
    using assms(2) disciplined_inner[OF inn, of r "[]" r] by (cases r) auto
  moreover have "r = None \<longrightarrow> (\<forall>e. RetryLeave (Some e) \<notin> set (RetryEnter t # evs @ [RetryLeave r]))"
    using inn by auto
  ultimately show ?thesis
    unfolding well_logged_def tr' by blast
qed

lemma closures_inner:
  "\<exists>r v' evs. CreateNatGateway_closure m req v tr = (r, v', tr @ evs) \<and> (\<forall>x \<in> set evs. inner x)"
  "\<exists>r v' evs. NatGatewayCreate_poll m ids u tr = (r, v', tr @ evs) \<and> (\<forall>x \<in> set evs. inner x)"
  "\<exists>r v' evs. DescribeNatGateways_closure m ids v tr = (r, v', tr @ evs) \<and> (\<forall>x \<in> set evs. inner x)"
  "\<exists>r v' evs. ModifyNatGatewayAttribute_closure m mreq u tr = (r, v', tr @ evs) \<and> (\<forall>x \<in> set evs. inner x)"
  "\<exists>r v' evs. ResetNatGatewayConnection_closure m i c u tr = (r, v', tr @ evs) \<and> (\<forall>x \<in> set evs. inner x)"
  "\<exists>r v' evs. DisassociateNatGatewayAddress_closure m i ips u tr = (r, v', tr @ evs) \<and> (\<forall>x \<in> set evs. inner x)"
  "\<exists>r v' evs. AssociateNatGatewayAddress_closure m i ips u tr = (r, v', tr @ evs) \<and> (\<forall>x \<in> set evs. inner x)"
  "\<exists>r v' evs. DeleteNatGateway_closure m i u tr = (r, v', tr @ evs) \<and> (\<forall>x \<in> set evs. inner x)"
  "\<exists>r v' evs. NatGatewayDelete_poll m ids u tr = (r, v', tr @ evs) \<and> (\<forall>x \<in> set evs. inner x)"
  by (auto simp: CreateNatGateway_closure_def NatGatewayCreate_poll_def DescribeNatGateways_closure_def
        ModifyNatGatewayAttribute_closure_def ResetNatGatewayConnection_closure_def
        DisassociateNatGatewayAddress_closure_def AssociateNatGatewayAddress_closure_def
        DeleteNatGateway_closure_def NatGatewayDelete_poll_def Let_def
        split: sum.splits option.splits)

lemma wl_Retry_when:
  assumes "\<And>v tr. \<exists>r v' evs. f v tr = (r, v', tr @ evs) \<and> (\<forall>x \<in> set evs. inner x)"
    and "t = readRetryTimeout \<or> t = writeRetryTimeout"
    and "Retry_when c m t f tr = (r, tr')"
  shows "well_logged tr r tr'"
proof (cases c)
  case True
  with assms(3) obtain u where "Retry m t f () tr = (r, u, tr')"
    by (auto simp: Retry_when_def split: prod.splits)
  with assms(1,2) show ?thesis by (rule wl_Retry)
next
  case False
  with assms(3) show ?thesis by (auto simp: Retry_when_def wl_refl)
qed

lemma wl_read:
  assumes "resourceTencentCloudNatGatewayRead m d tr = (r, d', tr')"
  shows "well_logged tr r tr'"
proof -
  obtain r1 rsp tr1 where R: "Retry m readRetryTimeout (DescribeNatGateways_closure m [Id d]) None tr = (r1, rsp, tr1)"
    by (cases "Retry m readRetryTimeout (DescribeNatGateways_closure m [Id d]) None tr") auto
  have wl1: "well_logged tr r1 tr1"
    by (rule wl_Retry[OF closures_inner(3) _ R]) simp
  show ?thesis
  proof (cases r1)
    case (Some e)
    with assms R wl1 show ?thesis by (auto simp: resourceTencentCloudNatGatewayRead_def)
  next
    case None
    with wl1 have wl1': "well_logged tr None tr1" by simp
    have "well_logged tr1 r tr'"
      using assms R None
      by (auto simp: resourceTencentCloudNatGatewayRead_def Let_def wl_refl wl_service
            split: option.splits list.splits sum.splits)
    with wl1' show ?thesis by (rule wl_trans)
  qed
qed

lemma wl_submit:
  assumes "NatGatewayCreate_submit m d tr = (r, d', tr')"
  shows "well_logged tr r tr'"
proof -
  let ?f = "CreateNatGateway_closure m (nat_create_request (attrs d))"
  obtain r1 rsp tr1 where R: "Retry m readRetryTimeout ?f None tr = (r1, rsp, tr1)"
    by (cases "Retry m readRetryTimeout ?f None tr") auto
  have wl1: "well_logged tr r1 tr1"
    by (rule wl_Retry[OF closures_inner(1) _ R]) simp
  show ?thesis
  proof (cases r1)
    case (Some e)
    with assms R wl1 show ?thesis by (auto simp: NatGatewayCreate_submit_def)
  next
    case None
    with wl1 have wl1': "well_logged tr None tr1" by simp
    have "well_logged tr1 r tr'"
      using assms R None
      by (auto simp: NatGatewayCreate_submit_def Let_def wl_refl wl_service
            split: option.splits list.splits if_splits)
    with wl1' show ?thesis by (rule wl_trans)
  qed
qed

lemma wl_create:
  assumes "resourceTencentCloudNatGatewayCreate m d tr = (r, d', tr')"
  shows "well_logged tr r tr'"
proof -
  obtain r1 d1 tr1 where S: "NatGatewayCreate_submit m d tr = (r1, d1, tr1)"
    by (cases "NatGatewayCreate_submit m d tr") auto
  note wl1 = wl_submit[OF S]
  show ?thesis
  proof (cases r1)
    case (Some e)
    with assms S wl1 show ?thesis by (auto simp: resourceTencentCloudNatGatewayCreate_def)
  next
    case None
    obtain r2 u tr2 where W: "Retry m readRetryTimeout (NatGatewayCreate_poll m [Id d1]) () tr1 = (r2, u, tr2)"
      by (cases "Retry m readRetryTimeout (NatGatewayCreate_poll m [Id d1]) () tr1") auto
    have wl2: "well_logged tr1 r2 tr2"
      by (rule wl_Retry[OF closures_inner(2) _ W]) simp
    show ?thesis
    proof (cases r2)
      case (Some e)
      with assms S W None have "r = r2" "tr' = tr2"
        by (auto simp: resourceTencentCloudNatGatewayCreate_def)
      with wl1 wl2 None show ?thesis by (auto intro: wl_trans)
    next
      case n2: None
      with assms S W None have "resourceTencentCloudNatGatewayRead m d1 tr2 = (r, d', tr')"
        by (auto simp: resourceTencentCloudNatGatewayCreate_def)
      from wl_read[OF this] wl1 wl2 None n2 show ?thesis by (auto intro: wl_trans)
    qed
  qed
qed

lemma wl_attribute:
  "NatGatewayUpdate_attribute m d tr = (r, tr') \<Longrightarrow> well_logged tr r tr'"
  by (auto simp: NatGatewayUpdate_attribute_def Let_def wl_refl split: if_splits prod.splits
        intro: wl_Retry[OF closures_inner(4)])

lemma wl_concurrent:
  "NatGatewayUpdate_concurrent m d tr = (r, tr') \<Longrightarrow> well_logged tr r tr'"
  by (auto simp: NatGatewayUpdate_concurrent_def wl_refl split: if_splits prod.splits
        intro: wl_Retry[OF closures_inner(5)])

lemma wl_tags:
  "NatGatewayUpdate_tags m d tr = (r, tr') \<Longrightarrow> well_logged tr r tr'"
  by (auto simp: NatGatewayUpdate_tags_def Let_def wl_refl wl_service split: if_splits prod.splits)

lemma wl_eip_requests:
  assumes "NatGatewayUpdate_eip_requests m i ub ab tr = (r, tr')"
  shows "well_logged tr r tr'"
proof -
  obtain unassigned backUpOldIp where ub: "ub = (unassigned, backUpOldIp)" by (cases ub) auto
  obtain assigned backUpNewIp where ab: "ab = (assigned, backUpNewIp)" by (cases ab) auto
  obtain r1 tr1 where R1: "Retry_when (length unassigned > 0) m readRetryTimeout
      (DisassociateNatGatewayAddress_closure m i unassigned) tr = (r1, tr1)"
    by (cases "Retry_when (length unassigned > 0) m readRetryTimeout
      (DisassociateNatGatewayAddress_closure m i unassigned) tr") auto
  have wl1: "well_logged tr r1 tr1"
    by (rule wl_Retry_when[OF closures_inner(6) _ R1]) simp
  obtain r2 tr3 where R2: "Retry_when (length assigned > 0) m readRetryTimeout
      (AssociateNatGatewayAddress_closure m i assigned) (tr1 @ [Sleep 180]) = (r2, tr3)"
    by (cases "Retry_when (length assigned > 0) m readRetryTimeout
      (AssociateNatGatewayAddress_closure m i assigned) (tr1 @ [Sleep 180])") auto
  have wl2: "well_logged (tr1 @ [Sleep 180]) r2 tr3"
    by (rule wl_Retry_when[OF closures_inner(7) _ R2]) simp
  obtain r3 tr5 where R3: "Retry_when (backUpOldIp \<noteq> []) m readRetryTimeout
      (DisassociateNatGatewayAddress_closure m i [backUpOldIp]) (tr3 @ [Sleep 180]) = (r3, tr5)"
    by (cases "Retry_when (backUpOldIp \<noteq> []) m readRetryTimeout
      (DisassociateNatGatewayAddress_closure m i [backUpOldIp]) (tr3 @ [Sleep 180])") auto
  have wl3: "well_logged (tr3 @ [Sleep 180]) r3 tr5"
    by (rule wl_Retry_when[OF closures_inner(6) _ R3]) simp
  obtain r4 tr6 where R4: "Retry_when (backUpNewIp \<noteq> []) m readRetryTimeout
      (AssociateNatGatewayAddress_closure m i [backUpNewIp]) tr5 = (r4, tr6)"
    by (cases "Retry_when (backUpNewIp \<noteq> []) m readRetryTimeout
      (AssociateNatGatewayAddress_closure m i [backUpNewIp]) tr5") auto
  have wl4: "well_logged tr5 r4 tr6"
    by (rule wl_Retry_when[OF closures_inner(7) _ R4]) simp
  have eq: "NatGatewayUpdate_eip_requests m i ub ab tr =
      (case r1 of Some err \<Rightarrow> (Some err, tr1)
       | None \<Rightarrow> (case r2 of Some err \<Rightarrow> (Some err, tr3)
          | None \<Rightarrow> (case r3 of Some err \<Rightarrow> (Some err, tr5) | None \<Rightarrow> (r4, tr6))))"
    using R1 R2 R3 R4 unfolding ub ab
    by (simp split: option.splits)
  show ?thesis
  proof (cases r1)
    case (Some e)
    with eq assms wl1 show ?thesis by auto
  next
    case n1: None
    have a: "well_logged tr None (tr1 @ [Sleep 180])"
      using wl1 n1 wl_sleep by (auto intro: wl_trans)
    show ?thesis
    proof (cases r2)
      case (Some e)
      with eq assms n1 have "r = r2" "tr' = tr3" by auto
      with a wl2 show ?thesis by (auto intro: wl_trans)
    next
      case n2: None
      have b: "well_logged tr None (tr3 @ [Sleep 180])"
        using a wl2 n2 wl_sleep by (auto intro: wl_trans)
      show ?thesis
      proof (cases r3)
        case (Some e)
        with eq assms n1 n2 have "r = r3" "tr' = tr5" by auto
        with b wl3 show ?thesis by (auto intro: wl_trans)
      next
        case n3: None
        with eq assms n1 n2 have "r = r4" "tr' = tr6" by auto
        moreover have "well_logged tr None tr5" using b wl3 n3 by (auto intro: wl_trans)
        ultimately show ?thesis using wl4 by (auto intro: wl_trans)
      qed
    qed
  qed
qed

lemma wl_eip:
  "NatGatewayUpdate_eip m d tr = (r, tr') \<Longrightarrow> well_logged tr r tr'"
  by (auto simp: NatGatewayUpdate_eip_def wl_refl split: if_splits intro: wl_eip_requests)

lemma wl_update:
  assumes "resourceTencentCloudNatGatewayUpdate m d tr = (r, d', tr')"
  shows "well_logged tr r tr'"
proof (cases "na_zone (prior d) \<noteq> na_zone (attrs d)")
  case True
  with assms show ?thesis by (auto simp: resourceTencentCloudNatGatewayUpdate_def wl_refl)
next
  case False
  obtain r1 tr1 where B1: "NatGatewayUpdate_attribute m d tr = (r1, tr1)"
    by (cases "NatGatewayUpdate_attribute m d tr") auto
  obtain r2 tr2 where B2: "NatGatewayUpdate_concurrent m d tr1 = (r2, tr2)"
    by (cases "NatGatewayUpdate_concurrent m d tr1") auto
  obtain r3 tr3 where B3: "NatGatewayUpdate_eip m d tr2 = (r3, tr3)"
    by (cases "NatGatewayUpdate_eip m d tr2") auto
  obtain r4 tr4 where B4: "NatGatewayUpdate_tags m d tr3 = (r4, tr4)"
    by (cases "NatGatewayUpdate_tags m d tr3") auto
  note w1 = wl_attribute[OF B1] and w2 = wl_concurrent[OF B2] and w3 = wl_eip[OF B3]
    and w4 = wl_tags[OF B4]
  have eq: "resourceTencentCloudNatGatewayUpdate m d tr =
      (case r1 of Some err \<Rightarrow> (Some err, d, tr1)
       | None \<Rightarrow> (case r2 of Some err \<Rightarrow> (Some err, d, tr2)
          | None \<Rightarrow> (case r3 of Some err \<Rightarrow> (Some err, d, tr3) | None \<Rightarrow> (r4, d, tr4))))"
    using False B1 B2 B3 B4
    by (simp add: resourceTencentCloudNatGatewayUpdate_def split: option.splits)
  show ?thesis
  proof (cases r1)
    case (Some e)
    with eq assms w1 show ?thesis by auto
  next
    case n1: None
    show ?thesis
    proof (cases r2)
      case (Some e)
      with eq assms n1 have "r = r2" "tr' = tr2" by auto
      with w1 w2 n1 show ?thesis by (auto intro: wl_trans)
    next
      case n2: None
      have a: "well_logged tr None tr2" using w1 w2 n1 n2 by (auto intro: wl_trans)
      show ?thesis
      proof (cases r3)
        case (Some e)
        with eq assms n1 n2 have "r = r3" "tr' = tr3" by auto
        with a w3 show ?thesis by (auto intro: wl_trans)
      next
        case n3: None
        with eq assms n1 n2 have "r = r4" "tr' = tr4" by auto
        moreover have "well_logged tr None tr3" using a w3 n3 by (auto intro: wl_trans)
        ultimately show ?thesis using w4 by (auto intro: wl_trans)
      qed
    qed
  qed
qed

lemma wl_delete:
  assumes "resourceTencentCloudNatGatewayDelete m d tr = (r, d', tr')"
  shows "well_logged tr r tr'"
proof -
  obtain r1 u tr1 where R: "Retry m writeRetryTimeout (DeleteNatGateway_closure m (Id d)) () tr = (r1, u, tr1)"
    by (cases "Retry m writeRetryTimeout (DeleteNatGateway_closure m (Id d)) () tr") auto
  have wl1: "well_logged tr r1 tr1"
    by (rule wl_Retry[OF closures_inner(8) _ R]) simp
  show ?thesis
  proof (cases r1)
    case (Some e)
    with assms R wl1 show ?thesis by (auto simp: resourceTencentCloudNatGatewayDelete_def)
  next
    case None
    obtain r2 u2 tr2 where W: "Retry m readRetryTimeout (NatGatewayDelete_poll m [Id d]) () (tr1 @ [Sleep 10]) = (r2, u2, tr2)"
      by (cases "Retry m readRetryTimeout (NatGatewayDelete_poll m [Id d]) () (tr1 @ [Sleep 10])") auto
    have wl2: "well_logged (tr1 @ [Sleep 10]) r2 tr2"
      by (rule wl_Retry[OF closures_inner(9) _ W]) simp
    from assms R W None have "r = r2" "tr' = tr2"
      by (auto simp: resourceTencentCloudNatGatewayDelete_def)
    moreover have "well_logged tr None (tr1 @ [Sleep 10])"
      using wl1 None wl_sleep by (auto intro: wl_trans)
    ultimately show ?thesis using wl2 by (auto intro: wl_trans)
  qed
qed

lemma disciplined_leave:
  "disciplined b evs res \<Longrightarrow> evs = pre @ RetryLeave (Some e) # post \<Longrightarrow> post = [] \<and> res = Some e"
proof (induction b evs res arbitrary: pre rule: disciplined.induct)
  case (1 ins res)
  then show ?case by simp
next
  case (4 ins e' es res)
  then show ?case by (cases pre) auto
qed (case_tac pre; auto)+

lemma enter_shift:
  "\<exists>p1 t p2. pre = p1 @ RetryEnter t # p2 \<and> Q t p2 \<Longrightarrow>
   \<exists>p1 t p2. a # pre = p1 @ RetryEnter t # p2 \<and> Q t p2"
  by (metis append_Cons)

lemma disciplined_sdk:
  "disciplined b (pre @ Sdk c # post) res \<Longrightarrow>
   (b \<and> (\<forall>x \<in> set pre. inner x)) \<or>
   (\<exists>p1 t p2. pre = p1 @ RetryEnter t # p2 \<and>
      ((t = readRetryTimeout \<or> t = writeRetryTimeout) \<and> (\<forall>x \<in> set p2. inner x)))"
proof (induction pre arbitrary: b)
  case Nil
  then show ?case by simp
next
  case (Cons a pre)
  let ?Q = "\<lambda>t p2. (t = readRetryTimeout \<or> t = writeRetryTimeout) \<and> (\<forall>x \<in> set p2. inner x)"
  show ?case
  proof (cases a)
    case (RetryEnter t)
    with Cons.prems have t: "t = readRetryTimeout \<or> t = writeRetryTimeout"
      and d: "disciplined True (pre @ Sdk c # post) res" by auto
    from Cons.IH[OF d] show ?thesis
    proof
      assume "True \<and> (\<forall>x \<in> set pre. inner x)"
      with t RetryEnter have "a # pre = [] @ RetryEnter t # pre \<and> ?Q t pre" by simp
      then show ?thesis by blast
    next
      assume "\<exists>p1 t p2. pre = p1 @ RetryEnter t # p2 \<and> ?Q t p2"
      then have "\<exists>p1 t p2. a # pre = p1 @ RetryEnter t # p2 \<and> ?Q t p2" by (rule enter_shift)
      then show ?thesis by blast
    qed
  next
    case (RetryLeave r)
    with Cons.prems have d: "disciplined False (pre @ Sdk c # post) res"
      by (cases r) auto
    from Cons.IH[OF d] have "\<exists>p1 t p2. pre = p1 @ RetryEnter t # p2 \<and> ?Q t p2" by simp
    then have "\<exists>p1 t p2. a # pre = p1 @ RetryEnter t # p2 \<and> ?Q t p2" by (rule enter_shift)
    then show ?thesis by blast
  next
    case (Sdk c')
    with Cons.prems have d: "disciplined b (pre @ Sdk c # post) res" by auto
    from Cons.IH[OF d] show ?thesis
    proof
      assume "b \<and> (\<forall>x \<in> set pre. inner x)"
      with Sdk show ?thesis by simp
    next
      assume "\<exists>p1 t p2. pre = p1 @ RetryEnter t # p2 \<and> ?Q t p2"
      then have "\<exists>p1 t p2. a # pre = p1 @ RetryEnter t # p2 \<and> ?Q t p2" by (rule enter_shift)
      then show ?thesis by blast
    qed
  next
    case (Service c')
    with Cons.prems have d: "disciplined b (pre @ Sdk c # post) res" by auto
    from Cons.IH[OF d] show ?thesis
    proof
      assume "b \<and> (\<forall>x \<in> set pre. inner x)"
      with Service show ?thesis by simp
    next
      assume "\<exists>p1 t p2. pre = p1 @ RetryEnter t # p2 \<and> ?Q t p2"
      then have "\<exists>p1 t p2. a # pre = p1 @ RetryEnter t # p2 \<and> ?Q t p2" by (rule enter_shift)
      then show ?thesis by blast
    qed
  next
    case (Sleep n)
    with Cons.prems have d: "disciplined b (pre @ Sdk c # post) res" by auto
    from Cons.IH[OF d] show ?thesis
    proof
      assume "b \<and> (\<forall>x \<in> set pre. inner x)"
      with Sleep show ?thesis by simp
    next
      assume "\<exists>p1 t p2. pre = p1 @ RetryEnter t # p2 \<and> ?Q t p2"
      then have "\<exists>p1 t p2. a # pre = p1 @ RetryEnter t # p2 \<and> ?Q t p2" by (rule enter_shift)
      then show ?thesis by blast
    qed
  qed
qed

text \<open>
  C6. In every lifecycle operation of the NAT gateway resource (create, read, update,
  delete), for every client and every starting log: each call of the SDK client that
  the operation logs is preceded by the start of a call of \<^verbatim>\<open>resource.Retry\<close> whose
  timeout is \<^verbatim>\<open>readRetryTimeout\<close> or \<^verbatim>\<open>writeRetryTimeout\<close>, with nothing but calls and
  sleeps of the closure in between; and wherever a call of \<^verbatim>\<open>resource.Retry\<close> returns an
  error, the log ends there (no further call is made) and the operation returns that
  error. Calls of the tag service are calls of the service layer, made outside
  \<^verbatim>\<open>resource.Retry\<close> in this file.
\<close>

theorem nat_gateway_retry_discipline:
  "resourceTencentCloudNatGatewayCreate m d tr = (res, d', tr') \<or>
   resourceTencentCloudNatGatewayRead m d tr = (res, d', tr') \<or>
   resourceTencentCloudNatGatewayUpdate m d tr = (res, d', tr') \<or>
   resourceTencentCloudNatGatewayDelete m d tr = (res, d', tr') \<longrightarrow>
   (\<exists>evs. tr' = tr @ evs \<and> disciplined False evs res \<and>
      (\<forall>pre c post. evs = pre @ Sdk c # post \<longrightarrow>
         (\<exists>p1 t p2. pre = p1 @ RetryEnter t # p2 \<and>
            (t = readRetryTimeout \<or> t = writeRetryTimeout) \<and> (\<forall>x \<in> set p2. inner x))) \<and>
      (\<forall>pre e post. evs = pre @ RetryLeave (Some e) # post \<longrightarrow> post = [] \<and> res = Some e))"
proof
  assume "resourceTencentCloudNatGatewayCreate m d tr = (res, d', tr') \<or>
   resourceTencentCloudNatGatewayRead m d tr = (res, d', tr') \<or>
   resourceTencentCloudNatGatewayUpdate m d tr = (res, d', tr') \<or>
   resourceTencentCloudNatGatewayDelete m d tr = (res, d', tr')"
  then have "well_logged tr res tr'"
    by (auto intro: wl_create wl_read wl_update wl_delete)
  then obtain evs where evs: "tr' = tr @ evs" "disciplined False evs res"
    by (auto simp: well_logged_def)
  have "\<exists>p1 t p2. pre = p1 @ RetryEnter t # p2 \<and>
            (t = readRetryTimeout \<or> t = writeRetryTimeout) \<and> (\<forall>x \<in> set p2. inner x)"
    if "evs = pre @ Sdk c # post" for pre c post
    using disciplined_sdk[of False pre c post res] evs(2) that by simp
  moreover have "post = [] \<and> res = Some e"
    if "evs = pre @ RetryLeave (Some e) # post" for pre e post
    using disciplined_leave[OF evs(2) that] .
  ultimately show "\<exists>evs. tr' = tr @ evs \<and> disciplined False evs res \<and>
      (\<forall>pre c post. evs = pre @ Sdk c # post \<longrightarrow>
         (\<exists>p1 t p2. pre = p1 @ RetryEnter t # p2 \<and>
            (t = readRetryTimeout \<or> t = writeRetryTimeout) \<and> (\<forall>x \<in> set p2. inner x))) \<and>
      (\<forall>pre e post. evs = pre @ RetryLeave (Some e) # post \<longrightarrow> post = [] \<and> res = Some e)"
    using evs by blast
qed

theorem nat_gateway_retry_discipline_witness:
  "resourceTencentCloudNatGatewayDelete sample_client sample_nat [] =
     (Some (Errorf ''deleting retry''), sample_nat,
      [RetryEnter writeRetryTimeout, Sdk (DeleteNatGateway ''nat-1''), RetryLeave None, Sleep 10,
       RetryEnter readRetryTimeout,
       Sdk (DescribeNatGateways [''nat-1'']), Sleep 3,
       Sdk (DescribeNatGateways [''nat-1'']), Sleep 3,
       Sdk (DescribeNatGateways [''nat-1'']), Sleep 3,
       RetryLeave (Some (Errorf ''deleting retry''))]) \<and>
   disciplined False
     [RetryEnter writeRetryTimeout, Sdk (DeleteNatGateway ''nat-1''), RetryLeave None, Sleep 10,
      RetryEnter readRetryTimeout,
      Sdk (DescribeNatGateways [''nat-1'']), Sleep 3,
      Sdk (DescribeNatGateways [''nat-1'']), Sleep 3,
      Sdk (DescribeNatGateways [''nat-1'']), Sleep 3,
      RetryLeave (Some (Errorf ''deleting retry''))]
     (Some (Errorf ''deleting retry''))"
proof -
  let ?T = "[RetryEnter writeRetryTimeout, Sdk (DeleteNatGateway ''nat-1''), RetryLeave None, Sleep 10,
      RetryEnter readRetryTimeout,
      Sdk (DescribeNatGateways [''nat-1'']), Sleep 3,
      Sdk (DescribeNatGateways [''nat-1'']), Sleep 3,
      Sdk (DescribeNatGateways [''nat-1'']), Sleep 3,
      RetryLeave (Some (Errorf ''deleting retry''))]"
  have run: "resourceTencentCloudNatGatewayDelete sample_client sample_nat [] =
     (Some (Errorf ''deleting retry''), sample_nat, ?T)"
    by (simp add: resourceTencentCloudNatGatewayDelete_def Retry_def DeleteNatGateway_closure_def
          NatGatewayDelete_poll_def sample_client_def sample_ext_def sample_gateway_def
          sample_nat_def eval_nat_numeral)
  from nat_gateway_retry_discipline[of sample_client sample_nat "[]"
      "Some (Errorf ''deleting retry'')" sample_nat ?T] run
  have "disciplined False ?T (Some (Errorf ''deleting retry''))"
    by auto
  with run show ?thesis by blast
qed

subsection \<open>Waiting for the NAT gateway after create\<close>

lemma wl_extends: "well_logged tr r tr' \<Longrightarrow> \<exists>evs. tr' = tr @ evs"
  by (auto simp: well_logged_def)

lemma NatGatewayCreate_poll_extends:
  "\<exists>evs. snd (snd (NatGatewayCreate_poll m ids v tr)) = tr @ evs"
  by (auto simp: NatGatewayCreate_poll_def Let_def split: sum.splits option.splits)

lemma NatGatewayCreate_poll_nil:
  assumes "NatGatewayCreate_poll m ids u tr = (None, u', tr')"
  shows "tr' = tr @ [Sdk (DescribeNatGateways ids)] \<and>
         (\<exists>g. rsp_DescribeNatGateways (vpc m) (length tr) = Inr [g] \<and> State g = Some ''AVAILABLE'')"
proof (cases "rsp_DescribeNatGateways (vpc m) (length tr)")
  case (Inl e)
  with assms show ?thesis
    by (auto simp: NatGatewayCreate_poll_def Let_def retryError_def split: if_splits)
next
  case (Inr result)
  with assms have l: "length result = 1" and s: "State (result ! 0) = Some ''AVAILABLE''"
    and t: "tr' = tr @ [Sdk (DescribeNatGateways ids)]"
    by (auto simp: NatGatewayCreate_poll_def Let_def split: if_splits option.splits)
  from l obtain g where "result = [g]" by (cases result) auto
  with s t Inr show ?thesis by auto
qed

lemma NatGatewayCreate_poll_outcomes:
  assumes "rsp_DescribeNatGateways (vpc m) (length tr) = Inr result"
  shows "(length result \<noteq> 1 \<longrightarrow>
            NatGatewayCreate_poll m ids u tr =
              (Some (NonRetryableError (Errorf ''creating error'')), u,
               tr @ [Sdk (DescribeNatGateways ids)])) \<and>
         (\<forall>g s. result = [g] \<and> State g = Some s \<and> s \<noteq> ''AVAILABLE'' \<longrightarrow>
            NatGatewayCreate_poll m ids u tr =
              (Some (RetryableError (Errorf ''creating not ready retry'')), u,
               tr @ [Sdk (DescribeNatGateways ids)])) \<and>
         (\<forall>g. result = [g] \<and> State g = Some ''AVAILABLE'' \<longrightarrow>
            NatGatewayCreate_poll m ids u tr = (None, u, tr @ [Sdk (DescribeNatGateways ids)]))"
  using assms by (auto simp: NatGatewayCreate_poll_def Let_def)

lemma create_success_poll:
  assumes "resourceTencentCloudNatGatewayCreate m d tr = (None, d', tr')"
  shows "\<exists>d1 tr1 k g. NatGatewayCreate_submit m d tr = (None, d1, tr1) \<and>
           length tr \<le> length tr1 \<and> length tr1 < k \<and> Suc k < length tr' \<and>
           tr' ! k = Sdk (DescribeNatGateways [Id d1]) \<and> tr' ! Suc k = RetryLeave None \<and>
           rsp_DescribeNatGateways (vpc m) k = Inr [g] \<and> State g = Some ''AVAILABLE''"
proof -
  obtain r1 d1 tr1 where S: "NatGatewayCreate_submit m d tr = (r1, d1, tr1)"
    by (cases "NatGatewayCreate_submit m d tr") auto
  with assms have r1: "r1 = None"
    by (cases r1) (auto simp: resourceTencentCloudNatGatewayCreate_def)
  let ?f = "NatGatewayCreate_poll m [Id d1]"
  obtain r2 u tr2 where W: "Retry m readRetryTimeout ?f () tr1 = (r2, u, tr2)"
    by (cases "Retry m readRetryTimeout ?f () tr1") auto
  with assms S r1 have r2: "r2 = None"
    by (cases r2) (auto simp: resourceTencentCloudNatGatewayCreate_def)
  from assms S W r1 r2 have R: "resourceTencentCloudNatGatewayRead m d1 tr2 = (None, d', tr')"
    by (auto simp: resourceTencentCloudNatGatewayCreate_def)
  from wl_extends[OF wl_submit[OF S]] obtain evs1 where tr1: "tr1 = tr @ evs1" by blast
  from wl_extends[OF wl_read[OF R]] obtain evs3 where tr': "tr' = tr2 @ evs3" by blast
  from W r2 have W': "Retry m readRetryTimeout ?f () tr1 = (None, u, tr2)" by simp
  from Retry_success[where f = ?f, OF NatGatewayCreate_poll_extends W']
  obtain v0 evs0 tr0 where
    f: "?f v0 (tr1 @ RetryEnter readRetryTimeout # evs0) = (None, u, tr0)"
    and tr2: "tr2 = tr0 @ [RetryLeave None]" by blast
  let ?p = "tr1 @ RetryEnter readRetryTimeout # evs0"
  from NatGatewayCreate_poll_nil[OF f] obtain g where
    tr0: "tr0 = ?p @ [Sdk (DescribeNatGateways [Id d1])]"
    and g: "rsp_DescribeNatGateways (vpc m) (length ?p) = Inr [g]" "State g = Some ''AVAILABLE''"
    by blast
  have full: "tr' = ?p @ Sdk (DescribeNatGateways [Id d1]) # RetryLeave None # evs3"
    unfolding tr' tr2 tr0 by simp
  have n1: "tr' ! length ?p = Sdk (DescribeNatGateways [Id d1])"
    unfolding full by (simp only: nth_append_length)
  have "tr' = (?p @ [Sdk (DescribeNatGateways [Id d1])]) @ RetryLeave None # evs3"
    unfolding full by simp
  then have "tr' ! length (?p @ [Sdk (DescribeNatGateways [Id d1])]) = RetryLeave None"
    by (simp only: nth_append_length)
  then have n2: "tr' ! Suc (length ?p) = RetryLeave None" by simp
  have len: "length tr \<le> length tr1" "length tr1 < length ?p" "Suc (length ?p) < length tr'"
    unfolding full using tr1 by auto
  show ?thesis
    using S r1 len n1 n2 g by blast
qed

lemma create_returns_wait_error:
  assumes "NatGatewayCreate_submit m d tr = (None, d1, tr1)"
    and "Retry m readRetryTimeout (NatGatewayCreate_poll m [Id d1]) () tr1 = (Some e, u, tr2)"
  shows "resourceTencentCloudNatGatewayCreate m d tr = (Some e, d1, tr2)"
  using assms by (simp add: resourceTencentCloudNatGatewayCreate_def)

lemma create_poll_pending:
  "NatGateway_pending m (length tr) \<Longrightarrow>
   NatGatewayCreate_poll m ids u tr =
     (Some (RetryableError (Errorf ''creating not ready retry'')), u,
      tr @ [Sdk (DescribeNatGateways ids)])"
  by (auto simp: NatGateway_pending_def NatGatewayCreate_poll_def Let_def
        split: sum.splits list.splits option.splits)

lemma create_wait_pending:
  assumes "\<forall>j < k. NatGateway_pending m (Suc (length tr) + j)" and "j < k"
  shows "\<exists>x. NatGatewayCreate_poll m ids ()
               ((tr @ [RetryEnter t]) @ concat (replicate j [Sdk (DescribeNatGateways ids)])) =
             (Some (RetryableError x), (),
              (tr @ [RetryEnter t]) @ concat (replicate j [Sdk (DescribeNatGateways ids)]) @
              [Sdk (DescribeNatGateways ids)])"
proof -
  let ?p = "(tr @ [RetryEnter t]) @ concat (replicate j [Sdk (DescribeNatGateways ids)])"
  have "length ?p = Suc (length tr) + j" by (simp add: concat_replicate_single)
  with assms have "NatGateway_pending m (length ?p)" by simp
  from create_poll_pending[OF this, of ids "()"] show ?thesis by simp
qed

lemma create_wait_run:
  assumes p: "\<forall>j < k. NatGateway_pending m (Suc (length tr) + j)"
    and k: "k \<le> retries (ext m) readRetryTimeout"
    and r: "rsp_DescribeNatGateways (vpc m) (Suc (length tr) + k) = Inr result"
  shows "(\<forall>g. result = [g] \<and> State g = Some ''AVAILABLE'' \<longrightarrow>
            Retry m readRetryTimeout (NatGatewayCreate_poll m ids) () tr =
              (None, (),
               tr @ RetryEnter readRetryTimeout # replicate (Suc k) (Sdk (DescribeNatGateways ids)) @
               [RetryLeave None])) \<and>
         (length result \<noteq> 1 \<longrightarrow>
            Retry m readRetryTimeout (NatGatewayCreate_poll m ids) () tr =
              (Some (Errorf ''creating error''), (),
               tr @ RetryEnter readRetryTimeout # replicate (Suc k) (Sdk (DescribeNatGateways ids)) @
               [RetryLeave (Some (Errorf ''creating error''))]))"
proof -
  let ?E = "Sdk (DescribeNatGateways ids)"
  let ?f = "NatGatewayCreate_poll m ids"
  let ?t0 = "tr @ [RetryEnter readRetryTimeout]"
  let ?p = "?t0 @ concat (replicate k [?E])"
  have len: "length ?p = Suc (length tr) + k" by (simp add: concat_replicate_single)
  have skip: "\<And>j. j < k \<Longrightarrow> \<exists>x. ?f () (?t0 @ concat (replicate j [?E])) =
      (Some (RetryableError x), (), ?t0 @ concat (replicate j [?E]) @ [?E])"
    using create_wait_pending[OF p] by blast
  from r len have r': "rsp_DescribeNatGateways (vpc m) (length ?p) = Inr result" by simp
  note out = NatGatewayCreate_poll_outcomes[OF r', of ids "()"]
  have tail: "?p @ [?E] = tr @ RetryEnter readRetryTimeout # replicate (Suc k) ?E"
    by (simp add: concat_replicate_single replicate_append_same)
  show ?thesis
  proof (intro conjI allI impI)
    fix g assume "result = [g] \<and> State g = Some ''AVAILABLE''"
    with out have "?f () ?p = (None, (), ?p @ [?E])" by simp
    from retry_loop_run_nil[where f = ?f, OF skip k this]
    show "Retry m readRetryTimeout ?f () tr =
              (None, (), tr @ RetryEnter readRetryTimeout # replicate (Suc k) ?E @ [RetryLeave None])"
      unfolding Retry_def tail by simp
  next
    assume "length result \<noteq> 1"
    with out have "?f () ?p = (Some (NonRetryableError (Errorf ''creating error'')), (), ?p @ [?E])"
      by simp
    from retry_loop_run_quit[where f = ?f, OF skip k this]
    show "Retry m readRetryTimeout ?f () tr =
              (Some (Errorf ''creating error''), (),
               tr @ RetryEnter readRetryTimeout # replicate (Suc k) ?E @
               [RetryLeave (Some (Errorf ''creating error''))])"
      unfolding Retry_def tail by simp
  qed
qed

lemma create_wait_timeout:
  assumes p: "\<forall>j \<le> retries (ext m) readRetryTimeout. NatGateway_pending m (Suc (length tr) + j)"
  shows "Retry m readRetryTimeout (NatGatewayCreate_poll m ids) () tr =
           (Some (Errorf ''creating not ready retry''), (),
            tr @ RetryEnter readRetryTimeout #
              replicate (Suc (retries (ext m) readRetryTimeout)) (Sdk (DescribeNatGateways ids)) @
              [RetryLeave (Some (Errorf ''creating not ready retry''))])"
proof -
  let ?n = "retries (ext m) readRetryTimeout"
  let ?E = "Sdk (DescribeNatGateways ids)"
  let ?f = "NatGatewayCreate_poll m ids"
  let ?t0 = "tr @ [RetryEnter readRetryTimeout]"
  let ?p = "?t0 @ concat (replicate ?n [?E])"
  from p have p': "\<forall>j < ?n. NatGateway_pending m (Suc (length tr) + j)" by auto
  have skip: "\<And>j. j < ?n \<Longrightarrow> \<exists>x. ?f () (?t0 @ concat (replicate j [?E])) =
      (Some (RetryableError x), (), ?t0 @ concat (replicate j [?E]) @ [?E])"
    using create_wait_pending[OF p'] by blast
  have "length ?p = Suc (length tr) + ?n" by (simp add: concat_replicate_single)
  with p have "NatGateway_pending m (length ?p)" by simp
  from create_poll_pending[OF this, of ids "()"]
  have last: "?f () ?p = (Some (RetryableError (Errorf ''creating not ready retry'')), (), ?p @ [?E])"
    by simp
  from retry_loop_run_timeout[where f = ?f and er = "[?E]", OF skip] last
  have "retry_loop ?n ?f () ?t0 =
          (Some (Errorf ''creating not ready retry''), (), ?t0 @ concat (replicate (Suc ?n) [?E]))"
    by simp
  then show ?thesis
    unfolding Retry_def by (simp add: concat_replicate_single)
qed

lemma submit_success:
  assumes "NatGatewayCreate_submit m d tr = (None, d1, tr1)"
  shows "\<exists>j gw rest natId. length tr < j \<and> j < length tr1 \<and>
           tr1 ! j = Sdk (CreateNatGateway (nat_create_request (attrs d))) \<and>
           rsp_CreateNatGateway (vpc m) j = Inr (gw # rest) \<and>
           NatGatewayId gw = Some natId \<and> d1 = d\<lparr>Id := natId\<rparr>"
proof -
  let ?f = "CreateNatGateway_closure m (nat_create_request (attrs d))"
  let ?E = "Sdk (CreateNatGateway (nat_create_request (attrs d)))"
  have ext: "\<And>v tr. \<exists>evs. snd (snd (?f v tr)) = tr @ evs"
    by (auto simp: CreateNatGateway_closure_def Let_def split: sum.splits)
  obtain r1 rsp tr2 where R: "Retry m readRetryTimeout ?f None tr = (r1, rsp, tr2)"
    by (cases "Retry m readRetryTimeout ?f None tr") auto
  with assms have r1: "r1 = None"
    by (cases r1) (auto simp: NatGatewayCreate_submit_def)
  from R r1 have R': "Retry m readRetryTimeout ?f None tr = (None, rsp, tr2)" by simp
  from Retry_success[where f = ?f, OF ext R']
  obtain v0 evs0 tr0 where
    f: "?f v0 (tr @ RetryEnter readRetryTimeout # evs0) = (None, rsp, tr0)"
    and tr2: "tr2 = tr0 @ [RetryLeave None]" by blast
  let ?p = "tr @ RetryEnter readRetryTimeout # evs0"
  from f obtain result where
    res: "rsp_CreateNatGateway (vpc m) (length ?p) = Inr result" "rsp = Some result"
    and tr0: "tr0 = ?p @ [?E]"
    by (cases "rsp_CreateNatGateway (vpc m) (length ?p)")
       (auto simp: CreateNatGateway_closure_def Let_def)
  from assms R' res(2) obtain gw rest natId evs3 where
    g: "result = gw # rest" "NatGatewayId gw = Some natId" "d1 = d\<lparr>Id := natId\<rparr>"
    and tr1: "tr1 = tr2 @ evs3"
    by (auto simp: NatGatewayCreate_submit_def Let_def
          split: list.splits option.splits if_splits)
  have full: "tr1 = ?p @ ?E # RetryLeave None # evs3"
    unfolding tr1 tr2 tr0 by simp
  have n: "tr1 ! length ?p = ?E"
    unfolding full by (simp only: nth_append_length)
  have len: "length tr < length ?p" "length ?p < length tr1"
    unfolding full by auto
  show ?thesis
    using len n res(1) g by blast
qed

lemma create_success_tied:
  assumes "resourceTencentCloudNatGatewayCreate m d tr = (None, d', tr')"
  shows "\<exists>d1 tr1 i g j gw rest natId. NatGatewayCreate_submit m d tr = (None, d1, tr1) \<and>
           length tr \<le> length tr1 \<and> length tr1 < i \<and> Suc i < length tr' \<and>
           tr' ! i = Sdk (DescribeNatGateways [Id d1]) \<and> tr' ! Suc i = RetryLeave None \<and>
           rsp_DescribeNatGateways (vpc m) i = Inr [g] \<and> State g = Some ''AVAILABLE'' \<and>
           length tr < j \<and> j < length tr1 \<and>
           tr1 ! j = Sdk (CreateNatGateway (nat_create_request (attrs d))) \<and>
           rsp_CreateNatGateway (vpc m) j = Inr (gw # rest) \<and>
           NatGatewayId gw = Some natId \<and> d1 = d\<lparr>Id := natId\<rparr> \<and> Id d1 = natId"
proof -
  from create_success_poll[OF assms] obtain d1 tr1 i g where
    a: "NatGatewayCreate_submit m d tr = (None, d1, tr1)"
       "length tr \<le> length tr1" "length tr1 < i" "Suc i < length tr'"
       "tr' ! i = Sdk (DescribeNatGateways [Id d1])" "tr' ! Suc i = RetryLeave None"
       "rsp_DescribeNatGateways (vpc m) i = Inr [g]" "State g = Some ''AVAILABLE''"
    by blast
  from submit_success[OF a(1)] obtain j gw rest natId where
    b: "length tr < j" "j < length tr1"
       "tr1 ! j = Sdk (CreateNatGateway (nat_create_request (attrs d)))"
       "rsp_CreateNatGateway (vpc m) j = Inr (gw # rest)"
       "NatGatewayId gw = Some natId" "d1 = d\<lparr>Id := natId\<rparr>"
    by blast
  from b(6) have "Id d1 = natId" by simp
  with a b show ?thesis by blast
qed

lemma create_run:
  assumes s: "NatGatewayCreate_submit m d tr = (None, dw, trw)"
    and p: "\<forall>j < k. NatGateway_pending m (Suc (length trw) + j)"
    and k: "k \<le> retries (ext m) readRetryTimeout"
    and r: "rsp_DescribeNatGateways (vpc m) (Suc (length trw) + k) = Inr result"
  shows "(\<forall>g. result = [g] \<and> State g = Some ''AVAILABLE'' \<longrightarrow>
            resourceTencentCloudNatGatewayCreate m d tr =
              resourceTencentCloudNatGatewayRead m dw
                (trw @ RetryEnter readRetryTimeout #
                   replicate (Suc k) (Sdk (DescribeNatGateways [Id dw])) @ [RetryLeave None])) \<and>
         (length result \<noteq> 1 \<longrightarrow>
            resourceTencentCloudNatGatewayCreate m d tr =
              (Some (Errorf ''creating error''), dw,
               trw @ RetryEnter readRetryTimeout #
                 replicate (Suc k) (Sdk (DescribeNatGateways [Id dw])) @
                 [RetryLeave (Some (Errorf ''creating error''))]))"
  using create_wait_run[OF p k r, of "[Id dw]"] s
  by (simp add: resourceTencentCloudNatGatewayCreate_def)

lemma create_timeout:
  assumes s: "NatGatewayCreate_submit m d tr = (None, dw, trw)"
    and p: "\<forall>j \<le> retries (ext m) readRetryTimeout. NatGateway_pending m (Suc (length trw) + j)"
  shows "resourceTencentCloudNatGatewayCreate m d tr =
           (Some (Errorf ''creating not ready retry''), dw,
            trw @ RetryEnter readRetryTimeout #
              replicate (Suc (retries (ext m) readRetryTimeout)) (Sdk (DescribeNatGateways [Id dw])) @
              [RetryLeave (Some (Errorf ''creating not ready retry''))])"
  using create_wait_timeout[OF p, of "[Id dw]"] s
  by (simp add: resourceTencentCloudNatGatewayCreate_def)

text \<open>
  C2. The create operation of the NAT gateway returns success only if, after the
  CreateNatGateway call has succeeded (the submit part has returned nil, the resource ID
  being the ID of the first gateway of the answer to that call), the last
  DescribeNatGateways poll of the waiting loop, made for that ID, was answered with
  exactly one gateway whose state is "AVAILABLE". A poll answered with one gateway in
  any other state makes the closure return a retryable error, so the loop polls again
  while attempts remain (and returns "creating not ready retry" when none remains); a
  poll answered with a number of gateways other than one makes the closure return the
  non-retryable error "creating error", with which the loop ends at once; and create
  returns whatever error the waiting loop returns. Of the operation itself: when the
  first \<open>k\<close> polls after a successful submit are answered with one gateway in a state
  other than "AVAILABLE" (\<open>k\<close> not above the number of further attempts that the timeout
  allows), create polls \<open>k + 1\<close> times and then goes on with the read if the next answer
  holds one gateway in state "AVAILABLE", and returns "creating error" if the next
  answer does not hold exactly one gateway; when all the polls that the timeout allows
  are answered with one gateway in another state, create makes them all and returns
  "creating not ready retry".
\<close>

theorem nat_create_waits_for_available:
  "(resourceTencentCloudNatGatewayCreate m d tr = (None, d', tr') \<longrightarrow>
      (\<exists>d1 tr1 i g j gw rest natId. NatGatewayCreate_submit m d tr = (None, d1, tr1) \<and>
         length tr \<le> length tr1 \<and> length tr1 < i \<and> Suc i < length tr' \<and>
         tr' ! i = Sdk (DescribeNatGateways [Id d1]) \<and> tr' ! Suc i = RetryLeave None \<and>
         rsp_DescribeNatGateways (vpc m) i = Inr [g] \<and> State g = Some ''AVAILABLE'' \<and>
         length tr < j \<and> j < length tr1 \<and>
         tr1 ! j = Sdk (CreateNatGateway (nat_create_request (attrs d))) \<and>
         rsp_CreateNatGateway (vpc m) j = Inr (gw # rest) \<and>
         NatGatewayId gw = Some natId \<and> d1 = d\<lparr>Id := natId\<rparr> \<and> Id d1 = natId)) \<and>
   (rsp_DescribeNatGateways (vpc m) (length trp) = Inr result \<longrightarrow>
      (length result \<noteq> 1 \<longrightarrow>
         NatGatewayCreate_poll m ids () trp =
           (Some (NonRetryableError (Errorf ''creating error'')), (),
            trp @ [Sdk (DescribeNatGateways ids)]) \<and>
         retry_loop n (NatGatewayCreate_poll m ids) () trp =
           (Some (Errorf ''creating error''), (), trp @ [Sdk (DescribeNatGateways ids)])) \<and>
      (\<forall>g s. result = [g] \<and> State g = Some s \<and> s \<noteq> ''AVAILABLE'' \<longrightarrow>
         NatGatewayCreate_poll m ids () trp =
           (Some (RetryableError (Errorf ''creating not ready retry'')), (),
            trp @ [Sdk (DescribeNatGateways ids)]) \<and>
         retry_loop (Suc n) (NatGatewayCreate_poll m ids) () trp =
           retry_loop n (NatGatewayCreate_poll m ids) () (trp @ [Sdk (DescribeNatGateways ids)]) \<and>
         retry_loop 0 (NatGatewayCreate_poll m ids) () trp =
           (Some (Errorf ''creating not ready retry''), (),
            trp @ [Sdk (DescribeNatGateways ids)]))) \<and>
   (NatGatewayCreate_submit m d tr = (None, dw, trw) \<and>
    Retry m readRetryTimeout (NatGatewayCreate_poll m [Id dw]) () trw = (Some e, u, tre) \<longrightarrow>
      resourceTencentCloudNatGatewayCreate m d tr = (Some e, dw, tre)) \<and>
   (NatGatewayCreate_submit m d tr = (None, dw, trw) \<and>
    (\<forall>j < k. NatGateway_pending m (Suc (length trw) + j)) \<and>
    k \<le> retries (ext m) readRetryTimeout \<and>
    rsp_DescribeNatGateways (vpc m) (Suc (length trw) + k) = Inr answer \<longrightarrow>
      (\<forall>g. answer = [g] \<and> State g = Some ''AVAILABLE'' \<longrightarrow>
         resourceTencentCloudNatGatewayCreate m d tr =
           resourceTencentCloudNatGatewayRead m dw
             (trw @ RetryEnter readRetryTimeout #
                replicate (Suc k) (Sdk (DescribeNatGateways [Id dw])) @ [RetryLeave None])) \<and>
      (length answer \<noteq> 1 \<longrightarrow>
         resourceTencentCloudNatGatewayCreate m d tr =
           (Some (Errorf ''creating error''), dw,
            trw @ RetryEnter readRetryTimeout #
              replicate (Suc k) (Sdk (DescribeNatGateways [Id dw])) @
              [RetryLeave (Some (Errorf ''creating error''))]))) \<and>
   (NatGatewayCreate_submit m d tr = (None, dw, trw) \<and>
    (\<forall>j \<le> retries (ext m) readRetryTimeout. NatGateway_pending m (Suc (length trw) + j)) \<longrightarrow>
      resourceTencentCloudNatGatewayCreate m d tr =
        (Some (Errorf ''creating not ready retry''), dw,
         trw @ RetryEnter readRetryTimeout #
           replicate (Suc (retries (ext m) readRetryTimeout)) (Sdk (DescribeNatGateways [Id dw])) @
           [RetryLeave (Some (Errorf ''creating not ready retry''))]))"
proof (intro conjI impI)
  assume "resourceTencentCloudNatGatewayCreate m d tr = (None, d', tr')"
  then show "\<exists>d1 tr1 i g j gw rest natId. NatGatewayCreate_submit m d tr = (None, d1, tr1) \<and>
         length tr \<le> length tr1 \<and> length tr1 < i \<and> Suc i < length tr' \<and>
         tr' ! i = Sdk (DescribeNatGateways [Id d1]) \<and> tr' ! Suc i = RetryLeave None \<and>
         rsp_DescribeNatGateways (vpc m) i = Inr [g] \<and> State g = Some ''AVAILABLE'' \<and>
         length tr < j \<and> j < length tr1 \<and>
         tr1 ! j = Sdk (CreateNatGateway (nat_create_request (attrs d))) \<and>
         rsp_CreateNatGateway (vpc m) j = Inr (gw # rest) \<and>
         NatGatewayId gw = Some natId \<and> d1 = d\<lparr>Id := natId\<rparr> \<and> Id d1 = natId"
    by (rule create_success_tied)
next
  assume r: "rsp_DescribeNatGateways (vpc m) (length trp) = Inr result" and l: "length result \<noteq> 1"
  from NatGatewayCreate_poll_outcomes[OF r, of ids "()"] l
  show p: "NatGatewayCreate_poll m ids () trp =
           (Some (NonRetryableError (Errorf ''creating error'')), (),
            trp @ [Sdk (DescribeNatGateways ids)])" by simp
  then show "retry_loop n (NatGatewayCreate_poll m ids) () trp =
           (Some (Errorf ''creating error''), (), trp @ [Sdk (DescribeNatGateways ids)])"
    by (rule retry_loop_nonretryable)
next
  assume r: "rsp_DescribeNatGateways (vpc m) (length trp) = Inr result"
  show "\<forall>g s. result = [g] \<and> State g = Some s \<and> s \<noteq> ''AVAILABLE'' \<longrightarrow>
         NatGatewayCreate_poll m ids () trp =
           (Some (RetryableError (Errorf ''creating not ready retry'')), (),
            trp @ [Sdk (DescribeNatGateways ids)]) \<and>
         retry_loop (Suc n) (NatGatewayCreate_poll m ids) () trp =
           retry_loop n (NatGatewayCreate_poll m ids) () (trp @ [Sdk (DescribeNatGateways ids)]) \<and>
         retry_loop 0 (NatGatewayCreate_poll m ids) () trp =
           (Some (Errorf ''creating not ready retry''), (),
            trp @ [Sdk (DescribeNatGateways ids)])"
  proof (intro allI impI)
    fix g s assume "result = [g] \<and> State g = Some s \<and> s \<noteq> ''AVAILABLE''"
    with NatGatewayCreate_poll_outcomes[OF r, of ids "()"]
    have p: "NatGatewayCreate_poll m ids () trp =
           (Some (RetryableError (Errorf ''creating not ready retry'')), (),
            trp @ [Sdk (DescribeNatGateways ids)])" by simp
    with retry_loop_retryable[where f = "NatGatewayCreate_poll m ids" and n = n, OF p]
    show "NatGatewayCreate_poll m ids () trp =
           (Some (RetryableError (Errorf ''creating not ready retry'')), (),
            trp @ [Sdk (DescribeNatGateways ids)]) \<and>
         retry_loop (Suc n) (NatGatewayCreate_poll m ids) () trp =
           retry_loop n (NatGatewayCreate_poll m ids) () (trp @ [Sdk (DescribeNatGateways ids)]) \<and>
         retry_loop 0 (NatGatewayCreate_poll m ids) () trp =
           (Some (Errorf ''creating not ready retry''), (),
            trp @ [Sdk (DescribeNatGateways ids)])" by blast
  qed
next
  assume "NatGatewayCreate_submit m d tr = (None, dw, trw) \<and>
    Retry m readRetryTimeout (NatGatewayCreate_poll m [Id dw]) () trw = (Some e, u, tre)"
  then show "resourceTencentCloudNatGatewayCreate m d tr = (Some e, dw, tre)"
    using create_returns_wait_error by blast
next
  assume a: "NatGatewayCreate_submit m d tr = (None, dw, trw) \<and>
    (\<forall>j < k. NatGateway_pending m (Suc (length trw) + j)) \<and>
    k \<le> retries (ext m) readRetryTimeout \<and>
    rsp_DescribeNatGateways (vpc m) (Suc (length trw) + k) = Inr answer"
  then have s: "NatGatewayCreate_submit m d tr = (None, dw, trw)"
    and p: "\<forall>j < k. NatGateway_pending m (Suc (length trw) + j)"
    and k: "k \<le> retries (ext m) readRetryTimeout"
    and r: "rsp_DescribeNatGateways (vpc m) (Suc (length trw) + k) = Inr answer"
    by blast+
  note run = create_run[OF s p k r]
  from run show "\<forall>g. answer = [g] \<and> State g = Some ''AVAILABLE'' \<longrightarrow>
         resourceTencentCloudNatGatewayCreate m d tr =
           resourceTencentCloudNatGatewayRead m dw
             (trw @ RetryEnter readRetryTimeout #
                replicate (Suc k) (Sdk (DescribeNatGateways [Id dw])) @ [RetryLeave None])"
    by (rule conjunct1)
  assume "length answer \<noteq> 1"
  with run show "resourceTencentCloudNatGatewayCreate m d tr =
           (Some (Errorf ''creating error''), dw,
            trw @ RetryEnter readRetryTimeout #
              replicate (Suc k) (Sdk (DescribeNatGateways [Id dw])) @
              [RetryLeave (Some (Errorf ''creating error''))])"
    by blast
next
  assume "NatGatewayCreate_submit m d tr = (None, dw, trw) \<and>
    (\<forall>j \<le> retries (ext m) readRetryTimeout. NatGateway_pending m (Suc (length trw) + j))"
  then show "resourceTencentCloudNatGatewayCreate m d tr =
        (Some (Errorf ''creating not ready retry''), dw,
         trw @ RetryEnter readRetryTimeout #
           replicate (Suc (retries (ext m) readRetryTimeout)) (Sdk (DescribeNatGateways [Id dw])) @
           [RetryLeave (Some (Errorf ''creating not ready retry''))])"
    using create_timeout by blast
qed

theorem nat_create_waits_for_available_witness:
  "resourceTencentCloudNatGatewayCreate sample_client sample_nat [] =
     (None, sample_nat\<lparr>attrs := (attrs sample_nat)\<lparr>na_assigned_eip_set := [''1.1.1.1'']\<rparr>\<rparr>,
      [RetryEnter readRetryTimeout, Sdk (CreateNatGateway (nat_create_request (attrs sample_nat))),
       RetryLeave None,
       RetryEnter readRetryTimeout, Sdk (DescribeNatGateways [''nat-1'']), RetryLeave None,
       RetryEnter readRetryTimeout, Sdk (DescribeNatGateways [''nat-1'']), RetryLeave None,
       Service (DescribeResourceTags ''vpc'' ''nat'' ''ap-guangzhou'' ''nat-1'')]) \<and>
   (\<exists>i g j gw rest. rsp_DescribeNatGateways (vpc sample_client) i = Inr [g] \<and>
      State g = Some ''AVAILABLE'' \<and>
      rsp_CreateNatGateway (vpc sample_client) j = Inr (gw # rest) \<and>
      NatGatewayId gw = Some ''nat-1'') \<and>
   rsp_DescribeNatGateways (vpc empty_client) (length ([] :: log)) = Inr [] \<and>
   length ([] :: NatGateway list) \<noteq> 1 \<and>
   retry_loop 2 (NatGatewayCreate_poll empty_client [''nat-1'']) () [] =
     (Some (Errorf ''creating error''), (), [] @ [Sdk (DescribeNatGateways [''nat-1''])]) \<and>
   rsp_DescribeNatGateways (vpc (state_client ''PENDING'')) (length ([] :: log)) =
     Inr [sample_gateway\<lparr>State := Some ''PENDING''\<rparr>] \<and>
   State (sample_gateway\<lparr>State := Some ''PENDING''\<rparr>) = Some ''PENDING'' \<and>
   ''PENDING'' \<noteq> ''AVAILABLE'' \<and>
   retry_loop 0 (NatGatewayCreate_poll (state_client ''PENDING'') [''nat-1'']) () [] =
     (Some (Errorf ''creating not ready retry''), (), [] @ [Sdk (DescribeNatGateways [''nat-1''])]) \<and>
   NatGatewayCreate_submit empty_client sample_nat [] =
     (None, sample_nat,
      [RetryEnter readRetryTimeout, Sdk (CreateNatGateway (nat_create_request (attrs sample_nat))),
       RetryLeave None]) \<and>
   Retry empty_client readRetryTimeout (NatGatewayCreate_poll empty_client [Id sample_nat]) ()
       [RetryEnter readRetryTimeout, Sdk (CreateNatGateway (nat_create_request (attrs sample_nat))),
        RetryLeave None] =
     (Some (Errorf ''creating error''), (),
      [RetryEnter readRetryTimeout, Sdk (CreateNatGateway (nat_create_request (attrs sample_nat))),
       RetryLeave None,
       RetryEnter readRetryTimeout, Sdk (DescribeNatGateways [''nat-1'']),
       RetryLeave (Some (Errorf ''creating error''))]) \<and>
   resourceTencentCloudNatGatewayCreate empty_client sample_nat [] =
     (Some (Errorf ''creating error''), sample_nat,
      [RetryEnter readRetryTimeout, Sdk (CreateNatGateway (nat_create_request (attrs sample_nat))),
       RetryLeave None,
       RetryEnter readRetryTimeout, Sdk (DescribeNatGateways [''nat-1'']),
       RetryLeave (Some (Errorf ''creating error''))]) \<and>
   NatGatewayCreate_submit (pending_client [4]) sample_nat [] =
     (None, sample_nat,
      [RetryEnter readRetryTimeout, Sdk (CreateNatGateway (nat_create_request (attrs sample_nat))),
       RetryLeave None]) \<and>
   NatGateway_pending (pending_client [4]) 4 \<and>
   (1 :: nat) \<le> retries (ext (pending_client [4])) readRetryTimeout \<and>
   rsp_DescribeNatGateways (vpc (pending_client [4])) (Suc 3 + 1) = Inr [sample_gateway] \<and>
   State sample_gateway = Some ''AVAILABLE'' \<and>
   resourceTencentCloudNatGatewayCreate (pending_client [4]) sample_nat [] =
     (None, sample_nat\<lparr>attrs := (attrs sample_nat)\<lparr>na_assigned_eip_set := [''1.1.1.1'']\<rparr>\<rparr>,
      [RetryEnter readRetryTimeout, Sdk (CreateNatGateway (nat_create_request (attrs sample_nat))),
       RetryLeave None,
       RetryEnter readRetryTimeout, Sdk (DescribeNatGateways [''nat-1'']),
       Sdk (DescribeNatGateways [''nat-1'']), RetryLeave None,
       RetryEnter readRetryTimeout, Sdk (DescribeNatGateways [''nat-1'']), RetryLeave None,
       Service (DescribeResourceTags ''vpc'' ''nat'' ''ap-guangzhou'' ''nat-1'')]) \<and>
   retries (ext (pending_client [4, 5, 6])) readRetryTimeout = 2 \<and>
   NatGateway_pending (pending_client [4, 5, 6]) 4 \<and>
   NatGateway_pending (pending_client [4, 5, 6]) 5 \<and>
   NatGateway_pending (pending_client [4, 5, 6]) 6 \<and>
   resourceTencentCloudNatGatewayCreate (pending_client [4, 5, 6]) sample_nat [] =
     (Some (Errorf ''creating not ready retry''), sample_nat,
      [RetryEnter readRetryTimeout, Sdk (CreateNatGateway (nat_create_request (attrs sample_nat))),
       RetryLeave None,
       RetryEnter readRetryTimeout, Sdk (DescribeNatGateways [''nat-1'']),
       Sdk (DescribeNatGateways [''nat-1'']), Sdk (DescribeNatGateways [''nat-1'']),
       RetryLeave (Some (Errorf ''creating not ready retry''))])"
proof -
  let ?T1 = "[RetryEnter readRetryTimeout, Sdk (CreateNatGateway (nat_create_request (attrs sample_nat))),
       RetryLeave None]"
  let ?T = "[RetryEnter readRetryTimeout, Sdk (CreateNatGateway (nat_create_request (attrs sample_nat))),
       RetryLeave None,
       RetryEnter readRetryTimeout, Sdk (DescribeNatGateways [''nat-1'']), RetryLeave None,
       RetryEnter readRetryTimeout, Sdk (DescribeNatGateways [''nat-1'']), RetryLeave None,
       Service (DescribeResourceTags ''vpc'' ''nat'' ''ap-guangzhou'' ''nat-1'')]"
  let ?TP = "[RetryEnter readRetryTimeout, Sdk (CreateNatGateway (nat_create_request (attrs sample_nat))),
       RetryLeave None,
       RetryEnter readRetryTimeout, Sdk (DescribeNatGateways [''nat-1'']),
       Sdk (DescribeNatGateways [''nat-1'']), RetryLeave None,
       RetryEnter readRetryTimeout, Sdk (DescribeNatGateways [''nat-1'']), RetryLeave None,
       Service (DescribeResourceTags ''vpc'' ''nat'' ''ap-guangzhou'' ''nat-1'')]"
  let ?D = "sample_nat\<lparr>attrs := (attrs sample_nat)\<lparr>na_assigned_eip_set := [''1.1.1.1'']\<rparr>\<rparr>"
  let ?P = "pending_client [4]"
  let ?Q = "pending_client [4, 5, 6]"
  have sub: "NatGatewayCreate_submit sample_client sample_nat [] = (None, sample_nat, ?T1)"
    "NatGatewayCreate_submit empty_client sample_nat [] = (None, sample_nat, ?T1)"
    "NatGatewayCreate_submit ?P sample_nat [] = (None, sample_nat, ?T1)"
    "NatGatewayCreate_submit ?Q sample_nat [] = (None, sample_nat, ?T1)"
    by (simp_all add: NatGatewayCreate_submit_def Retry_def CreateNatGateway_closure_def
          empty_client_def pending_client_def sample_client_def sample_ext_def sample_gateway_def
          sample_nat_def eval_nat_numeral)
  have idn: "Id sample_nat = ''nat-1''" by (simp add: sample_nat_def)
  have wait: "Retry sample_client readRetryTimeout (NatGatewayCreate_poll sample_client [''nat-1'']) () ?T1 =
      (None, (), ?T1 @ [RetryEnter readRetryTimeout, Sdk (DescribeNatGateways [''nat-1'']), RetryLeave None])"
    by (simp add: Retry_def NatGatewayCreate_poll_def sample_client_def sample_ext_def
          sample_gateway_def eval_nat_numeral)
  have rd: "resourceTencentCloudNatGatewayRead sample_client sample_nat
      (?T1 @ [RetryEnter readRetryTimeout, Sdk (DescribeNatGateways [''nat-1'']), RetryLeave None]) =
      (None, ?D, ?T)"
    by (simp add: resourceTencentCloudNatGatewayRead_def Retry_def DescribeNatGateways_closure_def
          sample_client_def sample_ext_def sample_gateway_def sample_nat_def eval_nat_numeral)
  have a: "resourceTencentCloudNatGatewayCreate sample_client sample_nat [] = (None, ?D, ?T)"
    using sub(1) wait rd idn by (simp add: resourceTencentCloudNatGatewayCreate_def)
  have b1: "rsp_DescribeNatGateways (vpc empty_client) (length ([] :: log)) = Inr []"
    by (simp add: empty_client_def sample_client_def)
  have b2: "rsp_DescribeNatGateways (vpc (state_client ''PENDING'')) (length ([] :: log)) =
     Inr [sample_gateway\<lparr>State := Some ''PENDING''\<rparr>]"
    "State (sample_gateway\<lparr>State := Some ''PENDING''\<rparr>) = Some ''PENDING''"
    "''PENDING'' \<noteq> ''AVAILABLE''"
    by (simp_all add: state_client_def sample_client_def)
  have w2: "Retry empty_client readRetryTimeout (NatGatewayCreate_poll empty_client [Id sample_nat]) () ?T1 =
     (Some (Errorf ''creating error''), (),
      ?T1 @ [RetryEnter readRetryTimeout, Sdk (DescribeNatGateways [''nat-1'']),
       RetryLeave (Some (Errorf ''creating error''))])"
    by (simp add: Retry_def NatGatewayCreate_poll_def empty_client_def sample_client_def
          sample_ext_def idn eval_nat_numeral)
  have p1: "NatGateway_pending ?P 4"
    by (simp add: NatGateway_pending_def pending_client_def sample_client_def)
  have p1': "\<forall>j < 1. NatGateway_pending ?P (Suc (length ?T1) + j)"
    by (simp add: NatGateway_pending_def pending_client_def sample_client_def eval_nat_numeral)
  have k1: "(1 :: nat) \<le> retries (ext ?P) readRetryTimeout"
    by (simp add: pending_client_def sample_client_def sample_ext_def)
  have r1: "rsp_DescribeNatGateways (vpc ?P) (Suc 3 + 1) = Inr [sample_gateway]"
    by (simp add: pending_client_def sample_client_def)
  have r1': "rsp_DescribeNatGateways (vpc ?P) (Suc (length ?T1) + 1) = Inr [sample_gateway]"
    by (simp add: pending_client_def sample_client_def eval_nat_numeral)
  have av: "State sample_gateway = Some ''AVAILABLE''" by (simp add: sample_gateway_def)
  have nq: "retries (ext ?Q) readRetryTimeout = 2"
    by (simp add: pending_client_def sample_client_def sample_ext_def)
  have p2: "NatGateway_pending ?Q 4" "NatGateway_pending ?Q 5" "NatGateway_pending ?Q 6"
    by (simp_all add: NatGateway_pending_def pending_client_def sample_client_def)
  have p2': "\<forall>j \<le> retries (ext ?Q) readRetryTimeout. NatGateway_pending ?Q (Suc (length ?T1) + j)"
    unfolding nq
  proof (intro allI impI)
    fix j :: nat assume "j \<le> 2"
    then have "j = 0 \<or> j = 1 \<or> j = 2" by arith
    then show "NatGateway_pending ?Q (Suc (length ?T1) + j)"
      by (auto simp: NatGateway_pending_def pending_client_def sample_client_def)
  qed
  have rdp: "resourceTencentCloudNatGatewayRead ?P sample_nat
      (?T1 @ RetryEnter readRetryTimeout # replicate (Suc 1) (Sdk (DescribeNatGateways [''nat-1''])) @
         [RetryLeave None]) = (None, ?D, ?TP)"
    by (simp add: resourceTencentCloudNatGatewayRead_def Retry_def DescribeNatGateways_closure_def
          pending_client_def sample_client_def sample_ext_def sample_gateway_def sample_nat_def
          eval_nat_numeral)
  note A = nat_create_waits_for_available[where m = sample_client and d = sample_nat and tr = "[]"
      and d' = ?D and tr' = ?T, THEN conjunct1, rule_format, OF a]
  note B = nat_create_waits_for_available[where m = empty_client and trp = "[]" and result = "[]"
      and ids = "[''nat-1'']" and n = 2, THEN conjunct2, THEN conjunct1, rule_format, OF b1,
      THEN conjunct1, rule_format]
  note C = nat_create_waits_for_available[where m = "state_client ''PENDING''" and trp = "[]"
      and ids = "[''nat-1'']" and n = 0, THEN conjunct2, THEN conjunct1, rule_format, OF b2(1),
      THEN conjunct2, rule_format, of "sample_gateway\<lparr>State := Some ''PENDING''\<rparr>" "''PENDING''"]
  note D = nat_create_waits_for_available[where m = empty_client and d = sample_nat and tr = "[]"
      and dw = sample_nat and trw = ?T1, THEN conjunct2, THEN conjunct2, THEN conjunct1, rule_format,
      OF conjI[OF sub(2) w2]]
  note E = nat_create_waits_for_available[where m = ?P and d = sample_nat and tr = "[]"
      and dw = sample_nat and trw = ?T1 and k = 1 and answer = "[sample_gateway]",
      THEN conjunct2, THEN conjunct2, THEN conjunct2, THEN conjunct1, rule_format,
      OF conjI[OF sub(3) conjI[OF p1' conjI[OF k1 r1']]], THEN conjunct1, rule_format,
      of sample_gateway]
  note F = nat_create_waits_for_available[where m = ?Q and d = sample_nat and tr = "[]"
      and dw = sample_nat and trw = ?T1,
      THEN conjunct2, THEN conjunct2, THEN conjunct2, THEN conjunct2, rule_format,
      OF conjI[OF sub(4) p2']]
  have c1: "retry_loop 2 (NatGatewayCreate_poll empty_client [''nat-1'']) () [] =
     (Some (Errorf ''creating error''), (), [] @ [Sdk (DescribeNatGateways [''nat-1''])])"
    using B by simp
  have c2: "retry_loop 0 (NatGatewayCreate_poll (state_client ''PENDING'') [''nat-1'']) () [] =
     (Some (Errorf ''creating not ready retry''), (), [] @ [Sdk (DescribeNatGateways [''nat-1''])])"
    using C b2 by simp
  from A obtain dc trc i g j gw rest natId where
    o: "NatGatewayCreate_submit sample_client sample_nat [] = (None, dc, trc)"
       "rsp_DescribeNatGateways (vpc sample_client) i = Inr [g]" "State g = Some ''AVAILABLE''"
       "rsp_CreateNatGateway (vpc sample_client) j = Inr (gw # rest)"
       "NatGatewayId gw = Some natId" "Id dc = natId"
    by blast
  from o(1) sub(1) have "dc = sample_nat" by simp
  with o(5,6) idn have "NatGatewayId gw = Some ''nat-1''" by simp
  with o(2,3,4) have c0: "\<exists>i g j gw rest. rsp_DescribeNatGateways (vpc sample_client) i = Inr [g] \<and>
      State g = Some ''AVAILABLE'' \<and>
      rsp_CreateNatGateway (vpc sample_client) j = Inr (gw # rest) \<and>
      NatGatewayId gw = Some ''nat-1''"
    by blast
  have e: "resourceTencentCloudNatGatewayCreate ?P sample_nat [] = (None, ?D, ?TP)"
    using E av rdp idn by simp
  have f: "resourceTencentCloudNatGatewayCreate ?Q sample_nat [] =
     (Some (Errorf ''creating not ready retry''), sample_nat,
      ?T1 @ [RetryEnter readRetryTimeout, Sdk (DescribeNatGateways [''nat-1'']),
       Sdk (DescribeNatGateways [''nat-1'']), Sdk (DescribeNatGateways [''nat-1'']),
       RetryLeave (Some (Errorf ''creating not ready retry''))])"
    using F nq idn by (simp add: eval_nat_numeral)
  show ?thesis
    using a c0 b1 c1 b2 c2 sub(2) w2 D sub(3) p1 k1 r1 av e nq p2 f by simp
qed


subsection \<open>Waiting for the NAT gateway after delete\<close>

lemma NatGatewayDelete_poll_extends:
  "\<exists>evs. snd (snd (NatGatewayDelete_poll m ids v tr)) = tr @ evs"
  by (auto simp: NatGatewayDelete_poll_def Let_def split: sum.splits option.splits)

lemma NatGatewayDelete_poll_nil:
  assumes "NatGatewayDelete_poll m ids u tr = (None, u', tr')"
  shows "tr' = tr @ [Sdk (DescribeNatGateways ids)] \<and>
         rsp_DescribeNatGateways (vpc m) (length tr) = Inr []"
  using assms
  by (cases "rsp_DescribeNatGateways (vpc m) (length tr)")
     (auto simp: NatGatewayDelete_poll_def Let_def retryError_def split: if_splits option.splits)

lemma NatGatewayDelete_poll_outcomes:
  assumes "rsp_DescribeNatGateways (vpc m) (length tr) = Inr (g # gs)" and "State g = Some s"
  shows "(s = NAT_FAILED_STATE (ext m) \<longrightarrow>
            NatGatewayDelete_poll m ids u tr =
              (Some (NonRetryableError (Errorf ''delete NAT failed'')), u,
               tr @ [Sdk (DescribeNatGateways ids)])) \<and>
         (s \<noteq> NAT_FAILED_STATE (ext m) \<longrightarrow>
            NatGatewayDelete_poll m ids u tr =
              (Some (RetryableError (Errorf ''deleting retry'')), u,
               tr @ [Sdk (DescribeNatGateways ids), Sleep 3]))"
  using assms by (auto simp: NatGatewayDelete_poll_def Let_def)

lemma delete_success_poll:
  assumes "resourceTencentCloudNatGatewayDelete m d tr = (None, d', tr')"
  shows "\<exists>k. length tr < k \<and> Suc (Suc k) = length tr' \<and>
           tr' ! k = Sdk (DescribeNatGateways [Id d]) \<and> tr' ! Suc k = RetryLeave None \<and>
           rsp_DescribeNatGateways (vpc m) k = Inr []"
proof -
  let ?g = "DeleteNatGateway_closure m (Id d)"
  let ?f = "NatGatewayDelete_poll m [Id d]"
  obtain r1 u1 tr1 where D: "Retry m writeRetryTimeout ?g () tr = (r1, u1, tr1)"
    by (cases "Retry m writeRetryTimeout ?g () tr") auto
  with assms have r1: "r1 = None"
    by (cases r1) (auto simp: resourceTencentCloudNatGatewayDelete_def)
  obtain r2 u tr2 where W: "Retry m readRetryTimeout ?f () (tr1 @ [Sleep 10]) = (r2, u, tr2)"
    by (cases "Retry m readRetryTimeout ?f () (tr1 @ [Sleep 10])") auto
  with assms D r1 have r2: "r2 = None" and tr': "tr' = tr2"
    by (auto simp: resourceTencentCloudNatGatewayDelete_def)
  have "well_logged tr r1 tr1"
    by (rule wl_Retry[OF closures_inner(8) _ D]) simp
  from wl_extends[OF this] obtain evs1 where tr1: "tr1 = tr @ evs1" by blast
  from W r2 have W': "Retry m readRetryTimeout ?f () (tr1 @ [Sleep 10]) = (None, u, tr2)" by simp
  from Retry_success[where f = ?f, OF NatGatewayDelete_poll_extends W']
  obtain v0 evs0 tr0 where
    f: "?f v0 ((tr1 @ [Sleep 10]) @ RetryEnter readRetryTimeout # evs0) = (None, u, tr0)"
    and tr2: "tr2 = tr0 @ [RetryLeave None]" by blast
  let ?p = "(tr1 @ [Sleep 10]) @ RetryEnter readRetryTimeout # evs0"
  from NatGatewayDelete_poll_nil[OF f] have
    tr0: "tr0 = ?p @ [Sdk (DescribeNatGateways [Id d])]"
    and g: "rsp_DescribeNatGateways (vpc m) (length ?p) = Inr []"
    by auto
  have full: "tr' = ?p @ Sdk (DescribeNatGateways [Id d]) # [RetryLeave None]"
    unfolding tr' tr2 tr0 by simp
  have n1: "tr' ! length ?p = Sdk (DescribeNatGateways [Id d])"
    unfolding full by (simp only: nth_append_length)
  have "tr' = (?p @ [Sdk (DescribeNatGateways [Id d])]) @ [RetryLeave None]"
    unfolding full by simp
  then have "tr' ! length (?p @ [Sdk (DescribeNatGateways [Id d])]) = RetryLeave None"
    by (simp only: nth_append_length)
  then have n2: "tr' ! Suc (length ?p) = RetryLeave None" by simp
  have len: "length tr < length ?p" "Suc (Suc (length ?p)) = length tr'"
    unfolding full using tr1 by auto
  show ?thesis
    using len n1 n2 g by blast
qed

lemma delete_returns_wait_result:
  assumes "Retry m writeRetryTimeout (DeleteNatGateway_closure m (Id d)) () tr = (None, u, tr1)"
    and "Retry m readRetryTimeout (NatGatewayDelete_poll m [Id d]) () (tr1 @ [Sleep 10]) = (r, u', tr2)"
  shows "resourceTencentCloudNatGatewayDelete m d tr = (r, d, tr2)"
  using assms by (simp add: resourceTencentCloudNatGatewayDelete_def)

lemma length_concat_replicate_pair: "length (concat (replicate j [a, b])) = 2 * j"
  by (induction j) simp_all

lemma delete_poll_remaining:
  "NatGateway_remaining m (length tr) \<Longrightarrow>
   NatGatewayDelete_poll m ids u tr =
     (Some (RetryableError (Errorf ''deleting retry'')), u,
      tr @ [Sdk (DescribeNatGateways ids), Sleep 3])"
  by (auto simp: NatGateway_remaining_def NatGatewayDelete_poll_def Let_def
        split: sum.splits list.splits option.splits)

lemma delete_wait_remaining:
  assumes "\<forall>j < k. NatGateway_remaining m (length tr + 2 + 2 * j)" and "j < k"
  shows "\<exists>x. NatGatewayDelete_poll m ids ()
               (((tr @ [Sleep 10]) @ [RetryEnter t]) @
                concat (replicate j [Sdk (DescribeNatGateways ids), Sleep 3])) =
             (Some (RetryableError x), (),
              ((tr @ [Sleep 10]) @ [RetryEnter t]) @
              concat (replicate j [Sdk (DescribeNatGateways ids), Sleep 3]) @
              [Sdk (DescribeNatGateways ids), Sleep 3])"
proof -
  let ?p = "((tr @ [Sleep 10]) @ [RetryEnter t]) @
            concat (replicate j [Sdk (DescribeNatGateways ids), Sleep 3])"
  have "length ?p = length tr + 2 + 2 * j" by (simp add: length_concat_replicate_pair)
  with assms have "NatGateway_remaining m (length ?p)" by simp
  from delete_poll_remaining[OF this, of ids "()"] show ?thesis by simp
qed

lemma delete_wait_run:
  assumes p: "\<forall>j < k. NatGateway_remaining m (length tr + 2 + 2 * j)"
    and k: "k \<le> retries (ext m) readRetryTimeout"
    and r: "rsp_DescribeNatGateways (vpc m) (length tr + 2 + 2 * k) = Inr answer"
  shows "(answer = [] \<longrightarrow>
            Retry m readRetryTimeout (NatGatewayDelete_poll m ids) () (tr @ [Sleep 10]) =
              (None, (),
               tr @ Sleep 10 # RetryEnter readRetryTimeout #
                 concat (replicate k [Sdk (DescribeNatGateways ids), Sleep 3]) @
                 [Sdk (DescribeNatGateways ids), RetryLeave None])) \<and>
         (\<forall>g gs. answer = g # gs \<and> State g = Some (NAT_FAILED_STATE (ext m)) \<longrightarrow>
            Retry m readRetryTimeout (NatGatewayDelete_poll m ids) () (tr @ [Sleep 10]) =
              (Some (Errorf ''delete NAT failed''), (),
               tr @ Sleep 10 # RetryEnter readRetryTimeout #
                 concat (replicate k [Sdk (DescribeNatGateways ids), Sleep 3]) @
                 [Sdk (DescribeNatGateways ids), RetryLeave (Some (Errorf ''delete NAT failed''))]))"
proof -
  let ?E = "Sdk (DescribeNatGateways ids)"
  let ?er = "[?E, Sleep 3]"
  let ?f = "NatGatewayDelete_poll m ids"
  let ?t0 = "(tr @ [Sleep 10]) @ [RetryEnter readRetryTimeout]"
  let ?p = "?t0 @ concat (replicate k ?er)"
  have len: "length ?p = length tr + 2 + 2 * k" by (simp add: length_concat_replicate_pair)
  have skip: "\<And>j. j < k \<Longrightarrow> \<exists>x. ?f () (?t0 @ concat (replicate j ?er)) =
      (Some (RetryableError x), (), ?t0 @ concat (replicate j ?er) @ ?er)"
    using delete_wait_remaining[OF p] by blast
  from r len have r': "rsp_DescribeNatGateways (vpc m) (length ?p) = Inr answer" by simp
  show ?thesis
  proof (intro conjI allI impI)
    assume "answer = []"
    with r' have "?f () ?p = (None, (), ?p @ [?E])"
      by (simp add: NatGatewayDelete_poll_def)
    from retry_loop_run_nil[where f = ?f, OF skip k this]
    show "Retry m readRetryTimeout ?f () (tr @ [Sleep 10]) =
              (None, (), tr @ Sleep 10 # RetryEnter readRetryTimeout #
                 concat (replicate k ?er) @ [?E, RetryLeave None])"
      unfolding Retry_def by simp
  next
    fix g gs assume a: "answer = g # gs \<and> State g = Some (NAT_FAILED_STATE (ext m))"
    with r' have r'': "rsp_DescribeNatGateways (vpc m) (length ?p) = Inr (g # gs)" by simp
    from a have s: "State g = Some (NAT_FAILED_STATE (ext m))" by simp
    from NatGatewayDelete_poll_outcomes[OF r'' s, of ids "()"]
    have "?f () ?p = (Some (NonRetryableError (Errorf ''delete NAT failed'')), (), ?p @ [?E])"
      by simp
    from retry_loop_run_quit[where f = ?f, OF skip k this]
    show "Retry m readRetryTimeout ?f () (tr @ [Sleep 10]) =
              (Some (Errorf ''delete NAT failed''), (),
               tr @ Sleep 10 # RetryEnter readRetryTimeout #
                 concat (replicate k ?er) @ [?E, RetryLeave (Some (Errorf ''delete NAT failed''))])"
      unfolding Retry_def by simp
  qed
qed

lemma delete_wait_timeout:
  assumes p: "\<forall>j \<le> retries (ext m) readRetryTimeout. NatGateway_remaining m (length tr + 2 + 2 * j)"
  shows "Retry m readRetryTimeout (NatGatewayDelete_poll m ids) () (tr @ [Sleep 10]) =
           (Some (Errorf ''deleting retry''), (),
            tr @ Sleep 10 # RetryEnter readRetryTimeout #
              concat (replicate (Suc (retries (ext m) readRetryTimeout))
                        [Sdk (DescribeNatGateways ids), Sleep 3]) @
              [RetryLeave (Some (Errorf ''deleting retry''))])"
proof -
  let ?n = "retries (ext m) readRetryTimeout"
  let ?E = "Sdk (DescribeNatGateways ids)"
  let ?er = "[?E, Sleep 3]"
  let ?f = "NatGatewayDelete_poll m ids"
  let ?t0 = "(tr @ [Sleep 10]) @ [RetryEnter readRetryTimeout]"
  let ?p = "?t0 @ concat (replicate ?n ?er)"
  from p have p': "\<forall>j < ?n. NatGateway_remaining m (length tr + 2 + 2 * j)" by auto
  have skip: "\<And>j. j < ?n \<Longrightarrow> \<exists>x. ?f () (?t0 @ concat (replicate j ?er)) =
      (Some (RetryableError x), (), ?t0 @ concat (replicate j ?er) @ ?er)"
    using delete_wait_remaining[OF p'] by blast
  have "length ?p = length tr + 2 + 2 * ?n" by (simp add: length_concat_replicate_pair)
  with p have "NatGateway_remaining m (length ?p)" by simp
  from delete_poll_remaining[OF this, of ids "()"]
  have last: "?f () ?p = (Some (RetryableError (Errorf ''deleting retry'')), (), ?p @ ?er)"
    by simp
  from retry_loop_run_timeout[where f = ?f and er = ?er, OF skip] last
  have "retry_loop ?n ?f () ?t0 =
          (Some (Errorf ''deleting retry''), (), ?t0 @ concat (replicate (Suc ?n) ?er))"
    by simp
  then show ?thesis
    unfolding Retry_def by simp
qed

lemma delete_run:
  assumes s: "Retry m writeRetryTimeout (DeleteNatGateway_closure m (Id d)) () tr = (None, u, trw)"
    and p: "\<forall>j < k. NatGateway_remaining m (length trw + 2 + 2 * j)"
    and k: "k \<le> retries (ext m) readRetryTimeout"
    and r: "rsp_DescribeNatGateways (vpc m) (length trw + 2 + 2 * k) = Inr answer"
  shows "(answer = [] \<longrightarrow>
            resourceTencentCloudNatGatewayDelete m d tr =
              (None, d,
               trw @ Sleep 10 # RetryEnter readRetryTimeout #
                 concat (replicate k [Sdk (DescribeNatGateways [Id d]), Sleep 3]) @
                 [Sdk (DescribeNatGateways [Id d]), RetryLeave None])) \<and>
         (\<forall>g gs. answer = g # gs \<and> State g = Some (NAT_FAILED_STATE (ext m)) \<longrightarrow>
            resourceTencentCloudNatGatewayDelete m d tr =
              (Some (Errorf ''delete NAT failed''), d,
               trw @ Sleep 10 # RetryEnter readRetryTimeout #
                 concat (replicate k [Sdk (DescribeNatGateways [Id d]), Sleep 3]) @
                 [Sdk (DescribeNatGateways [Id d]),
                  RetryLeave (Some (Errorf ''delete NAT failed''))]))"
  using delete_wait_run[OF p k r, of "[Id d]"] s
  by (simp add: resourceTencentCloudNatGatewayDelete_def)

lemma delete_timeout:
  assumes s: "Retry m writeRetryTimeout (DeleteNatGateway_closure m (Id d)) () tr = (None, u, trw)"
    and p: "\<forall>j \<le> retries (ext m) readRetryTimeout. NatGateway_remaining m (length trw + 2 + 2 * j)"
  shows "resourceTencentCloudNatGatewayDelete m d tr =
           (Some (Errorf ''deleting retry''), d,
            trw @ Sleep 10 # RetryEnter readRetryTimeout #
              concat (replicate (Suc (retries (ext m) readRetryTimeout))
                        [Sdk (DescribeNatGateways [Id d]), Sleep 3]) @
              [RetryLeave (Some (Errorf ''deleting retry''))])"
  using delete_wait_timeout[OF p, of "[Id d]"] s
  by (simp add: resourceTencentCloudNatGatewayDelete_def)

text \<open>
  C3. The delete operation of the NAT gateway returns success only if the last event
  before the end of its waiting loop is a DescribeNatGateways poll answered with no
  gateway. A poll answered with a first gateway in the state \<^verbatim>\<open>NAT_FAILED_STATE\<close> makes
  the closure return the non-retryable error "delete NAT failed", with which the loop
  ends at once; a poll answered with a first gateway in any other state makes the closure
  sleep and return a retryable error, so the loop polls again while attempts remain (and
  returns "deleting retry" when the timeout has expired); and delete returns the result
  of the waiting loop. Of the operation itself: when the DeleteNatGateway call has
  succeeded and the first \<open>k\<close> polls are answered with a first gateway in a state other
  than \<^verbatim>\<open>NAT_FAILED_STATE\<close> (\<open>k\<close> not above the number of further attempts that the
  timeout allows), delete polls \<open>k + 1\<close> times, sleeping after each of the first \<open>k\<close>,
  and returns nil if the next answer holds no gateway and "delete NAT failed" if its
  first gateway is in the state \<^verbatim>\<open>NAT_FAILED_STATE\<close>; when all the polls that the timeout
  allows are answered with a first gateway in another state, delete makes them all and
  returns "deleting retry".
\<close>

theorem nat_delete_waits_for_removal:
  "(resourceTencentCloudNatGatewayDelete m d tr = (None, d', tr') \<longrightarrow>
      (\<exists>i. length tr < i \<and> Suc (Suc i) = length tr' \<and>
         tr' ! i = Sdk (DescribeNatGateways [Id d]) \<and> tr' ! Suc i = RetryLeave None \<and>
         rsp_DescribeNatGateways (vpc m) i = Inr [])) \<and>
   (rsp_DescribeNatGateways (vpc m) (length trp) = Inr (g # gs) \<and> State g = Some s \<longrightarrow>
      (s = NAT_FAILED_STATE (ext m) \<longrightarrow>
         NatGatewayDelete_poll m ids () trp =
           (Some (NonRetryableError (Errorf ''delete NAT failed'')), (),
            trp @ [Sdk (DescribeNatGateways ids)]) \<and>
         retry_loop n (NatGatewayDelete_poll m ids) () trp =
           (Some (Errorf ''delete NAT failed''), (), trp @ [Sdk (DescribeNatGateways ids)])) \<and>
      (s \<noteq> NAT_FAILED_STATE (ext m) \<longrightarrow>
         NatGatewayDelete_poll m ids () trp =
           (Some (RetryableError (Errorf ''deleting retry'')), (),
            trp @ [Sdk (DescribeNatGateways ids), Sleep 3]) \<and>
         retry_loop (Suc n) (NatGatewayDelete_poll m ids) () trp =
           retry_loop n (NatGatewayDelete_poll m ids) ()
             (trp @ [Sdk (DescribeNatGateways ids), Sleep 3]) \<and>
         retry_loop 0 (NatGatewayDelete_poll m ids) () trp =
           (Some (Errorf ''deleting retry''), (),
            trp @ [Sdk (DescribeNatGateways ids), Sleep 3]))) \<and>
   (Retry m writeRetryTimeout (DeleteNatGateway_closure m (Id d)) () tr = (None, u, trw) \<and>
    Retry m readRetryTimeout (NatGatewayDelete_poll m [Id d]) () (trw @ [Sleep 10]) = (r, u', tre) \<longrightarrow>
      resourceTencentCloudNatGatewayDelete m d tr = (r, d, tre)) \<and>
   (Retry m writeRetryTimeout (DeleteNatGateway_closure m (Id d)) () tr = (None, u, trw) \<and>
    (\<forall>j < k. NatGateway_remaining m (length trw + 2 + 2 * j)) \<and>
    k \<le> retries (ext m) readRetryTimeout \<and>
    rsp_DescribeNatGateways (vpc m) (length trw + 2 + 2 * k) = Inr answer \<longrightarrow>
      (answer = [] \<longrightarrow>
         resourceTencentCloudNatGatewayDelete m d tr =
           (None, d,
            trw @ Sleep 10 # RetryEnter readRetryTimeout #
              concat (replicate k [Sdk (DescribeNatGateways [Id d]), Sleep 3]) @
              [Sdk (DescribeNatGateways [Id d]), RetryLeave None])) \<and>
      (\<forall>gf gr. answer = gf # gr \<and> State gf = Some (NAT_FAILED_STATE (ext m)) \<longrightarrow>
         resourceTencentCloudNatGatewayDelete m d tr =
           (Some (Errorf ''delete NAT failed''), d,
            trw @ Sleep 10 # RetryEnter readRetryTimeout #
              concat (replicate k [Sdk (DescribeNatGateways [Id d]), Sleep 3]) @
              [Sdk (DescribeNatGateways [Id d]),
               RetryLeave (Some (Errorf ''delete NAT failed''))]))) \<and>
   (Retry m writeRetryTimeout (DeleteNatGateway_closure m (Id d)) () tr = (None, u, trw) \<and>
    (\<forall>j \<le> retries (ext m) readRetryTimeout. NatGateway_remaining m (length trw + 2 + 2 * j)) \<longrightarrow>
      resourceTencentCloudNatGatewayDelete m d tr =
        (Some (Errorf ''deleting retry''), d,
         trw @ Sleep 10 # RetryEnter readRetryTimeout #
           concat (replicate (Suc (retries (ext m) readRetryTimeout))
                     [Sdk (DescribeNatGateways [Id d]), Sleep 3]) @
           [RetryLeave (Some (Errorf ''deleting retry''))]))"
proof (intro conjI impI)
  assume "resourceTencentCloudNatGatewayDelete m d tr = (None, d', tr')"
  then show "\<exists>i. length tr < i \<and> Suc (Suc i) = length tr' \<and>
         tr' ! i = Sdk (DescribeNatGateways [Id d]) \<and> tr' ! Suc i = RetryLeave None \<and>
         rsp_DescribeNatGateways (vpc m) i = Inr []"
    by (rule delete_success_poll)
next
  assume r: "rsp_DescribeNatGateways (vpc m) (length trp) = Inr (g # gs) \<and> State g = Some s"
    and s: "s = NAT_FAILED_STATE (ext m)"
  from r s NatGatewayDelete_poll_outcomes[of m trp g gs s ids "()"]
  show p: "NatGatewayDelete_poll m ids () trp =
           (Some (NonRetryableError (Errorf ''delete NAT failed'')), (),
            trp @ [Sdk (DescribeNatGateways ids)])" by simp
  then show "retry_loop n (NatGatewayDelete_poll m ids) () trp =
           (Some (Errorf ''delete NAT failed''), (), trp @ [Sdk (DescribeNatGateways ids)])"
    by (rule retry_loop_nonretryable)
next
  assume r: "rsp_DescribeNatGateways (vpc m) (length trp) = Inr (g # gs) \<and> State g = Some s"
    and s: "s \<noteq> NAT_FAILED_STATE (ext m)"
  from r s NatGatewayDelete_poll_outcomes[of m trp g gs s ids "()"]
  show p: "NatGatewayDelete_poll m ids () trp =
           (Some (RetryableError (Errorf ''deleting retry'')), (),
            trp @ [Sdk (DescribeNatGateways ids), Sleep 3])" by simp
  from retry_loop_retryable[where f = "NatGatewayDelete_poll m ids" and n = n, OF p]
  show "retry_loop (Suc n) (NatGatewayDelete_poll m ids) () trp =
           retry_loop n (NatGatewayDelete_poll m ids) ()
             (trp @ [Sdk (DescribeNatGateways ids), Sleep 3])"
    and "retry_loop 0 (NatGatewayDelete_poll m ids) () trp =
           (Some (Errorf ''deleting retry''), (),
            trp @ [Sdk (DescribeNatGateways ids), Sleep 3])" by blast+
next
  assume "Retry m writeRetryTimeout (DeleteNatGateway_closure m (Id d)) () tr = (None, u, trw) \<and>
    Retry m readRetryTimeout (NatGatewayDelete_poll m [Id d]) () (trw @ [Sleep 10]) = (r, u', tre)"
  then show "resourceTencentCloudNatGatewayDelete m d tr = (r, d, tre)"
    using delete_returns_wait_result by blast
next
  assume a: "Retry m writeRetryTimeout (DeleteNatGateway_closure m (Id d)) () tr = (None, u, trw) \<and>
    (\<forall>j < k. NatGateway_remaining m (length trw + 2 + 2 * j)) \<and>
    k \<le> retries (ext m) readRetryTimeout \<and>
    rsp_DescribeNatGateways (vpc m) (length trw + 2 + 2 * k) = Inr answer"
  then have s: "Retry m writeRetryTimeout (DeleteNatGateway_closure m (Id d)) () tr = (None, u, trw)"
    and p: "\<forall>j < k. NatGateway_remaining m (length trw + 2 + 2 * j)"
    and k: "k \<le> retries (ext m) readRetryTimeout"
    and r: "rsp_DescribeNatGateways (vpc m) (length trw + 2 + 2 * k) = Inr answer"
    by blast+
  note run = delete_run[OF s p k r]
  from run show "\<forall>gf gr. answer = gf # gr \<and> State gf = Some (NAT_FAILED_STATE (ext m)) \<longrightarrow>
         resourceTencentCloudNatGatewayDelete m d tr =
           (Some (Errorf ''delete NAT failed''), d,
            trw @ Sleep 10 # RetryEnter readRetryTimeout #
              concat (replicate k [Sdk (DescribeNatGateways [Id d]), Sleep 3]) @
              [Sdk (DescribeNatGateways [Id d]),
               RetryLeave (Some (Errorf ''delete NAT failed''))])"
    by (rule conjunct2)
  assume "answer = []"
  with run show "resourceTencentCloudNatGatewayDelete m d tr =
           (None, d,
            trw @ Sleep 10 # RetryEnter readRetryTimeout #
              concat (replicate k [Sdk (DescribeNatGateways [Id d]), Sleep 3]) @
              [Sdk (DescribeNatGateways [Id d]), RetryLeave None])"
    by blast
next
  assume "Retry m writeRetryTimeout (DeleteNatGateway_closure m (Id d)) () tr = (None, u, trw) \<and>
    (\<forall>j \<le> retries (ext m) readRetryTimeout. NatGateway_remaining m (length trw + 2 + 2 * j))"
  then show "resourceTencentCloudNatGatewayDelete m d tr =
        (Some (Errorf ''deleting retry''), d,
         trw @ Sleep 10 # RetryEnter readRetryTimeout #
           concat (replicate (Suc (retries (ext m) readRetryTimeout))
                     [Sdk (DescribeNatGateways [Id d]), Sleep 3]) @
           [RetryLeave (Some (Errorf ''deleting retry''))])"
    using delete_timeout by blast
qed

theorem nat_delete_waits_for_removal_witness:
  "resourceTencentCloudNatGatewayDelete empty_client sample_nat [] =
     (None, sample_nat,
      [RetryEnter writeRetryTimeout, Sdk (DeleteNatGateway ''nat-1''), RetryLeave None, Sleep 10,
       RetryEnter readRetryTimeout, Sdk (DescribeNatGateways [''nat-1'']), RetryLeave None]) \<and>
   (\<exists>i. rsp_DescribeNatGateways (vpc empty_client) i = Inr []) \<and>
   rsp_DescribeNatGateways (vpc (state_client ''FAILED'')) (length ([] :: log)) =
     Inr (sample_gateway\<lparr>State := Some ''FAILED''\<rparr> # []) \<and>
   State (sample_gateway\<lparr>State := Some ''FAILED''\<rparr>) = Some ''FAILED'' \<and>
   ''FAILED'' = NAT_FAILED_STATE (ext (state_client ''FAILED'')) \<and>
   retry_loop 2 (NatGatewayDelete_poll (state_client ''FAILED'') [''nat-1'']) () [] =
     (Some (Errorf ''delete NAT failed''), (), [] @ [Sdk (DescribeNatGateways [''nat-1''])]) \<and>
   rsp_DescribeNatGateways (vpc sample_client) (length ([] :: log)) = Inr (sample_gateway # []) \<and>
   State sample_gateway = Some ''AVAILABLE'' \<and>
   ''AVAILABLE'' \<noteq> NAT_FAILED_STATE (ext sample_client) \<and>
   retry_loop 0 (NatGatewayDelete_poll sample_client [''nat-1'']) () [] =
     (Some (Errorf ''deleting retry''), (), [] @ [Sdk (DescribeNatGateways [''nat-1'']), Sleep 3]) \<and>
   Retry (state_client ''FAILED'') writeRetryTimeout
       (DeleteNatGateway_closure (state_client ''FAILED'') (Id sample_nat)) () [] =
     (None, (), [RetryEnter writeRetryTimeout, Sdk (DeleteNatGateway ''nat-1''), RetryLeave None]) \<and>
   Retry (state_client ''FAILED'') readRetryTimeout
       (NatGatewayDelete_poll (state_client ''FAILED'') [Id sample_nat]) ()
       ([RetryEnter writeRetryTimeout, Sdk (DeleteNatGateway ''nat-1''), RetryLeave None] @ [Sleep 10]) =
     (Some (Errorf ''delete NAT failed''), (),
      [RetryEnter writeRetryTimeout, Sdk (DeleteNatGateway ''nat-1''), RetryLeave None, Sleep 10,
       RetryEnter readRetryTimeout, Sdk (DescribeNatGateways [''nat-1'']),
       RetryLeave (Some (Errorf ''delete NAT failed''))]) \<and>
   resourceTencentCloudNatGatewayDelete (state_client ''FAILED'') sample_nat [] =
     (Some (Errorf ''delete NAT failed''), sample_nat,
      [RetryEnter writeRetryTimeout, Sdk (DeleteNatGateway ''nat-1''), RetryLeave None, Sleep 10,
       RetryEnter readRetryTimeout, Sdk (DescribeNatGateways [''nat-1'']),
       RetryLeave (Some (Errorf ''delete NAT failed''))]) \<and>
   Retry (deleting_client [5]) writeRetryTimeout
       (DeleteNatGateway_closure (deleting_client [5]) (Id sample_nat)) () [] =
     (None, (), [RetryEnter writeRetryTimeout, Sdk (DeleteNatGateway ''nat-1''), RetryLeave None]) \<and>
   NatGateway_remaining (deleting_client [5]) 5 \<and>
   (1 :: nat) \<le> retries (ext (deleting_client [5])) readRetryTimeout \<and>
   rsp_DescribeNatGateways (vpc (deleting_client [5])) (3 + 2 + 2 * 1) = Inr [] \<and>
   resourceTencentCloudNatGatewayDelete (deleting_client [5]) sample_nat [] =
     (None, sample_nat,
      [RetryEnter writeRetryTimeout, Sdk (DeleteNatGateway ''nat-1''), RetryLeave None, Sleep 10,
       RetryEnter readRetryTimeout, Sdk (DescribeNatGateways [''nat-1'']), Sleep 3,
       Sdk (DescribeNatGateways [''nat-1'']), RetryLeave None]) \<and>
   Retry (deleting_client [5, 7, 9]) writeRetryTimeout
       (DeleteNatGateway_closure (deleting_client [5, 7, 9]) (Id sample_nat)) () [] =
     (None, (), [RetryEnter writeRetryTimeout, Sdk (DeleteNatGateway ''nat-1''), RetryLeave None]) \<and>
   retries (ext (deleting_client [5, 7, 9])) readRetryTimeout = 2 \<and>
   NatGateway_remaining (deleting_client [5, 7, 9]) 5 \<and>
   NatGateway_remaining (deleting_client [5, 7, 9]) 7 \<and>
   NatGateway_remaining (deleting_client [5, 7, 9]) 9 \<and>
   resourceTencentCloudNatGatewayDelete (deleting_client [5, 7, 9]) sample_nat [] =
     (Some (Errorf ''deleting retry''), sample_nat,
      [RetryEnter writeRetryTimeout, Sdk (DeleteNatGateway ''nat-1''), RetryLeave None, Sleep 10,
       RetryEnter readRetryTimeout, Sdk (DescribeNatGateways [''nat-1'']), Sleep 3,
       Sdk (DescribeNatGateways [''nat-1'']), Sleep 3,
       Sdk (DescribeNatGateways [''nat-1'']), Sleep 3,
       RetryLeave (Some (Errorf ''deleting retry''))])"
proof -
  let ?T1 = "[RetryEnter writeRetryTimeout, Sdk (DeleteNatGateway ''nat-1''), RetryLeave None]"
  let ?T = "[RetryEnter writeRetryTimeout, Sdk (DeleteNatGateway ''nat-1''), RetryLeave None, Sleep 10,
       RetryEnter readRetryTimeout, Sdk (DescribeNatGateways [''nat-1'']), RetryLeave None]"
  let ?TF = "[RetryEnter writeRetryTimeout, Sdk (DeleteNatGateway ''nat-1''), RetryLeave None, Sleep 10,
       RetryEnter readRetryTimeout, Sdk (DescribeNatGateways [''nat-1'']),
       RetryLeave (Some (Errorf ''delete NAT failed''))]"
  let ?F = "state_client ''FAILED''"
  let ?P = "deleting_client [5]"
  let ?Q = "deleting_client [5, 7, 9]"
  have idn: "Id sample_nat = ''nat-1''" by (simp add: sample_nat_def)
  have a: "resourceTencentCloudNatGatewayDelete empty_client sample_nat [] = (None, sample_nat, ?T)"
    by (simp add: resourceTencentCloudNatGatewayDelete_def Retry_def DeleteNatGateway_closure_def
          NatGatewayDelete_poll_def empty_client_def sample_client_def sample_ext_def idn
          eval_nat_numeral)
  have b1: "rsp_DescribeNatGateways (vpc ?F) (length ([] :: log)) =
     Inr (sample_gateway\<lparr>State := Some ''FAILED''\<rparr> # []) \<and>
     State (sample_gateway\<lparr>State := Some ''FAILED''\<rparr>) = Some ''FAILED''"
    and f: "''FAILED'' = NAT_FAILED_STATE (ext ?F)"
    by (simp_all add: state_client_def sample_client_def sample_ext_def)
  have b2: "rsp_DescribeNatGateways (vpc sample_client) (length ([] :: log)) = Inr (sample_gateway # []) \<and>
     State sample_gateway = Some ''AVAILABLE''"
    and nf: "''AVAILABLE'' \<noteq> NAT_FAILED_STATE (ext sample_client)"
    by (simp_all add: sample_client_def sample_ext_def sample_gateway_def)
  have d1: "Retry ?F writeRetryTimeout (DeleteNatGateway_closure ?F (Id sample_nat)) () [] = (None, (), ?T1)"
    "Retry ?P writeRetryTimeout (DeleteNatGateway_closure ?P (Id sample_nat)) () [] = (None, (), ?T1)"
    "Retry ?Q writeRetryTimeout (DeleteNatGateway_closure ?Q (Id sample_nat)) () [] = (None, (), ?T1)"
    by (simp_all add: Retry_def DeleteNatGateway_closure_def state_client_def deleting_client_def
          sample_client_def sample_ext_def idn eval_nat_numeral)
  have d2: "Retry ?F readRetryTimeout (NatGatewayDelete_poll ?F [Id sample_nat]) () (?T1 @ [Sleep 10]) =
     (Some (Errorf ''delete NAT failed''), (), ?TF)"
    by (simp add: Retry_def NatGatewayDelete_poll_def state_client_def sample_client_def
          sample_ext_def idn eval_nat_numeral)
  have p1: "NatGateway_remaining ?P 5"
    by (simp add: NatGateway_remaining_def deleting_client_def sample_client_def sample_ext_def)
  have p1': "\<forall>j < 1. NatGateway_remaining ?P (length ?T1 + 2 + 2 * j)"
    by (simp add: NatGateway_remaining_def deleting_client_def sample_client_def sample_ext_def
          eval_nat_numeral)
  have k1: "(1 :: nat) \<le> retries (ext ?P) readRetryTimeout"
    by (simp add: deleting_client_def sample_client_def sample_ext_def)
  have r1: "rsp_DescribeNatGateways (vpc ?P) (3 + 2 + 2 * 1) = Inr []"
    by (simp add: deleting_client_def sample_client_def)
  have r1': "rsp_DescribeNatGateways (vpc ?P) (length ?T1 + 2 + 2 * 1) = Inr []"
    by (simp add: deleting_client_def sample_client_def eval_nat_numeral)
  have nq: "retries (ext ?Q) readRetryTimeout = 2"
    by (simp add: deleting_client_def sample_client_def sample_ext_def)
  have p2: "NatGateway_remaining ?Q 5" "NatGateway_remaining ?Q 7" "NatGateway_remaining ?Q 9"
    by (simp_all add: NatGateway_remaining_def deleting_client_def sample_client_def sample_ext_def)
  have p2': "\<forall>j \<le> retries (ext ?Q) readRetryTimeout. NatGateway_remaining ?Q (length ?T1 + 2 + 2 * j)"
    unfolding nq
  proof (intro allI impI)
    fix j :: nat assume "j \<le> 2"
    then have "j = 0 \<or> j = 1 \<or> j = 2" by arith
    then show "NatGateway_remaining ?Q (length ?T1 + 2 + 2 * j)"
      by (auto simp: NatGateway_remaining_def deleting_client_def sample_client_def sample_ext_def)
  qed
  note A = nat_delete_waits_for_removal[where m = empty_client and d = sample_nat and tr = "[]"
      and d' = sample_nat and tr' = ?T, THEN conjunct1, rule_format, OF a]
  note B = nat_delete_waits_for_removal[where m = ?F and trp = "[]" and ids = "[''nat-1'']" and n = 2,
      THEN conjunct2, THEN conjunct1, rule_format, OF b1, THEN conjunct1, rule_format, OF f]
  note C = nat_delete_waits_for_removal[where m = sample_client and trp = "[]" and ids = "[''nat-1'']"
      and n = 0, THEN conjunct2, THEN conjunct1, rule_format, OF b2, THEN conjunct2, rule_format, OF nf]
  note D = nat_delete_waits_for_removal[where m = ?F and d = sample_nat and tr = "[]"
      and trw = ?T1, THEN conjunct2, THEN conjunct2, THEN conjunct1, rule_format,
      OF conjI[OF d1(1) d2]]
  note E = nat_delete_waits_for_removal[where m = ?P and d = sample_nat and tr = "[]"
      and trw = ?T1 and k = 1 and answer = "[]",
      THEN conjunct2, THEN conjunct2, THEN conjunct2, THEN conjunct1, rule_format,
      OF conjI[OF d1(2) conjI[OF p1' conjI[OF k1 r1']]], THEN conjunct1, rule_format]
  note F = nat_delete_waits_for_removal[where m = ?Q and d = sample_nat and tr = "[]"
      and trw = ?T1,
      THEN conjunct2, THEN conjunct2, THEN conjunct2, THEN conjunct2, rule_format,
      OF conjI[OF d1(3) p2']]
  from A have c0: "\<exists>i. rsp_DescribeNatGateways (vpc empty_client) i = Inr []" by blast
  have e: "resourceTencentCloudNatGatewayDelete ?P sample_nat [] =
     (None, sample_nat,
      ?T1 @ [Sleep 10, RetryEnter readRetryTimeout, Sdk (DescribeNatGateways [''nat-1'']), Sleep 3,
       Sdk (DescribeNatGateways [''nat-1'']), RetryLeave None])"
    using E idn by simp
  have f': "resourceTencentCloudNatGatewayDelete ?Q sample_nat [] =
     (Some (Errorf ''deleting retry''), sample_nat,
      ?T1 @ [Sleep 10, RetryEnter readRetryTimeout, Sdk (DescribeNatGateways [''nat-1'']), Sleep 3,
       Sdk (DescribeNatGateways [''nat-1'']), Sleep 3,
       Sdk (DescribeNatGateways [''nat-1'']), Sleep 3,
       RetryLeave (Some (Errorf ''deleting retry''))])"
    using F nq idn by (simp add: eval_nat_numeral)
  show ?thesis
    using a c0 b1 f B b2 nf C d1 d2 D p1 k1 r1 e nq p2 f' by simp
qed

subsection \<open>Update of the EIPs of the NAT gateway\<close>

text \<open>
  What holds of the first disassociate request: it is shorter than the list of old
  EIPs, and when no old EIP is kept it holds all of them but the last, which is
  \<^verbatim>\<open>backUpOldIp\<close>.
\<close>

lemma unassign_loop_short:
  "length req < n \<Longrightarrow> length (fst (unassign_loop n new xs (req, b))) < n"
  by (induction n new xs "(req, b)" arbitrary: req b rule: unassign_loop.induct) auto

lemma unassign_loop_all:
  "xs \<noteq> [] \<Longrightarrow> set xs \<inter> set new = {} \<Longrightarrow>
   unassign_loop (length req + length xs) new xs (req, b) = (req @ butlast xs, last xs)"
proof (induction xs arbitrary: req b)
  case Nil
  then show ?case by simp
next
  case (Cons x xs)
  show ?case
  proof (cases "xs = []")
    case True
    with Cons.prems show ?thesis by simp
  next
    case False
    from Cons.prems have x: "x \<notin> set new" and d: "set xs \<inter> set new = {}" by auto
    have "unassign_loop (length (req @ [x]) + length xs) new xs (req @ [x], b) =
            ((req @ [x]) @ butlast xs, last xs)"
      by (rule Cons.IH[OF False d])
    with x False show ?thesis by simp
  qed
qed

lemma first_disassociate_keeps_one:
  "oldEipSet \<noteq> [] \<Longrightarrow> length (fst (unassigned_of oldEipSet newEipSet)) < length oldEipSet"
  by (simp add: unassigned_of_def unassign_loop_short)

lemma all_removed_last_withheld:
  "oldEipSet \<noteq> [] \<Longrightarrow> set oldEipSet \<inter> set newEipSet = {} \<Longrightarrow>
   unassigned_of oldEipSet newEipSet = (butlast oldEipSet, last oldEipSet)"
  using unassign_loop_all[of oldEipSet newEipSet "[]"] by (simp add: unassigned_of_def)

text \<open>
  C8, evaluated. With \<^verbatim>\<open>NAT_EIP_MAX_LIMIT\<close> 10, one old EIP and six new ones (none of them
  old): the update associates the first three new EIPs, disassociates the old one, and
  associates the sixth; the fourth and the fifth were assigned to \<^verbatim>\<open>backUpNewIp\<close> in
  turn and overwritten, and are in no request. With ten old EIPs replaced by ten new
  ones, no new EIP is withheld: all ten are in the first associate request, made while
  the tenth old EIP is still attached.
\<close>

theorem eip_update_drops_withheld_addresses:
  "na_assigned_eip_set (prior sample_nat) = [''1.1.1.1''] \<and>
   na_assigned_eip_set (attrs sample_nat) =
     [''2.2.2.1'', ''2.2.2.2'', ''2.2.2.3'', ''2.2.2.4'', ''2.2.2.5'', ''2.2.2.6''] \<and>
   NAT_EIP_MAX_LIMIT (ext sample_client) = 10 \<and>
   resourceTencentCloudNatGatewayUpdate sample_client sample_nat [] =
     (None, sample_nat,
      [Sleep 180,
       RetryEnter readRetryTimeout,
       Sdk (AssociateNatGatewayAddress ''nat-1'' [''2.2.2.1'', ''2.2.2.2'', ''2.2.2.3'']),
       RetryLeave None,
       Sleep 180,
       RetryEnter readRetryTimeout,
       Service (DisassociateNatGatewayAddress ''nat-1'' [''1.1.1.1'']),
       RetryLeave None,
       RetryEnter readRetryTimeout,
       Sdk (AssociateNatGatewayAddress ''nat-1'' [''2.2.2.6'']),
       RetryLeave None]) \<and>
   assigned_of 10 (na_assigned_eip_set (prior sample_nat_full))
       (na_assigned_eip_set (attrs sample_nat_full)) =
     (na_assigned_eip_set (attrs sample_nat_full), [])"
proof -
  have l: "assigned_of 10 [''1.1.1.1'']
       [''2.2.2.1'', ''2.2.2.2'', ''2.2.2.3'', ''2.2.2.4'', ''2.2.2.5'', ''2.2.2.6''] =
     ([''2.2.2.1'', ''2.2.2.2'', ''2.2.2.3''], ''2.2.2.6'')"
    by (simp add: assigned_of_def)
  have u: "unassigned_of [''1.1.1.1'']
       [''2.2.2.1'', ''2.2.2.2'', ''2.2.2.3'', ''2.2.2.4'', ''2.2.2.5'', ''2.2.2.6''] =
     ([], ''1.1.1.1'')"
    by (simp add: unassigned_of_def)
  have e: "NatGatewayUpdate_eip_requests sample_client ''nat-1'' ([], ''1.1.1.1'')
       ([''2.2.2.1'', ''2.2.2.2'', ''2.2.2.3''], ''2.2.2.6'') [] =
     (None,
      [Sleep 180,
       RetryEnter readRetryTimeout,
       Sdk (AssociateNatGatewayAddress ''nat-1'' [''2.2.2.1'', ''2.2.2.2'', ''2.2.2.3'']),
       RetryLeave None,
       Sleep 180,
       RetryEnter readRetryTimeout,
       Service (DisassociateNatGatewayAddress ''nat-1'' [''1.1.1.1'']),
       RetryLeave None,
       RetryEnter readRetryTimeout,
       Sdk (AssociateNatGatewayAddress ''nat-1'' [''2.2.2.6'']),
       RetryLeave None])"
    by (simp add: Retry_when_def Retry_def DisassociateNatGatewayAddress_closure_def
          AssociateNatGatewayAddress_closure_def sample_client_def sample_ext_def eval_nat_numeral)
  have lim: "NAT_EIP_MAX_LIMIT (ext sample_client) = 10"
    by (simp add: sample_client_def sample_ext_def)
  have run: "resourceTencentCloudNatGatewayUpdate sample_client sample_nat [] =
     (None, sample_nat,
      [Sleep 180,
       RetryEnter readRetryTimeout,
       Sdk (AssociateNatGatewayAddress ''nat-1'' [''2.2.2.1'', ''2.2.2.2'', ''2.2.2.3'']),
       RetryLeave None,
       Sleep 180,
       RetryEnter readRetryTimeout,
       Service (DisassociateNatGatewayAddress ''nat-1'' [''1.1.1.1'']),
       RetryLeave None,
       RetryEnter readRetryTimeout,
       Sdk (AssociateNatGatewayAddress ''nat-1'' [''2.2.2.6'']),
       RetryLeave None])"
    using l u e lim
    by (simp add: resourceTencentCloudNatGatewayUpdate_def NatGatewayUpdate_attribute_def
          NatGatewayUpdate_concurrent_def NatGatewayUpdate_eip_def NatGatewayUpdate_tags_def
          sample_nat_def)
  have full: "assigned_of 10 (na_assigned_eip_set (prior sample_nat_full))
       (na_assigned_eip_set (attrs sample_nat_full)) =
     (na_assigned_eip_set (attrs sample_nat_full), [])"
    by (simp add: assigned_of_def sample_nat_full_def sample_nat_def)
  show ?thesis
    using run full lim by (simp add: sample_nat_def)
qed

subsection \<open>Validation of the NAT gateway schema\<close>

lemma schema_args:
  "validate_config is_ip NatGatewaySchema cfg \<longleftrightarrow>
     validate_argument is_ip (the (map_of NatGatewaySchema ''vpc_id'')) (cfg ''vpc_id'') \<and>
     validate_argument is_ip (the (map_of NatGatewaySchema ''name'')) (cfg ''name'') \<and>
     validate_argument is_ip (the (map_of NatGatewaySchema ''max_concurrent'')) (cfg ''max_concurrent'') \<and>
     validate_argument is_ip (the (map_of NatGatewaySchema ''bandwidth'')) (cfg ''bandwidth'') \<and>
     validate_argument is_ip (the (map_of NatGatewaySchema ''assigned_eip_set'')) (cfg ''assigned_eip_set'') \<and>
     validate_argument is_ip (the (map_of NatGatewaySchema ''zone'')) (cfg ''zone'') \<and>
     validate_argument is_ip (the (map_of NatGatewaySchema ''tags'')) (cfg ''tags'') \<and>
     validate_argument is_ip (the (map_of NatGatewaySchema ''created_time'')) (cfg ''created_time'')"
  by (simp add: validate_config_def NatGatewaySchema_def)

lemma name_ok:
  "validate_argument is_ip ((plain TypeString)
         \<lparr>Required := True, ValidateFunc := Some (validateStringLengthInRange 1 60)\<rparr>) v \<longleftrightarrow>
   (\<exists>n. v = Some (VString n) \<and> 1 \<le> length n \<and> length n \<le> 60)"
proof (cases v)
  case None
  then show ?thesis by (simp add: validate_argument_def plain_def)
next
  case (Some x)
  then show ?thesis
    by (cases x) (auto simp: validate_argument_def validate_value_def plain_def)
qed

lemma max_concurrent_ok:
  "validate_argument is_ip ((plain TypeInt)
         \<lparr>Optional := True, Default := Some (VInt 1000000),
          ValidateFunc := Some (validateAllowedIntValue [1000000, 3000000, 10000000])\<rparr>) v \<longleftrightarrow>
   (v = None \<or> (\<exists>c. v = Some (VInt c) \<and> c \<in> {1000000, 3000000, 10000000}))"
proof (cases v)
  case None
  then show ?thesis by (simp add: validate_argument_def plain_def)
next
  case (Some x)
  then show ?thesis
    by (cases x) (auto simp: validate_argument_def validate_value_def plain_def)
qed

lemma elem_ip:
  "validate_elem is_ip \<lparr>elem_Type = TypeString, elem_ValidateFunc = Some validateIp\<rparr> x \<longleftrightarrow>
   (\<exists>s. x = VString s \<and> is_ip s)"
  by (cases x) (auto simp: validate_elem_def)

lemma eip_ok:
  "validate_argument is_ip ((plain TypeSet)
         \<lparr>Required := True,
          Elem := Some \<lparr>elem_Type = TypeString, elem_ValidateFunc = Some validateIp\<rparr>,
          MinItems := 1, MaxItems := 10\<rparr>) v \<longleftrightarrow>
   (\<exists>l. v = Some (VSet l) \<and> 1 \<le> length l \<and> length l \<le> 10 \<and>
        (\<forall>x \<in> set l. \<exists>s. x = VString s \<and> is_ip s))"
proof (cases v)
  case None
  then show ?thesis by (simp add: validate_argument_def plain_def)
next
  case (Some x)
  then show ?thesis
    by (cases x) (auto simp: validate_argument_def validate_value_def plain_def elem_ip list_all_iff)
qed

text \<open>
  C7. The validation of the NAT gateway schema accepts a configuration only if \<open>name\<close>
  is a string of length between 1 and 60, \<open>max_concurrent\<close> (1000000 when it is left
  out) is one of 1000000, 3000000 and 10000000, and \<open>assigned_eip_set\<close> has between 1
  and 10 elements, each a string that validates as an IP address.
\<close>

theorem nat_gateway_schema_validation:
  "validate_config is_ip NatGatewaySchema cfg \<longrightarrow>
     (\<exists>n. cfg ''name'' = Some (VString n) \<and> 1 \<le> length n \<and> length n \<le> 60) \<and>
     (\<exists>c. effective_value NatGatewaySchema cfg ''max_concurrent'' = Some (VInt c) \<and>
          c \<in> {1000000, 3000000, 10000000}) \<and>
     (cfg ''max_concurrent'' = None \<longrightarrow>
        effective_value NatGatewaySchema cfg ''max_concurrent'' = Some (VInt 1000000)) \<and>
     (\<exists>l. cfg ''assigned_eip_set'' = Some (VSet l) \<and> 1 \<le> length l \<and> length l \<le> 10 \<and>
          (\<forall>x \<in> set l. \<exists>s. x = VString s \<and> is_ip s))"
proof
  assume v: "validate_config is_ip NatGatewaySchema cfg"
  have m: "map_of NatGatewaySchema ''name'' = Some ((plain TypeString)
         \<lparr>Required := True, ValidateFunc := Some (validateStringLengthInRange 1 60)\<rparr>)"
    "map_of NatGatewaySchema ''max_concurrent'' = Some ((plain TypeInt)
         \<lparr>Optional := True, Default := Some (VInt 1000000),
          ValidateFunc := Some (validateAllowedIntValue [1000000, 3000000, 10000000])\<rparr>)"
    "map_of NatGatewaySchema ''assigned_eip_set'' = Some ((plain TypeSet)
         \<lparr>Required := True,
          Elem := Some \<lparr>elem_Type = TypeString, elem_ValidateFunc = Some validateIp\<rparr>,
          MinItems := 1, MaxItems := 10\<rparr>)"
    by (simp_all add: NatGatewaySchema_def)
  from v have n: "\<exists>n. cfg ''name'' = Some (VString n) \<and> 1 \<le> length n \<and> length n \<le> 60"
    and c: "cfg ''max_concurrent'' = None \<or>
            (\<exists>c. cfg ''max_concurrent'' = Some (VInt c) \<and> c \<in> {1000000, 3000000, 10000000})"
    and e: "\<exists>l. cfg ''assigned_eip_set'' = Some (VSet l) \<and> 1 \<le> length l \<and> length l \<le> 10 \<and>
          (\<forall>x \<in> set l. \<exists>s. x = VString s \<and> is_ip s)"
    unfolding schema_args m option.sel name_ok max_concurrent_ok eip_ok by blast+
  have d: "Default ((plain TypeInt)
         \<lparr>Optional := True, Default := Some (VInt 1000000),
          ValidateFunc := Some (validateAllowedIntValue [1000000, 3000000, 10000000])\<rparr>) =
        Some (VInt 1000000)" by simp
  from c have "\<exists>c. effective_value NatGatewaySchema cfg ''max_concurrent'' = Some (VInt c) \<and>
          c \<in> {1000000, 3000000, 10000000}"
    by (auto simp: effective_value_def m(2) d)
  moreover have "cfg ''max_concurrent'' = None \<longrightarrow>
        effective_value NatGatewaySchema cfg ''max_concurrent'' = Some (VInt 1000000)"
    by (simp add: effective_value_def m(2) d)
  ultimately show "(\<exists>n. cfg ''name'' = Some (VString n) \<and> 1 \<le> length n \<and> length n \<le> 60) \<and>
     (\<exists>c. effective_value NatGatewaySchema cfg ''max_concurrent'' = Some (VInt c) \<and>
          c \<in> {1000000, 3000000, 10000000}) \<and>
     (cfg ''max_concurrent'' = None \<longrightarrow>
        effective_value NatGatewaySchema cfg ''max_concurrent'' = Some (VInt 1000000)) \<and>
     (\<exists>l. cfg ''assigned_eip_set'' = Some (VSet l) \<and> 1 \<le> length l \<and> length l \<le> 10 \<and>
          (\<forall>x \<in> set l. \<exists>s. x = VString s \<and> is_ip s))"
    using n e by blast
qed

theorem nat_gateway_schema_validation_witness:
  "validate_config (\<lambda>s. s \<noteq> []) NatGatewaySchema sample_config \<and>
   sample_config ''name'' = Some (VString ''tf_example_nat_gateway'') \<and>
   sample_config ''max_concurrent'' = None \<and>
   effective_value NatGatewaySchema sample_config ''max_concurrent'' = Some (VInt 1000000) \<and>
   (\<exists>l. sample_config ''assigned_eip_set'' = Some (VSet l) \<and> 1 \<le> length l \<and> length l \<le> 10)"
proof -
  have v: "validate_config (\<lambda>s. s \<noteq> []) NatGatewaySchema sample_config"
    by (simp add: validate_config_def NatGatewaySchema_def sample_config_def plain_def
          validate_argument_def validate_value_def validate_elem_def)
  have c: "sample_config ''name'' = Some (VString ''tf_example_nat_gateway'')"
    "sample_config ''max_concurrent'' = None"
    by (simp_all add: sample_config_def)
  from nat_gateway_schema_validation[of "\<lambda>s. s \<noteq> []" sample_config] v c
  show ?thesis by blast
qed

end
